theory Spec2Isabelle
  imports Main "HOL-Library.Sublist" "HOL-Library.Product_Lexorder" "HOL-Library.Multiset"
begin

section \<open>Blug: a static blog generator\<close>

text \<open>
  A shallow embedding of \<^verbatim>\<open>src/blug/blug.py\<close>. A Python \<^verbatim>\<open>str\<close> is modelled as
  the list of its code points, the values of \<^verbatim>\<open>ord\<close> on its characters. The
  character classes and the case mappings are those of Python 3.11 (Unicode character
  database 14.0.0), held in the tables below. The Markdown engine, the parser of dates, the
  templates and the answers of the operating system are parameters of the functions that
  use them.
\<close>

subsection \<open>Strings\<close>

type_synonym str = "int list"

text \<open>\<^verbatim>\<open>ord\<close> of an ASCII character, and the string of an ASCII literal.\<close>

definition ord :: "char \<Rightarrow> int" where
  "ord c = of_char c"

definition lit :: "string \<Rightarrow> str" where
  "lit s = map ord s"

subsection \<open>Python errors\<close>

text \<open>The exceptions that the functions below raise or let through, with their message
  or key. In Python 3, \<^verbatim>\<open>EnvironmentError\<close> is \<^verbatim>\<open>OSError\<close>: the errors of the operating
  system are values of this class too, of whatever subclass but \<^verbatim>\<open>FileExistsError\<close>, which
  \<^verbatim>\<open>os.makedirs\<close> tells apart. \<open>OtherError\<close> is any other exception, with the name of its
  class.\<close>

datatype py_error =
    KeyError str
  | IndexError
  | ValueError
  | UnicodeDecodeError
  | UnicodeEncodeError
  | EnvironmentError str
  | FileExistsError str
  | TemplateNotFound str
  | OtherError str str

subsection \<open>The Unicode character database\<close>

text \<open>A table is a search tree of ranges of code points, each range \<open>lo \<dots> hi\<close> with a
  value.\<close>

datatype 'a ranges = Leaf | Node "'a ranges" int int 'a "'a ranges"

fun lookup :: "'a ranges \<Rightarrow> int \<Rightarrow> 'a option" where
  "lookup Leaf c = None"
| "lookup (Node l lo hi v r) c =
     (if c < lo then lookup l c else if hi < c then lookup r c else Some v)"

fun entries :: "'a ranges \<Rightarrow> (int \<times> int \<times> 'a) list" where
  "entries Leaf = []"
| "entries (Node l lo hi v r) = entries l @ (lo, hi, v) # entries r"

definition alnum_ranges_1 :: "unit ranges" where
  "alnum_ranges_1 =
     Node (Node (Node (Node (Node (Node Leaf 48 57 () Leaf) 65 90 () (Node Leaf 97 122 ()
       Leaf)) 170 170 () (Node (Node Leaf 178 179 () Leaf) 181 181 () (Node Leaf 185 186 ()
       Leaf))) 188 190 () (Node (Node (Node Leaf 192 214 () Leaf) 216 246 () (Node Leaf 248
       705 () Leaf)) 710 721 () (Node (Node Leaf 736 740 () Leaf) 748 748 () (Node Leaf 750
       750 () Leaf)))) 880 884 () (Node (Node (Node (Node Leaf 886 887 () Leaf) 890 893 ()
       (Node Leaf 895 895 () Leaf)) 902 902 () (Node (Node Leaf 904 906 () Leaf) 908 908 ()
       (Node Leaf 910 929 () Leaf))) 931 1013 () (Node (Node (Node Leaf 1015 1153 () Leaf)
       1162 1327 () (Node Leaf 1329 1366 () Leaf)) 1369 1369 () (Node (Node Leaf 1376 1416
       () Leaf) 1488 1514 () (Node Leaf 1519 1522 () Leaf))))) 1568 1610 () (Node (Node
       (Node (Node (Node Leaf 1632 1641 () Leaf) 1646 1647 () (Node Leaf 1649 1747 () Leaf))
       1749 1749 () (Node (Node Leaf 1765 1766 () Leaf) 1774 1788 () (Node Leaf 1791 1791 ()
       Leaf))) 1808 1808 () (Node (Node (Node Leaf 1810 1839 () Leaf) 1869 1957 () (Node
       Leaf 1969 1969 () Leaf)) 1984 2026 () (Node (Node Leaf 2036 2037 () Leaf) 2042 2042
       () (Node Leaf 2048 2069 () Leaf)))) 2074 2074 () (Node (Node (Node (Node Leaf 2084
       2084 () Leaf) 2088 2088 () (Node Leaf 2112 2136 () Leaf)) 2144 2154 () (Node (Node
       Leaf 2160 2183 () Leaf) 2185 2190 () (Node Leaf 2208 2249 () Leaf))) 2308 2361 ()
       (Node (Node (Node Leaf 2365 2365 () Leaf) 2384 2384 () (Node Leaf 2392 2401 () Leaf))
       2406 2415 () (Node (Node Leaf 2417 2432 () Leaf) 2437 2444 () (Node Leaf 2447 2448 ()
       Leaf)))))"

definition alnum_ranges_2 :: "unit ranges" where
  "alnum_ranges_2 =
     Node (Node (Node (Node (Node (Node Leaf 2474 2480 () Leaf) 2482 2482 () (Node Leaf 2486
       2489 () Leaf)) 2493 2493 () (Node (Node Leaf 2510 2510 () Leaf) 2524 2525 () (Node
       Leaf 2527 2529 () Leaf))) 2534 2545 () (Node (Node (Node Leaf 2548 2553 () Leaf) 2556
       2556 () (Node Leaf 2565 2570 () Leaf)) 2575 2576 () (Node (Node Leaf 2579 2600 ()
       Leaf) 2602 2608 () (Node Leaf 2610 2611 () Leaf)))) 2613 2614 () (Node (Node (Node
       (Node Leaf 2616 2617 () Leaf) 2649 2652 () (Node Leaf 2654 2654 () Leaf)) 2662 2671
       () (Node (Node Leaf 2674 2676 () Leaf) 2693 2701 () (Node Leaf 2703 2705 () Leaf)))
       2707 2728 () (Node (Node (Node Leaf 2730 2736 () Leaf) 2738 2739 () (Node Leaf 2741
       2745 () Leaf)) 2749 2749 () (Node (Node Leaf 2768 2768 () Leaf) 2784 2785 () (Node
       Leaf 2790 2799 () Leaf))))) 2809 2809 () (Node (Node (Node (Node (Node Leaf 2821 2828
       () Leaf) 2831 2832 () (Node Leaf 2835 2856 () Leaf)) 2858 2864 () (Node (Node Leaf
       2866 2867 () Leaf) 2869 2873 () (Node Leaf 2877 2877 () Leaf))) 2908 2909 () (Node
       (Node (Node Leaf 2911 2913 () Leaf) 2918 2927 () (Node Leaf 2929 2935 () Leaf)) 2947
       2947 () (Node (Node Leaf 2949 2954 () Leaf) 2958 2960 () (Node Leaf 2962 2965 ()
       Leaf)))) 2969 2970 () (Node (Node (Node (Node Leaf 2972 2972 () Leaf) 2974 2975 ()
       (Node Leaf 2979 2980 () Leaf)) 2984 2986 () (Node (Node Leaf 2990 3001 () Leaf) 3024
       3024 () (Node Leaf 3046 3058 () Leaf))) 3077 3084 () (Node (Node (Node Leaf 3086 3088
       () Leaf) 3090 3112 () (Node Leaf 3114 3129 () Leaf)) 3133 3133 () (Node (Node Leaf
       3160 3162 () Leaf) 3165 3165 () (Node Leaf 3168 3169 () Leaf)))))"

definition alnum_ranges_3 :: "unit ranges" where
  "alnum_ranges_3 =
     Node (Node (Node (Node (Node (Node Leaf 3192 3198 () Leaf) 3200 3200 () (Node Leaf 3205
       3212 () Leaf)) 3214 3216 () (Node (Node Leaf 3218 3240 () Leaf) 3242 3251 () (Node
       Leaf 3253 3257 () Leaf))) 3261 3261 () (Node (Node (Node Leaf 3293 3294 () Leaf) 3296
       3297 () (Node Leaf 3302 3311 () Leaf)) 3313 3314 () (Node (Node Leaf 3332 3340 ()
       Leaf) 3342 3344 () (Node Leaf 3346 3386 () Leaf)))) 3389 3389 () (Node (Node (Node
       (Node Leaf 3406 3406 () Leaf) 3412 3414 () (Node Leaf 3416 3425 () Leaf)) 3430 3448
       () (Node (Node Leaf 3450 3455 () Leaf) 3461 3478 () (Node Leaf 3482 3505 () Leaf)))
       3507 3515 () (Node (Node (Node Leaf 3517 3517 () Leaf) 3520 3526 () (Node Leaf 3558
       3567 () Leaf)) 3585 3632 () (Node (Node Leaf 3634 3635 () Leaf) 3648 3654 () (Node
       Leaf 3664 3673 () Leaf))))) 3713 3714 () (Node (Node (Node (Node (Node Leaf 3716 3716
       () Leaf) 3718 3722 () (Node Leaf 3724 3747 () Leaf)) 3749 3749 () (Node (Node Leaf
       3751 3760 () Leaf) 3762 3763 () (Node Leaf 3773 3773 () Leaf))) 3776 3780 () (Node
       (Node (Node Leaf 3782 3782 () Leaf) 3792 3801 () (Node Leaf 3804 3807 () Leaf)) 3840
       3840 () (Node (Node Leaf 3872 3891 () Leaf) 3904 3911 () (Node Leaf 3913 3948 ()
       Leaf)))) 3976 3980 () (Node (Node (Node (Node Leaf 4096 4138 () Leaf) 4159 4169 ()
       (Node Leaf 4176 4181 () Leaf)) 4186 4189 () (Node (Node Leaf 4193 4193 () Leaf) 4197
       4198 () (Node Leaf 4206 4208 () Leaf))) 4213 4225 () (Node (Node (Node Leaf 4238 4238
       () Leaf) 4240 4249 () (Node Leaf 4256 4293 () Leaf)) 4295 4295 () (Node (Node Leaf
       4301 4301 () Leaf) 4304 4346 () (Node Leaf 4348 4680 () Leaf)))))"

definition alnum_ranges_4 :: "unit ranges" where
  "alnum_ranges_4 =
     Node (Node (Node (Node (Node (Node Leaf 4688 4694 () Leaf) 4696 4696 () (Node Leaf 4698
       4701 () Leaf)) 4704 4744 () (Node (Node Leaf 4746 4749 () Leaf) 4752 4784 () (Node
       Leaf 4786 4789 () Leaf))) 4792 4798 () (Node (Node (Node Leaf 4800 4800 () Leaf) 4802
       4805 () (Node Leaf 4808 4822 () Leaf)) 4824 4880 () (Node (Node Leaf 4882 4885 ()
       Leaf) 4888 4954 () (Node Leaf 4969 4988 () Leaf)))) 4992 5007 () (Node (Node (Node
       (Node Leaf 5024 5109 () Leaf) 5112 5117 () (Node Leaf 5121 5740 () Leaf)) 5743 5759
       () (Node (Node Leaf 5761 5786 () Leaf) 5792 5866 () (Node Leaf 5870 5880 () Leaf)))
       5888 5905 () (Node (Node (Node Leaf 5919 5937 () Leaf) 5952 5969 () (Node Leaf 5984
       5996 () Leaf)) 5998 6000 () (Node (Node Leaf 6016 6067 () Leaf) 6103 6103 () (Node
       Leaf 6108 6108 () Leaf))))) 6112 6121 () (Node (Node (Node (Node (Node Leaf 6128 6137
       () Leaf) 6160 6169 () (Node Leaf 6176 6264 () Leaf)) 6272 6276 () (Node (Node Leaf
       6279 6312 () Leaf) 6314 6314 () (Node Leaf 6320 6389 () Leaf))) 6400 6430 () (Node
       (Node (Node Leaf 6470 6509 () Leaf) 6512 6516 () (Node Leaf 6528 6571 () Leaf)) 6576
       6601 () (Node (Node Leaf 6608 6618 () Leaf) 6656 6678 () (Node Leaf 6688 6740 ()
       Leaf)))) 6784 6793 () (Node (Node (Node (Node Leaf 6800 6809 () Leaf) 6823 6823 ()
       (Node Leaf 6917 6963 () Leaf)) 6981 6988 () (Node (Node Leaf 6992 7001 () Leaf) 7043
       7072 () (Node Leaf 7086 7141 () Leaf))) 7168 7203 () (Node (Node (Node Leaf 7232 7241
       () Leaf) 7245 7293 () (Node Leaf 7296 7304 () Leaf)) 7312 7354 () (Node (Node Leaf
       7357 7359 () Leaf) 7401 7404 () (Node Leaf 7406 7411 () Leaf)))))"

definition alnum_ranges_5 :: "unit ranges" where
  "alnum_ranges_5 =
     Node (Node (Node (Node (Node (Node Leaf 7418 7418 () Leaf) 7424 7615 () (Node Leaf 7680
       7957 () Leaf)) 7960 7965 () (Node (Node Leaf 7968 8005 () Leaf) 8008 8013 () (Node
       Leaf 8016 8023 () Leaf))) 8025 8025 () (Node (Node (Node Leaf 8027 8027 () Leaf) 8029
       8029 () (Node Leaf 8031 8061 () Leaf)) 8064 8116 () (Node (Node Leaf 8118 8124 ()
       Leaf) 8126 8126 () (Node Leaf 8130 8132 () Leaf)))) 8134 8140 () (Node (Node (Node
       (Node Leaf 8144 8147 () Leaf) 8150 8155 () (Node Leaf 8160 8172 () Leaf)) 8178 8180
       () (Node (Node Leaf 8182 8188 () Leaf) 8304 8305 () (Node Leaf 8308 8313 () Leaf)))
       8319 8329 () (Node (Node (Node Leaf 8336 8348 () Leaf) 8450 8450 () (Node Leaf 8455
       8455 () Leaf)) 8458 8467 () (Node (Node Leaf 8469 8469 () Leaf) 8473 8477 () (Node
       Leaf 8484 8484 () Leaf))))) 8486 8486 () (Node (Node (Node (Node (Node Leaf 8488 8488
       () Leaf) 8490 8493 () (Node Leaf 8495 8505 () Leaf)) 8508 8511 () (Node (Node Leaf
       8517 8521 () Leaf) 8526 8526 () (Node Leaf 8528 8585 () Leaf))) 9312 9371 () (Node
       (Node (Node Leaf 9450 9471 () Leaf) 10102 10131 () (Node Leaf 11264 11492 () Leaf))
       11499 11502 () (Node (Node Leaf 11506 11507 () Leaf) 11517 11517 () (Node Leaf 11520
       11557 () Leaf)))) 11559 11559 () (Node (Node (Node (Node Leaf 11565 11565 () Leaf)
       11568 11623 () (Node Leaf 11631 11631 () Leaf)) 11648 11670 () (Node (Node Leaf 11680
       11686 () Leaf) 11688 11694 () (Node Leaf 11696 11702 () Leaf))) 11704 11710 () (Node
       (Node (Node Leaf 11712 11718 () Leaf) 11720 11726 () (Node Leaf 11728 11734 () Leaf))
       11736 11742 () (Node (Node Leaf 11823 11823 () Leaf) 12293 12295 () (Node Leaf 12321
       12329 () Leaf)))))"

definition alnum_ranges_6 :: "unit ranges" where
  "alnum_ranges_6 =
     Node (Node (Node (Node (Node (Node Leaf 12344 12348 () Leaf) 12353 12438 () (Node Leaf
       12445 12447 () Leaf)) 12449 12538 () (Node (Node Leaf 12540 12543 () Leaf) 12549
       12591 () (Node Leaf 12593 12686 () Leaf))) 12690 12693 () (Node (Node (Node Leaf
       12704 12735 () Leaf) 12784 12799 () (Node Leaf 12832 12841 () Leaf)) 12872 12879 ()
       (Node (Node Leaf 12881 12895 () Leaf) 12928 12937 () (Node Leaf 12977 12991 ()
       Leaf)))) 13312 19903 () (Node (Node (Node (Node Leaf 19968 42124 () Leaf) 42192 42237
       () (Node Leaf 42240 42508 () Leaf)) 42512 42539 () (Node (Node Leaf 42560 42606 ()
       Leaf) 42623 42653 () (Node Leaf 42656 42735 () Leaf))) 42775 42783 () (Node (Node
       (Node Leaf 42786 42888 () Leaf) 42891 42954 () (Node Leaf 42960 42961 () Leaf)) 42963
       42963 () (Node (Node Leaf 42965 42969 () Leaf) 42994 43009 () (Node Leaf 43011 43013
       () Leaf))))) 43015 43018 () (Node (Node (Node (Node (Node Leaf 43020 43042 () Leaf)
       43056 43061 () (Node Leaf 43072 43123 () Leaf)) 43138 43187 () (Node (Node Leaf 43216
       43225 () Leaf) 43250 43255 () (Node Leaf 43259 43259 () Leaf))) 43261 43262 () (Node
       (Node (Node Leaf 43264 43301 () Leaf) 43312 43334 () (Node Leaf 43360 43388 () Leaf))
       43396 43442 () (Node (Node Leaf 43471 43481 () Leaf) 43488 43492 () (Node Leaf 43494
       43518 () Leaf)))) 43520 43560 () (Node (Node (Node (Node Leaf 43584 43586 () Leaf)
       43588 43595 () (Node Leaf 43600 43609 () Leaf)) 43616 43638 () (Node (Node Leaf 43642
       43642 () Leaf) 43646 43695 () (Node Leaf 43697 43697 () Leaf))) 43701 43702 () (Node
       (Node (Node Leaf 43705 43709 () Leaf) 43712 43712 () (Node Leaf 43714 43714 () Leaf))
       43739 43741 () (Node (Node Leaf 43744 43754 () Leaf) 43762 43764 () (Node Leaf 43777
       43782 () Leaf)))))"

definition alnum_ranges_7 :: "unit ranges" where
  "alnum_ranges_7 =
     Node (Node (Node (Node (Node (Node Leaf 43793 43798 () Leaf) 43808 43814 () (Node Leaf
       43816 43822 () Leaf)) 43824 43866 () (Node (Node Leaf 43868 43881 () Leaf) 43888
       44002 () (Node Leaf 44016 44025 () Leaf))) 44032 55203 () (Node (Node (Node Leaf
       55216 55238 () Leaf) 55243 55291 () (Node Leaf 63744 64109 () Leaf)) 64112 64217 ()
       (Node (Node Leaf 64256 64262 () Leaf) 64275 64279 () (Node Leaf 64285 64285 ()
       Leaf)))) 64287 64296 () (Node (Node (Node (Node Leaf 64298 64310 () Leaf) 64312 64316
       () (Node Leaf 64318 64318 () Leaf)) 64320 64321 () (Node (Node Leaf 64323 64324 ()
       Leaf) 64326 64433 () (Node Leaf 64467 64829 () Leaf))) 64848 64911 () (Node (Node
       (Node Leaf 64914 64967 () Leaf) 65008 65019 () (Node Leaf 65136 65140 () Leaf)) 65142
       65276 () (Node (Node Leaf 65296 65305 () Leaf) 65313 65338 () (Node Leaf 65345 65370
       () Leaf))))) 65382 65470 () (Node (Node (Node (Node (Node Leaf 65474 65479 () Leaf)
       65482 65487 () (Node Leaf 65490 65495 () Leaf)) 65498 65500 () (Node (Node Leaf 65536
       65547 () Leaf) 65549 65574 () (Node Leaf 65576 65594 () Leaf))) 65596 65597 () (Node
       (Node (Node Leaf 65599 65613 () Leaf) 65616 65629 () (Node Leaf 65664 65786 () Leaf))
       65799 65843 () (Node (Node Leaf 65856 65912 () Leaf) 65930 65931 () (Node Leaf 66176
       66204 () Leaf)))) 66208 66256 () (Node (Node (Node (Node Leaf 66273 66299 () Leaf)
       66304 66339 () (Node Leaf 66349 66378 () Leaf)) 66384 66421 () (Node (Node Leaf 66432
       66461 () Leaf) 66464 66499 () (Node Leaf 66504 66511 () Leaf))) 66513 66517 () (Node
       (Node (Node Leaf 66560 66717 () Leaf) 66720 66729 () (Node Leaf 66736 66771 () Leaf))
       66776 66811 () (Node (Node Leaf 66816 66855 () Leaf) 66864 66915 () (Node Leaf 66928
       66938 () Leaf)))))"

definition alnum_ranges_8 :: "unit ranges" where
  "alnum_ranges_8 =
     Node (Node (Node (Node (Node (Node Leaf 66956 66962 () Leaf) 66964 66965 () (Node Leaf
       66967 66977 () Leaf)) 66979 66993 () (Node (Node Leaf 66995 67001 () Leaf) 67003
       67004 () (Node Leaf 67072 67382 () Leaf))) 67392 67413 () (Node (Node (Node Leaf
       67424 67431 () Leaf) 67456 67461 () (Node Leaf 67463 67504 () Leaf)) 67506 67514 ()
       (Node (Node Leaf 67584 67589 () Leaf) 67592 67592 () (Node Leaf 67594 67637 ()
       Leaf)))) 67639 67640 () (Node (Node (Node (Node Leaf 67644 67644 () Leaf) 67647 67669
       () (Node Leaf 67672 67702 () Leaf)) 67705 67742 () (Node (Node Leaf 67751 67759 ()
       Leaf) 67808 67826 () (Node Leaf 67828 67829 () Leaf))) 67835 67867 () (Node (Node
       (Node Leaf 67872 67897 () Leaf) 67968 68023 () (Node Leaf 68028 68047 () Leaf)) 68050
       68096 () (Node (Node Leaf 68112 68115 () Leaf) 68117 68119 () (Node Leaf 68121 68149
       () Leaf))))) 68160 68168 () (Node (Node (Node (Node (Node Leaf 68192 68222 () Leaf)
       68224 68255 () (Node Leaf 68288 68295 () Leaf)) 68297 68324 () (Node (Node Leaf 68331
       68335 () Leaf) 68352 68405 () (Node Leaf 68416 68437 () Leaf))) 68440 68466 () (Node
       (Node (Node Leaf 68472 68497 () Leaf) 68521 68527 () (Node Leaf 68608 68680 () Leaf))
       68736 68786 () (Node (Node Leaf 68800 68850 () Leaf) 68858 68899 () (Node Leaf 68912
       68921 () Leaf)))) 69216 69246 () (Node (Node (Node (Node Leaf 69248 69289 () Leaf)
       69296 69297 () (Node Leaf 69376 69415 () Leaf)) 69424 69445 () (Node (Node Leaf 69457
       69460 () Leaf) 69488 69505 () (Node Leaf 69552 69579 () Leaf))) 69600 69622 () (Node
       (Node (Node Leaf 69635 69687 () Leaf) 69714 69743 () (Node Leaf 69745 69746 () Leaf))
       69749 69749 () (Node (Node Leaf 69763 69807 () Leaf) 69840 69864 () (Node Leaf 69872
       69881 () Leaf)))))"

definition alnum_ranges_9 :: "unit ranges" where
  "alnum_ranges_9 =
     Node (Node (Node (Node (Node (Node Leaf 69942 69951 () Leaf) 69956 69956 () (Node Leaf
       69959 69959 () Leaf)) 69968 70002 () (Node (Node Leaf 70006 70006 () Leaf) 70019
       70066 () (Node Leaf 70081 70084 () Leaf))) 70096 70106 () (Node (Node (Node Leaf
       70108 70108 () Leaf) 70113 70132 () (Node Leaf 70144 70161 () Leaf)) 70163 70187 ()
       (Node (Node Leaf 70272 70278 () Leaf) 70280 70280 () (Node Leaf 70282 70285 ()
       Leaf)))) 70287 70301 () (Node (Node (Node (Node Leaf 70303 70312 () Leaf) 70320 70366
       () (Node Leaf 70384 70393 () Leaf)) 70405 70412 () (Node (Node Leaf 70415 70416 ()
       Leaf) 70419 70440 () (Node Leaf 70442 70448 () Leaf))) 70450 70451 () (Node (Node
       (Node Leaf 70453 70457 () Leaf) 70461 70461 () (Node Leaf 70480 70480 () Leaf)) 70493
       70497 () (Node (Node Leaf 70656 70708 () Leaf) 70727 70730 () (Node Leaf 70736 70745
       () Leaf))))) 70751 70753 () (Node (Node (Node (Node (Node Leaf 70784 70831 () Leaf)
       70852 70853 () (Node Leaf 70855 70855 () Leaf)) 70864 70873 () (Node (Node Leaf 71040
       71086 () Leaf) 71128 71131 () (Node Leaf 71168 71215 () Leaf))) 71236 71236 () (Node
       (Node (Node Leaf 71248 71257 () Leaf) 71296 71338 () (Node Leaf 71352 71352 () Leaf))
       71360 71369 () (Node (Node Leaf 71424 71450 () Leaf) 71472 71483 () (Node Leaf 71488
       71494 () Leaf)))) 71680 71723 () (Node (Node (Node (Node Leaf 71840 71922 () Leaf)
       71935 71942 () (Node Leaf 71945 71945 () Leaf)) 71948 71955 () (Node (Node Leaf 71957
       71958 () Leaf) 71960 71983 () (Node Leaf 71999 71999 () Leaf))) 72001 72001 () (Node
       (Node (Node Leaf 72016 72025 () Leaf) 72096 72103 () (Node Leaf 72106 72144 () Leaf))
       72161 72161 () (Node (Node Leaf 72163 72163 () Leaf) 72192 72192 () (Node Leaf 72203
       72242 () Leaf)))))"

definition alnum_ranges_10 :: "unit ranges" where
  "alnum_ranges_10 =
     Node (Node (Node (Node (Node (Node Leaf 72272 72272 () Leaf) 72284 72329 () (Node Leaf
       72349 72349 () Leaf)) 72368 72440 () (Node (Node Leaf 72704 72712 () Leaf) 72714
       72750 () (Node Leaf 72768 72768 () Leaf))) 72784 72812 () (Node (Node (Node Leaf
       72818 72847 () Leaf) 72960 72966 () (Node Leaf 72968 72969 () Leaf)) 72971 73008 ()
       (Node (Node Leaf 73030 73030 () Leaf) 73040 73049 () (Node Leaf 73056 73061 ()
       Leaf)))) 73063 73064 () (Node (Node (Node (Node Leaf 73066 73097 () Leaf) 73112 73112
       () (Node Leaf 73120 73129 () Leaf)) 73440 73458 () (Node (Node Leaf 73648 73648 ()
       Leaf) 73664 73684 () (Node Leaf 73728 74649 () Leaf))) 74752 74862 () (Node (Node
       (Node Leaf 74880 75075 () Leaf) 77712 77808 () (Node Leaf 77824 78894 () Leaf)) 82944
       83526 () (Node (Node Leaf 92160 92728 () Leaf) 92736 92766 () (Node Leaf 92768 92777
       () Leaf))))) 92784 92862 () (Node (Node (Node (Node (Node Leaf 92864 92873 () Leaf)
       92880 92909 () (Node Leaf 92928 92975 () Leaf)) 92992 92995 () (Node (Node Leaf 93008
       93017 () Leaf) 93019 93025 () (Node Leaf 93027 93047 () Leaf))) 93053 93071 () (Node
       (Node (Node Leaf 93760 93846 () Leaf) 93952 94026 () (Node Leaf 94032 94032 () Leaf))
       94099 94111 () (Node (Node Leaf 94176 94177 () Leaf) 94179 94179 () (Node Leaf 94208
       100343 () Leaf)))) 100352 101589 () (Node (Node (Node (Node Leaf 101632 101640 ()
       Leaf) 110576 110579 () (Node Leaf 110581 110587 () Leaf)) 110589 110590 () (Node
       (Node Leaf 110592 110882 () Leaf) 110928 110930 () (Node Leaf 110948 110951 ()
       Leaf))) 110960 111355 () (Node (Node (Node Leaf 113664 113770 () Leaf) 113776 113788
       () (Node Leaf 113792 113800 () Leaf)) 113808 113817 () (Node (Node Leaf 119520 119539
       () Leaf) 119648 119672 () (Node Leaf 119808 119892 () Leaf)))))"

definition alnum_ranges_11 :: "unit ranges" where
  "alnum_ranges_11 =
     Node (Node (Node (Node (Node (Node Leaf 119966 119967 () Leaf) 119970 119970 () (Node
       Leaf 119973 119974 () Leaf)) 119977 119980 () (Node (Node Leaf 119982 119993 () Leaf)
       119995 119995 () (Node Leaf 119997 120003 () Leaf))) 120005 120069 () (Node (Node
       (Node Leaf 120071 120074 () Leaf) 120077 120084 () (Node Leaf 120086 120092 () Leaf))
       120094 120121 () (Node (Node Leaf 120123 120126 () Leaf) 120128 120132 () (Node Leaf
       120134 120134 () Leaf)))) 120138 120144 () (Node (Node (Node (Node Leaf 120146 120485
       () Leaf) 120488 120512 () (Node Leaf 120514 120538 () Leaf)) 120540 120570 () (Node
       (Node Leaf 120572 120596 () Leaf) 120598 120628 () (Node Leaf 120630 120654 ()
       Leaf))) 120656 120686 () (Node (Node (Node Leaf 120688 120712 () Leaf) 120714 120744
       () (Node Leaf 120746 120770 () Leaf)) 120772 120779 () (Node (Node Leaf 120782 120831
       () Leaf) 122624 122654 () (Node Leaf 123136 123180 () Leaf))))) 123191 123197 ()
       (Node (Node (Node (Node (Node Leaf 123200 123209 () Leaf) 123214 123214 () (Node Leaf
       123536 123565 () Leaf)) 123584 123627 () (Node (Node Leaf 123632 123641 () Leaf)
       124896 124902 () (Node Leaf 124904 124907 () Leaf))) 124909 124910 () (Node (Node
       (Node Leaf 124912 124926 () Leaf) 124928 125124 () (Node Leaf 125127 125135 () Leaf))
       125184 125251 () (Node (Node Leaf 125259 125259 () Leaf) 125264 125273 () (Node Leaf
       126065 126123 () Leaf)))) 126125 126127 () (Node (Node (Node (Node Leaf 126129 126132
       () Leaf) 126209 126253 () (Node Leaf 126255 126269 () Leaf)) 126464 126467 () (Node
       (Node Leaf 126469 126495 () Leaf) 126497 126498 () (Node Leaf 126500 126500 ()
       Leaf))) 126503 126503 () (Node (Node (Node Leaf 126505 126514 () Leaf) 126516 126519
       () (Node Leaf 126521 126521 () Leaf)) 126523 126523 () (Node (Node Leaf 126530 126530
       () Leaf) 126535 126535 () (Node Leaf 126537 126537 () Leaf)))))"

definition alnum_ranges_12 :: "unit ranges" where
  "alnum_ranges_12 =
     Node (Node (Node (Node (Node Leaf 126541 126543 () Leaf) 126545 126546 () (Node Leaf
       126548 126548 () Leaf)) 126551 126551 () (Node (Node Leaf 126553 126553 () Leaf)
       126555 126555 () (Node Leaf 126557 126557 () Leaf))) 126559 126559 () (Node (Node
       (Node Leaf 126561 126562 () Leaf) 126564 126564 () (Node Leaf 126567 126570 () Leaf))
       126572 126578 () (Node (Node Leaf 126580 126583 () Leaf) 126585 126588 () Leaf)))
       126590 126590 () (Node (Node (Node (Node Leaf 126592 126601 () Leaf) 126603 126619 ()
       (Node Leaf 126625 126627 () Leaf)) 126629 126633 () (Node (Node Leaf 126635 126651 ()
       Leaf) 127232 127244 () (Node Leaf 130032 130041 () Leaf))) 131072 173791 () (Node
       (Node (Node Leaf 173824 177976 () Leaf) 177984 178205 () (Node Leaf 178208 183969 ()
       Leaf)) 183984 191456 () (Node (Node Leaf 194560 195101 () Leaf) 196608 201546 ()
       Leaf)))"

text \<open>The code points on which \<^verbatim>\<open>str.isalnum\<close> is true.\<close>

definition alnum_ranges :: "unit ranges" where
  "alnum_ranges =
     Node (Node (Node (Node alnum_ranges_1 2451 2472 () alnum_ranges_2) 3174 3183 ()
       alnum_ranges_3) 4682 4685 () (Node (Node alnum_ranges_4 7413 7414 () alnum_ranges_5)
       12337 12341 () alnum_ranges_6)) 43785 43790 () (Node (Node (Node alnum_ranges_7 66940
       66954 () alnum_ranges_8) 69891 69926 () alnum_ranges_9) 72250 72250 () (Node (Node
       alnum_ranges_10 119894 119964 () alnum_ranges_11) 126539 126539 () alnum_ranges_12))"

definition upper_ranges_1 :: "unit ranges" where
  "upper_ranges_1 =
     Node (Node (Node (Node (Node (Node Leaf 65 90 () Leaf) 192 214 () (Node Leaf 216 222 ()
       Leaf)) 256 256 () (Node (Node Leaf 258 258 () Leaf) 260 260 () (Node Leaf 262 262 ()
       Leaf))) 264 264 () (Node (Node (Node Leaf 266 266 () Leaf) 268 268 () (Node Leaf 270
       270 () Leaf)) 272 272 () (Node (Node Leaf 274 274 () Leaf) 276 276 () (Node Leaf 278
       278 () Leaf)))) 280 280 () (Node (Node (Node (Node Leaf 282 282 () Leaf) 284 284 ()
       (Node Leaf 286 286 () Leaf)) 288 288 () (Node (Node Leaf 290 290 () Leaf) 292 292 ()
       (Node Leaf 294 294 () Leaf))) 296 296 () (Node (Node (Node Leaf 298 298 () Leaf) 300
       300 () (Node Leaf 302 302 () Leaf)) 304 304 () (Node (Node Leaf 306 306 () Leaf) 308
       308 () (Node Leaf 310 310 () Leaf))))) 313 313 () (Node (Node (Node (Node (Node Leaf
       315 315 () Leaf) 317 317 () (Node Leaf 319 319 () Leaf)) 321 321 () (Node (Node Leaf
       323 323 () Leaf) 325 325 () (Node Leaf 327 327 () Leaf))) 330 330 () (Node (Node
       (Node Leaf 332 332 () Leaf) 334 334 () (Node Leaf 336 336 () Leaf)) 338 338 () (Node
       (Node Leaf 340 340 () Leaf) 342 342 () (Node Leaf 344 344 () Leaf)))) 346 346 ()
       (Node (Node (Node (Node Leaf 348 348 () Leaf) 350 350 () (Node Leaf 352 352 () Leaf))
       354 354 () (Node (Node Leaf 356 356 () Leaf) 358 358 () (Node Leaf 360 360 () Leaf)))
       362 362 () (Node (Node (Node Leaf 364 364 () Leaf) 366 366 () (Node Leaf 368 368 ()
       Leaf)) 370 370 () (Node (Node Leaf 372 372 () Leaf) 374 374 () (Node Leaf 376 377 ()
       Leaf)))))"

definition upper_ranges_2 :: "unit ranges" where
  "upper_ranges_2 =
     Node (Node (Node (Node (Node (Node Leaf 381 381 () Leaf) 385 386 () (Node Leaf 388 388
       () Leaf)) 390 391 () (Node (Node Leaf 393 395 () Leaf) 398 401 () (Node Leaf 403 404
       () Leaf))) 406 408 () (Node (Node (Node Leaf 412 413 () Leaf) 415 416 () (Node Leaf
       418 418 () Leaf)) 420 420 () (Node (Node Leaf 422 423 () Leaf) 425 425 () (Node Leaf
       428 428 () Leaf)))) 430 431 () (Node (Node (Node (Node Leaf 433 435 () Leaf) 437 437
       () (Node Leaf 439 440 () Leaf)) 444 444 () (Node (Node Leaf 452 452 () Leaf) 455 455
       () (Node Leaf 458 458 () Leaf))) 461 461 () (Node (Node (Node Leaf 463 463 () Leaf)
       465 465 () (Node Leaf 467 467 () Leaf)) 469 469 () (Node (Node Leaf 471 471 () Leaf)
       473 473 () (Node Leaf 475 475 () Leaf))))) 478 478 () (Node (Node (Node (Node (Node
       Leaf 480 480 () Leaf) 482 482 () (Node Leaf 484 484 () Leaf)) 486 486 () (Node (Node
       Leaf 488 488 () Leaf) 490 490 () (Node Leaf 492 492 () Leaf))) 494 494 () (Node (Node
       (Node Leaf 497 497 () Leaf) 500 500 () (Node Leaf 502 504 () Leaf)) 506 506 () (Node
       (Node Leaf 508 508 () Leaf) 510 510 () (Node Leaf 512 512 () Leaf)))) 514 514 ()
       (Node (Node (Node (Node Leaf 516 516 () Leaf) 518 518 () (Node Leaf 520 520 () Leaf))
       522 522 () (Node (Node Leaf 524 524 () Leaf) 526 526 () (Node Leaf 528 528 () Leaf)))
       530 530 () (Node (Node (Node Leaf 532 532 () Leaf) 534 534 () (Node Leaf 536 536 ()
       Leaf)) 538 538 () (Node (Node Leaf 540 540 () Leaf) 542 542 () (Node Leaf 544 544 ()
       Leaf)))))"

definition upper_ranges_3 :: "unit ranges" where
  "upper_ranges_3 =
     Node (Node (Node (Node (Node (Node Leaf 548 548 () Leaf) 550 550 () (Node Leaf 552 552
       () Leaf)) 554 554 () (Node (Node Leaf 556 556 () Leaf) 558 558 () (Node Leaf 560 560
       () Leaf))) 562 562 () (Node (Node (Node Leaf 570 571 () Leaf) 573 574 () (Node Leaf
       577 577 () Leaf)) 579 582 () (Node (Node Leaf 584 584 () Leaf) 586 586 () (Node Leaf
       588 588 () Leaf)))) 590 590 () (Node (Node (Node (Node Leaf 880 880 () Leaf) 882 882
       () (Node Leaf 886 886 () Leaf)) 895 895 () (Node (Node Leaf 902 902 () Leaf) 904 906
       () (Node Leaf 908 908 () Leaf))) 910 911 () (Node (Node (Node Leaf 913 929 () Leaf)
       931 939 () (Node Leaf 975 975 () Leaf)) 978 980 () (Node (Node Leaf 984 984 () Leaf)
       986 986 () (Node Leaf 988 988 () Leaf))))) 990 990 () (Node (Node (Node (Node (Node
       Leaf 992 992 () Leaf) 994 994 () (Node Leaf 996 996 () Leaf)) 998 998 () (Node (Node
       Leaf 1000 1000 () Leaf) 1002 1002 () (Node Leaf 1004 1004 () Leaf))) 1006 1006 ()
       (Node (Node (Node Leaf 1012 1012 () Leaf) 1015 1015 () (Node Leaf 1017 1018 () Leaf))
       1021 1071 () (Node (Node Leaf 1120 1120 () Leaf) 1122 1122 () (Node Leaf 1124 1124 ()
       Leaf)))) 1126 1126 () (Node (Node (Node (Node Leaf 1128 1128 () Leaf) 1130 1130 ()
       (Node Leaf 1132 1132 () Leaf)) 1134 1134 () (Node (Node Leaf 1136 1136 () Leaf) 1138
       1138 () (Node Leaf 1140 1140 () Leaf))) 1142 1142 () (Node (Node (Node Leaf 1144 1144
       () Leaf) 1146 1146 () (Node Leaf 1148 1148 () Leaf)) 1150 1150 () (Node (Node Leaf
       1152 1152 () Leaf) 1162 1162 () (Node Leaf 1164 1164 () Leaf)))))"

definition upper_ranges_4 :: "unit ranges" where
  "upper_ranges_4 =
     Node (Node (Node (Node (Node (Node Leaf 1168 1168 () Leaf) 1170 1170 () (Node Leaf 1172
       1172 () Leaf)) 1174 1174 () (Node (Node Leaf 1176 1176 () Leaf) 1178 1178 () (Node
       Leaf 1180 1180 () Leaf))) 1182 1182 () (Node (Node (Node Leaf 1184 1184 () Leaf) 1186
       1186 () (Node Leaf 1188 1188 () Leaf)) 1190 1190 () (Node (Node Leaf 1192 1192 ()
       Leaf) 1194 1194 () (Node Leaf 1196 1196 () Leaf)))) 1198 1198 () (Node (Node (Node
       (Node Leaf 1200 1200 () Leaf) 1202 1202 () (Node Leaf 1204 1204 () Leaf)) 1206 1206
       () (Node (Node Leaf 1208 1208 () Leaf) 1210 1210 () (Node Leaf 1212 1212 () Leaf)))
       1214 1214 () (Node (Node (Node Leaf 1216 1217 () Leaf) 1219 1219 () (Node Leaf 1221
       1221 () Leaf)) 1223 1223 () (Node (Node Leaf 1225 1225 () Leaf) 1227 1227 () (Node
       Leaf 1229 1229 () Leaf))))) 1232 1232 () (Node (Node (Node (Node (Node Leaf 1234 1234
       () Leaf) 1236 1236 () (Node Leaf 1238 1238 () Leaf)) 1240 1240 () (Node (Node Leaf
       1242 1242 () Leaf) 1244 1244 () (Node Leaf 1246 1246 () Leaf))) 1248 1248 () (Node
       (Node (Node Leaf 1250 1250 () Leaf) 1252 1252 () (Node Leaf 1254 1254 () Leaf)) 1256
       1256 () (Node (Node Leaf 1258 1258 () Leaf) 1260 1260 () (Node Leaf 1262 1262 ()
       Leaf)))) 1264 1264 () (Node (Node (Node (Node Leaf 1266 1266 () Leaf) 1268 1268 ()
       (Node Leaf 1270 1270 () Leaf)) 1272 1272 () (Node (Node Leaf 1274 1274 () Leaf) 1276
       1276 () (Node Leaf 1278 1278 () Leaf))) 1280 1280 () (Node (Node (Node Leaf 1282 1282
       () Leaf) 1284 1284 () (Node Leaf 1286 1286 () Leaf)) 1288 1288 () (Node (Node Leaf
       1290 1290 () Leaf) 1292 1292 () (Node Leaf 1294 1294 () Leaf)))))"

definition upper_ranges_5 :: "unit ranges" where
  "upper_ranges_5 =
     Node (Node (Node (Node (Node (Node Leaf 1298 1298 () Leaf) 1300 1300 () (Node Leaf 1302
       1302 () Leaf)) 1304 1304 () (Node (Node Leaf 1306 1306 () Leaf) 1308 1308 () (Node
       Leaf 1310 1310 () Leaf))) 1312 1312 () (Node (Node (Node Leaf 1314 1314 () Leaf) 1316
       1316 () (Node Leaf 1318 1318 () Leaf)) 1320 1320 () (Node (Node Leaf 1322 1322 ()
       Leaf) 1324 1324 () (Node Leaf 1326 1326 () Leaf)))) 1329 1366 () (Node (Node (Node
       (Node Leaf 4256 4293 () Leaf) 4295 4295 () (Node Leaf 4301 4301 () Leaf)) 5024 5109
       () (Node (Node Leaf 7312 7354 () Leaf) 7357 7359 () (Node Leaf 7680 7680 () Leaf)))
       7682 7682 () (Node (Node (Node Leaf 7684 7684 () Leaf) 7686 7686 () (Node Leaf 7688
       7688 () Leaf)) 7690 7690 () (Node (Node Leaf 7692 7692 () Leaf) 7694 7694 () (Node
       Leaf 7696 7696 () Leaf))))) 7698 7698 () (Node (Node (Node (Node (Node Leaf 7700 7700
       () Leaf) 7702 7702 () (Node Leaf 7704 7704 () Leaf)) 7706 7706 () (Node (Node Leaf
       7708 7708 () Leaf) 7710 7710 () (Node Leaf 7712 7712 () Leaf))) 7714 7714 () (Node
       (Node (Node Leaf 7716 7716 () Leaf) 7718 7718 () (Node Leaf 7720 7720 () Leaf)) 7722
       7722 () (Node (Node Leaf 7724 7724 () Leaf) 7726 7726 () (Node Leaf 7728 7728 ()
       Leaf)))) 7730 7730 () (Node (Node (Node (Node Leaf 7732 7732 () Leaf) 7734 7734 ()
       (Node Leaf 7736 7736 () Leaf)) 7738 7738 () (Node (Node Leaf 7740 7740 () Leaf) 7742
       7742 () (Node Leaf 7744 7744 () Leaf))) 7746 7746 () (Node (Node (Node Leaf 7748 7748
       () Leaf) 7750 7750 () (Node Leaf 7752 7752 () Leaf)) 7754 7754 () (Node (Node Leaf
       7756 7756 () Leaf) 7758 7758 () (Node Leaf 7760 7760 () Leaf)))))"

definition upper_ranges_6 :: "unit ranges" where
  "upper_ranges_6 =
     Node (Node (Node (Node (Node (Node Leaf 7764 7764 () Leaf) 7766 7766 () (Node Leaf 7768
       7768 () Leaf)) 7770 7770 () (Node (Node Leaf 7772 7772 () Leaf) 7774 7774 () (Node
       Leaf 7776 7776 () Leaf))) 7778 7778 () (Node (Node (Node Leaf 7780 7780 () Leaf) 7782
       7782 () (Node Leaf 7784 7784 () Leaf)) 7786 7786 () (Node (Node Leaf 7788 7788 ()
       Leaf) 7790 7790 () (Node Leaf 7792 7792 () Leaf)))) 7794 7794 () (Node (Node (Node
       (Node Leaf 7796 7796 () Leaf) 7798 7798 () (Node Leaf 7800 7800 () Leaf)) 7802 7802
       () (Node (Node Leaf 7804 7804 () Leaf) 7806 7806 () (Node Leaf 7808 7808 () Leaf)))
       7810 7810 () (Node (Node (Node Leaf 7812 7812 () Leaf) 7814 7814 () (Node Leaf 7816
       7816 () Leaf)) 7818 7818 () (Node (Node Leaf 7820 7820 () Leaf) 7822 7822 () (Node
       Leaf 7824 7824 () Leaf))))) 7826 7826 () (Node (Node (Node (Node (Node Leaf 7828 7828
       () Leaf) 7838 7838 () (Node Leaf 7840 7840 () Leaf)) 7842 7842 () (Node (Node Leaf
       7844 7844 () Leaf) 7846 7846 () (Node Leaf 7848 7848 () Leaf))) 7850 7850 () (Node
       (Node (Node Leaf 7852 7852 () Leaf) 7854 7854 () (Node Leaf 7856 7856 () Leaf)) 7858
       7858 () (Node (Node Leaf 7860 7860 () Leaf) 7862 7862 () (Node Leaf 7864 7864 ()
       Leaf)))) 7866 7866 () (Node (Node (Node (Node Leaf 7868 7868 () Leaf) 7870 7870 ()
       (Node Leaf 7872 7872 () Leaf)) 7874 7874 () (Node (Node Leaf 7876 7876 () Leaf) 7878
       7878 () (Node Leaf 7880 7880 () Leaf))) 7882 7882 () (Node (Node (Node Leaf 7884 7884
       () Leaf) 7886 7886 () (Node Leaf 7888 7888 () Leaf)) 7890 7890 () (Node (Node Leaf
       7892 7892 () Leaf) 7894 7894 () (Node Leaf 7896 7896 () Leaf)))))"

definition upper_ranges_7 :: "unit ranges" where
  "upper_ranges_7 =
     Node (Node (Node (Node (Node (Node Leaf 7900 7900 () Leaf) 7902 7902 () (Node Leaf 7904
       7904 () Leaf)) 7906 7906 () (Node (Node Leaf 7908 7908 () Leaf) 7910 7910 () (Node
       Leaf 7912 7912 () Leaf))) 7914 7914 () (Node (Node (Node Leaf 7916 7916 () Leaf) 7918
       7918 () (Node Leaf 7920 7920 () Leaf)) 7922 7922 () (Node (Node Leaf 7924 7924 ()
       Leaf) 7926 7926 () (Node Leaf 7928 7928 () Leaf)))) 7930 7930 () (Node (Node (Node
       (Node Leaf 7932 7932 () Leaf) 7934 7934 () (Node Leaf 7944 7951 () Leaf)) 7960 7965
       () (Node (Node Leaf 7976 7983 () Leaf) 7992 7999 () (Node Leaf 8008 8013 () Leaf)))
       8025 8025 () (Node (Node (Node Leaf 8027 8027 () Leaf) 8029 8029 () (Node Leaf 8031
       8031 () Leaf)) 8040 8047 () (Node (Node Leaf 8120 8123 () Leaf) 8136 8139 () (Node
       Leaf 8152 8155 () Leaf))))) 8168 8172 () (Node (Node (Node (Node (Node Leaf 8184 8187
       () Leaf) 8450 8450 () (Node Leaf 8455 8455 () Leaf)) 8459 8461 () (Node (Node Leaf
       8464 8466 () Leaf) 8469 8469 () (Node Leaf 8473 8477 () Leaf))) 8484 8484 () (Node
       (Node (Node Leaf 8486 8486 () Leaf) 8488 8488 () (Node Leaf 8490 8493 () Leaf)) 8496
       8499 () (Node (Node Leaf 8510 8511 () Leaf) 8517 8517 () (Node Leaf 8544 8559 ()
       Leaf)))) 8579 8579 () (Node (Node (Node (Node Leaf 9398 9423 () Leaf) 11264 11311 ()
       (Node Leaf 11360 11360 () Leaf)) 11362 11364 () (Node (Node Leaf 11367 11367 () Leaf)
       11369 11369 () (Node Leaf 11371 11371 () Leaf))) 11373 11376 () (Node (Node (Node
       Leaf 11378 11378 () Leaf) 11381 11381 () (Node Leaf 11390 11392 () Leaf)) 11394 11394
       () (Node (Node Leaf 11396 11396 () Leaf) 11398 11398 () (Node Leaf 11400 11400 ()
       Leaf)))))"

definition upper_ranges_8 :: "unit ranges" where
  "upper_ranges_8 =
     Node (Node (Node (Node (Node (Node Leaf 11404 11404 () Leaf) 11406 11406 () (Node Leaf
       11408 11408 () Leaf)) 11410 11410 () (Node (Node Leaf 11412 11412 () Leaf) 11414
       11414 () (Node Leaf 11416 11416 () Leaf))) 11418 11418 () (Node (Node (Node Leaf
       11420 11420 () Leaf) 11422 11422 () (Node Leaf 11424 11424 () Leaf)) 11426 11426 ()
       (Node (Node Leaf 11428 11428 () Leaf) 11430 11430 () (Node Leaf 11432 11432 ()
       Leaf)))) 11434 11434 () (Node (Node (Node (Node Leaf 11436 11436 () Leaf) 11438 11438
       () (Node Leaf 11440 11440 () Leaf)) 11442 11442 () (Node (Node Leaf 11444 11444 ()
       Leaf) 11446 11446 () (Node Leaf 11448 11448 () Leaf))) 11450 11450 () (Node (Node
       (Node Leaf 11452 11452 () Leaf) 11454 11454 () (Node Leaf 11456 11456 () Leaf)) 11458
       11458 () (Node (Node Leaf 11460 11460 () Leaf) 11462 11462 () (Node Leaf 11464 11464
       () Leaf))))) 11466 11466 () (Node (Node (Node (Node (Node Leaf 11468 11468 () Leaf)
       11470 11470 () (Node Leaf 11472 11472 () Leaf)) 11474 11474 () (Node (Node Leaf 11476
       11476 () Leaf) 11478 11478 () (Node Leaf 11480 11480 () Leaf))) 11482 11482 () (Node
       (Node (Node Leaf 11484 11484 () Leaf) 11486 11486 () (Node Leaf 11488 11488 () Leaf))
       11490 11490 () (Node (Node Leaf 11499 11499 () Leaf) 11501 11501 () (Node Leaf 11506
       11506 () Leaf)))) 42560 42560 () (Node (Node (Node (Node Leaf 42562 42562 () Leaf)
       42564 42564 () (Node Leaf 42566 42566 () Leaf)) 42568 42568 () (Node (Node Leaf 42570
       42570 () Leaf) 42572 42572 () (Node Leaf 42574 42574 () Leaf))) 42576 42576 () (Node
       (Node (Node Leaf 42578 42578 () Leaf) 42580 42580 () (Node Leaf 42582 42582 () Leaf))
       42584 42584 () (Node (Node Leaf 42586 42586 () Leaf) 42588 42588 () (Node Leaf 42590
       42590 () Leaf)))))"

definition upper_ranges_9 :: "unit ranges" where
  "upper_ranges_9 =
     Node (Node (Node (Node (Node (Node Leaf 42594 42594 () Leaf) 42596 42596 () (Node Leaf
       42598 42598 () Leaf)) 42600 42600 () (Node (Node Leaf 42602 42602 () Leaf) 42604
       42604 () (Node Leaf 42624 42624 () Leaf))) 42626 42626 () (Node (Node (Node Leaf
       42628 42628 () Leaf) 42630 42630 () (Node Leaf 42632 42632 () Leaf)) 42634 42634 ()
       (Node (Node Leaf 42636 42636 () Leaf) 42638 42638 () (Node Leaf 42640 42640 ()
       Leaf)))) 42642 42642 () (Node (Node (Node (Node Leaf 42644 42644 () Leaf) 42646 42646
       () (Node Leaf 42648 42648 () Leaf)) 42650 42650 () (Node (Node Leaf 42786 42786 ()
       Leaf) 42788 42788 () (Node Leaf 42790 42790 () Leaf))) 42792 42792 () (Node (Node
       (Node Leaf 42794 42794 () Leaf) 42796 42796 () (Node Leaf 42798 42798 () Leaf)) 42802
       42802 () (Node (Node Leaf 42804 42804 () Leaf) 42806 42806 () (Node Leaf 42808 42808
       () Leaf))))) 42810 42810 () (Node (Node (Node (Node (Node Leaf 42812 42812 () Leaf)
       42814 42814 () (Node Leaf 42816 42816 () Leaf)) 42818 42818 () (Node (Node Leaf 42820
       42820 () Leaf) 42822 42822 () (Node Leaf 42824 42824 () Leaf))) 42826 42826 () (Node
       (Node (Node Leaf 42828 42828 () Leaf) 42830 42830 () (Node Leaf 42832 42832 () Leaf))
       42834 42834 () (Node (Node Leaf 42836 42836 () Leaf) 42838 42838 () (Node Leaf 42840
       42840 () Leaf)))) 42842 42842 () (Node (Node (Node (Node Leaf 42844 42844 () Leaf)
       42846 42846 () (Node Leaf 42848 42848 () Leaf)) 42850 42850 () (Node (Node Leaf 42852
       42852 () Leaf) 42854 42854 () (Node Leaf 42856 42856 () Leaf))) 42858 42858 () (Node
       (Node (Node Leaf 42860 42860 () Leaf) 42862 42862 () (Node Leaf 42873 42873 () Leaf))
       42875 42875 () (Node (Node Leaf 42877 42878 () Leaf) 42880 42880 () (Node Leaf 42882
       42882 () Leaf)))))"

definition upper_ranges_10 :: "unit ranges" where
  "upper_ranges_10 =
     Node (Node (Node (Node (Node (Node Leaf 42886 42886 () Leaf) 42891 42891 () (Node Leaf
       42893 42893 () Leaf)) 42896 42896 () (Node (Node Leaf 42898 42898 () Leaf) 42902
       42902 () (Node Leaf 42904 42904 () Leaf))) 42906 42906 () (Node (Node (Node Leaf
       42908 42908 () Leaf) 42910 42910 () (Node Leaf 42912 42912 () Leaf)) 42914 42914 ()
       (Node (Node Leaf 42916 42916 () Leaf) 42918 42918 () (Node Leaf 42920 42920 ()
       Leaf)))) 42922 42926 () (Node (Node (Node (Node Leaf 42928 42932 () Leaf) 42934 42934
       () (Node Leaf 42936 42936 () Leaf)) 42938 42938 () (Node (Node Leaf 42940 42940 ()
       Leaf) 42942 42942 () (Node Leaf 42944 42944 () Leaf))) 42946 42946 () (Node (Node
       (Node Leaf 42948 42951 () Leaf) 42953 42953 () (Node Leaf 42960 42960 () Leaf)) 42966
       42966 () (Node (Node Leaf 42968 42968 () Leaf) 42997 42997 () (Node Leaf 65313 65338
       () Leaf))))) 66560 66599 () (Node (Node (Node (Node (Node Leaf 66736 66771 () Leaf)
       66928 66938 () (Node Leaf 66940 66954 () Leaf)) 66956 66962 () (Node (Node Leaf 66964
       66965 () Leaf) 68736 68786 () (Node Leaf 71840 71871 () Leaf))) 93760 93791 () (Node
       (Node (Node Leaf 119808 119833 () Leaf) 119860 119885 () (Node Leaf 119912 119937 ()
       Leaf)) 119964 119964 () (Node (Node Leaf 119966 119967 () Leaf) 119970 119970 ()
       (Node Leaf 119973 119974 () Leaf)))) 119977 119980 () (Node (Node (Node (Node Leaf
       119982 119989 () Leaf) 120016 120041 () (Node Leaf 120068 120069 () Leaf)) 120071
       120074 () (Node (Node Leaf 120077 120084 () Leaf) 120086 120092 () (Node Leaf 120120
       120121 () Leaf))) 120123 120126 () (Node (Node (Node Leaf 120128 120132 () Leaf)
       120134 120134 () (Node Leaf 120138 120144 () Leaf)) 120172 120197 () (Node (Node Leaf
       120224 120249 () Leaf) 120276 120301 () (Node Leaf 120328 120353 () Leaf)))))"

definition upper_ranges_11 :: "unit ranges" where
  "upper_ranges_11 =
     Node (Node (Node (Node Leaf 120432 120457 () Leaf) 120488 120512 () Leaf) 120546 120570
       () (Node (Node Leaf 120604 120628 () Leaf) 120662 120686 () Leaf)) 120720 120744 ()
       (Node (Node (Node Leaf 120778 120778 () Leaf) 125184 125217 () Leaf) 127280 127305 ()
       (Node (Node Leaf 127312 127337 () Leaf) 127344 127369 () Leaf))"

text \<open>The code points on which \<^verbatim>\<open>str.isupper\<close> is true.\<close>

definition upper_ranges :: "unit ranges" where
  "upper_ranges =
     Node (Node (Node (Node upper_ranges_1 379 379 () upper_ranges_2) 546 546 ()
       upper_ranges_3) 1166 1166 () (Node (Node upper_ranges_4 1296 1296 () upper_ranges_5)
       7762 7762 () upper_ranges_6)) 7898 7898 () (Node (Node (Node upper_ranges_7 11402
       11402 () upper_ranges_8) 42592 42592 () upper_ranges_9) 42884 42884 () (Node
       upper_ranges_10 120380 120405 () upper_ranges_11))"

definition cased_ranges_1 :: "unit ranges" where
  "cased_ranges_1 =
     Node (Node (Node (Node (Node (Node Leaf 65 90 () Leaf) 97 122 () (Node Leaf 170 170 ()
       Leaf)) 181 181 () (Node (Node Leaf 186 186 () Leaf) 192 214 () (Node Leaf 216 246 ()
       Leaf))) 248 442 () (Node (Node (Node Leaf 444 447 () Leaf) 452 659 () (Node Leaf 661
       696 () Leaf)) 704 705 () (Node (Node Leaf 736 740 () Leaf) 837 837 () (Node Leaf 880
       883 () Leaf)))) 886 887 () (Node (Node (Node (Node Leaf 890 893 () Leaf) 895 895 ()
       (Node Leaf 902 902 () Leaf)) 904 906 () (Node (Node Leaf 908 908 () Leaf) 910 929 ()
       (Node Leaf 931 1013 () Leaf))) 1015 1153 () (Node (Node (Node Leaf 1162 1327 () Leaf)
       1329 1366 () (Node Leaf 1376 1416 () Leaf)) 4256 4293 () (Node (Node Leaf 4295 4295
       () Leaf) 4301 4301 () (Node Leaf 4304 4346 () Leaf))))) 4349 4351 () (Node (Node
       (Node (Node (Node Leaf 5024 5109 () Leaf) 5112 5117 () (Node Leaf 7296 7304 () Leaf))
       7312 7354 () (Node (Node Leaf 7357 7359 () Leaf) 7424 7615 () (Node Leaf 7680 7957 ()
       Leaf))) 7960 7965 () (Node (Node (Node Leaf 7968 8005 () Leaf) 8008 8013 () (Node
       Leaf 8016 8023 () Leaf)) 8025 8025 () (Node (Node Leaf 8027 8027 () Leaf) 8029 8029
       () (Node Leaf 8031 8061 () Leaf)))) 8064 8116 () (Node (Node (Node (Node Leaf 8118
       8124 () Leaf) 8126 8126 () (Node Leaf 8130 8132 () Leaf)) 8134 8140 () (Node (Node
       Leaf 8144 8147 () Leaf) 8150 8155 () (Node Leaf 8160 8172 () Leaf))) 8178 8180 ()
       (Node (Node (Node Leaf 8182 8188 () Leaf) 8305 8305 () (Node Leaf 8319 8319 () Leaf))
       8336 8348 () (Node (Node Leaf 8450 8450 () Leaf) 8455 8455 () (Node Leaf 8458 8467 ()
       Leaf)))))"

definition cased_ranges_2 :: "unit ranges" where
  "cased_ranges_2 =
     Node (Node (Node (Node (Node (Node Leaf 8473 8477 () Leaf) 8484 8484 () (Node Leaf 8486
       8486 () Leaf)) 8488 8488 () (Node (Node Leaf 8490 8493 () Leaf) 8495 8500 () (Node
       Leaf 8505 8505 () Leaf))) 8508 8511 () (Node (Node (Node Leaf 8517 8521 () Leaf) 8526
       8526 () (Node Leaf 8544 8575 () Leaf)) 8579 8580 () (Node (Node Leaf 9398 9449 ()
       Leaf) 11264 11492 () (Node Leaf 11499 11502 () Leaf)))) 11506 11507 () (Node (Node
       (Node (Node Leaf 11520 11557 () Leaf) 11559 11559 () (Node Leaf 11565 11565 () Leaf))
       42560 42605 () (Node (Node Leaf 42624 42653 () Leaf) 42786 42887 () (Node Leaf 42891
       42894 () Leaf))) 42896 42954 () (Node (Node (Node Leaf 42960 42961 () Leaf) 42963
       42963 () (Node Leaf 42965 42969 () Leaf)) 42997 42998 () (Node (Node Leaf 43000 43002
       () Leaf) 43824 43866 () (Node Leaf 43868 43880 () Leaf))))) 43888 43967 () (Node
       (Node (Node (Node (Node Leaf 64256 64262 () Leaf) 64275 64279 () (Node Leaf 65313
       65338 () Leaf)) 65345 65370 () (Node (Node Leaf 66560 66639 () Leaf) 66736 66771 ()
       (Node Leaf 66776 66811 () Leaf))) 66928 66938 () (Node (Node (Node Leaf 66940 66954
       () Leaf) 66956 66962 () (Node Leaf 66964 66965 () Leaf)) 66967 66977 () (Node (Node
       Leaf 66979 66993 () Leaf) 66995 67001 () (Node Leaf 67003 67004 () Leaf)))) 67456
       67456 () (Node (Node (Node (Node Leaf 67459 67461 () Leaf) 67463 67504 () (Node Leaf
       67506 67514 () Leaf)) 68736 68786 () (Node (Node Leaf 68800 68850 () Leaf) 71840
       71903 () (Node Leaf 93760 93823 () Leaf))) 119808 119892 () (Node (Node (Node Leaf
       119894 119964 () Leaf) 119966 119967 () (Node Leaf 119970 119970 () Leaf)) 119973
       119974 () (Node (Node Leaf 119977 119980 () Leaf) 119982 119993 () (Node Leaf 119995
       119995 () Leaf)))))"

definition cased_ranges_3 :: "unit ranges" where
  "cased_ranges_3 =
     Node (Node (Node (Node (Node Leaf 120005 120069 () Leaf) 120071 120074 () (Node Leaf
       120077 120084 () Leaf)) 120086 120092 () (Node (Node Leaf 120094 120121 () Leaf)
       120123 120126 () Leaf)) 120128 120132 () (Node (Node (Node Leaf 120134 120134 ()
       Leaf) 120138 120144 () (Node Leaf 120146 120485 () Leaf)) 120488 120512 () (Node
       (Node Leaf 120514 120538 () Leaf) 120540 120570 () Leaf))) 120572 120596 () (Node
       (Node (Node (Node Leaf 120598 120628 () Leaf) 120630 120654 () (Node Leaf 120656
       120686 () Leaf)) 120688 120712 () (Node (Node Leaf 120714 120744 () Leaf) 120746
       120770 () Leaf)) 120772 120779 () (Node (Node (Node Leaf 122624 122633 () Leaf)
       122635 122654 () (Node Leaf 125184 125251 () Leaf)) 127280 127305 () (Node (Node Leaf
       127312 127337 () Leaf) 127344 127369 () Leaf)))"

text \<open>The cased code points: upper-case, lower-case and title-case.\<close>

definition cased_ranges :: "unit ranges" where
  "cased_ranges =
     Node (Node cased_ranges_1 8469 8469 () cased_ranges_2) 119997 120003 () cased_ranges_3"

definition case_ignorable_ranges_1 :: "unit ranges" where
  "case_ignorable_ranges_1 =
     Node (Node (Node (Node (Node (Node Leaf 39 39 () Leaf) 46 46 () (Node Leaf 58 58 ()
       Leaf)) 94 94 () (Node (Node Leaf 96 96 () Leaf) 168 168 () (Node Leaf 173 173 ()
       Leaf))) 175 175 () (Node (Node (Node Leaf 180 180 () Leaf) 183 184 () (Node Leaf 688
       879 () Leaf)) 884 885 () (Node (Node Leaf 890 890 () Leaf) 900 901 () (Node Leaf 903
       903 () Leaf)))) 1155 1161 () (Node (Node (Node (Node Leaf 1369 1369 () Leaf) 1375
       1375 () (Node Leaf 1425 1469 () Leaf)) 1471 1471 () (Node (Node Leaf 1473 1474 ()
       Leaf) 1476 1477 () (Node Leaf 1479 1479 () Leaf))) 1524 1524 () (Node (Node (Node
       Leaf 1536 1541 () Leaf) 1552 1562 () (Node Leaf 1564 1564 () Leaf)) 1600 1600 ()
       (Node (Node Leaf 1611 1631 () Leaf) 1648 1648 () (Node Leaf 1750 1757 () Leaf)))))
       1759 1768 () (Node (Node (Node (Node (Node Leaf 1770 1773 () Leaf) 1807 1807 () (Node
       Leaf 1809 1809 () Leaf)) 1840 1866 () (Node (Node Leaf 1958 1968 () Leaf) 2027 2037
       () (Node Leaf 2042 2042 () Leaf))) 2045 2045 () (Node (Node (Node Leaf 2070 2093 ()
       Leaf) 2137 2139 () (Node Leaf 2184 2184 () Leaf)) 2192 2193 () (Node (Node Leaf 2200
       2207 () Leaf) 2249 2306 () (Node Leaf 2362 2362 () Leaf)))) 2364 2364 () (Node (Node
       (Node (Node Leaf 2369 2376 () Leaf) 2381 2381 () (Node Leaf 2385 2391 () Leaf)) 2402
       2403 () (Node (Node Leaf 2417 2417 () Leaf) 2433 2433 () (Node Leaf 2492 2492 ()
       Leaf))) 2497 2500 () (Node (Node (Node Leaf 2509 2509 () Leaf) 2530 2531 () (Node
       Leaf 2558 2558 () Leaf)) 2561 2562 () (Node (Node Leaf 2620 2620 () Leaf) 2625 2626
       () (Node Leaf 2631 2632 () Leaf)))))"

definition case_ignorable_ranges_2 :: "unit ranges" where
  "case_ignorable_ranges_2 =
     Node (Node (Node (Node (Node (Node Leaf 2641 2641 () Leaf) 2672 2673 () (Node Leaf 2677
       2677 () Leaf)) 2689 2690 () (Node (Node Leaf 2748 2748 () Leaf) 2753 2757 () (Node
       Leaf 2759 2760 () Leaf))) 2765 2765 () (Node (Node (Node Leaf 2786 2787 () Leaf) 2810
       2815 () (Node Leaf 2817 2817 () Leaf)) 2876 2876 () (Node (Node Leaf 2879 2879 ()
       Leaf) 2881 2884 () (Node Leaf 2893 2893 () Leaf)))) 2901 2902 () (Node (Node (Node
       (Node Leaf 2914 2915 () Leaf) 2946 2946 () (Node Leaf 3008 3008 () Leaf)) 3021 3021
       () (Node (Node Leaf 3072 3072 () Leaf) 3076 3076 () (Node Leaf 3132 3132 () Leaf)))
       3134 3136 () (Node (Node (Node Leaf 3142 3144 () Leaf) 3146 3149 () (Node Leaf 3157
       3158 () Leaf)) 3170 3171 () (Node (Node Leaf 3201 3201 () Leaf) 3260 3260 () (Node
       Leaf 3263 3263 () Leaf))))) 3270 3270 () (Node (Node (Node (Node (Node Leaf 3276 3277
       () Leaf) 3298 3299 () (Node Leaf 3328 3329 () Leaf)) 3387 3388 () (Node (Node Leaf
       3393 3396 () Leaf) 3405 3405 () (Node Leaf 3426 3427 () Leaf))) 3457 3457 () (Node
       (Node (Node Leaf 3530 3530 () Leaf) 3538 3540 () (Node Leaf 3542 3542 () Leaf)) 3633
       3633 () (Node (Node Leaf 3636 3642 () Leaf) 3654 3662 () (Node Leaf 3761 3761 ()
       Leaf)))) 3764 3772 () (Node (Node (Node (Node Leaf 3782 3782 () Leaf) 3784 3789 ()
       (Node Leaf 3864 3865 () Leaf)) 3893 3893 () (Node (Node Leaf 3895 3895 () Leaf) 3897
       3897 () (Node Leaf 3953 3966 () Leaf))) 3968 3972 () (Node (Node (Node Leaf 3974 3975
       () Leaf) 3981 3991 () (Node Leaf 3993 4028 () Leaf)) 4038 4038 () (Node (Node Leaf
       4141 4144 () Leaf) 4146 4151 () (Node Leaf 4153 4154 () Leaf)))))"

definition case_ignorable_ranges_3 :: "unit ranges" where
  "case_ignorable_ranges_3 =
     Node (Node (Node (Node (Node (Node Leaf 4184 4185 () Leaf) 4190 4192 () (Node Leaf 4209
       4212 () Leaf)) 4226 4226 () (Node (Node Leaf 4229 4230 () Leaf) 4237 4237 () (Node
       Leaf 4253 4253 () Leaf))) 4348 4348 () (Node (Node (Node Leaf 4957 4959 () Leaf) 5906
       5908 () (Node Leaf 5938 5939 () Leaf)) 5970 5971 () (Node (Node Leaf 6002 6003 ()
       Leaf) 6068 6069 () (Node Leaf 6071 6077 () Leaf)))) 6086 6086 () (Node (Node (Node
       (Node Leaf 6089 6099 () Leaf) 6103 6103 () (Node Leaf 6109 6109 () Leaf)) 6155 6159
       () (Node (Node Leaf 6211 6211 () Leaf) 6277 6278 () (Node Leaf 6313 6313 () Leaf)))
       6432 6434 () (Node (Node (Node Leaf 6439 6440 () Leaf) 6450 6450 () (Node Leaf 6457
       6459 () Leaf)) 6679 6680 () (Node (Node Leaf 6683 6683 () Leaf) 6742 6742 () (Node
       Leaf 6744 6750 () Leaf))))) 6752 6752 () (Node (Node (Node (Node (Node Leaf 6754 6754
       () Leaf) 6757 6764 () (Node Leaf 6771 6780 () Leaf)) 6783 6783 () (Node (Node Leaf
       6823 6823 () Leaf) 6832 6862 () (Node Leaf 6912 6915 () Leaf))) 6964 6964 () (Node
       (Node (Node Leaf 6966 6970 () Leaf) 6972 6972 () (Node Leaf 6978 6978 () Leaf)) 7019
       7027 () (Node (Node Leaf 7040 7041 () Leaf) 7074 7077 () (Node Leaf 7080 7081 ()
       Leaf)))) 7083 7085 () (Node (Node (Node (Node Leaf 7142 7142 () Leaf) 7144 7145 ()
       (Node Leaf 7149 7149 () Leaf)) 7151 7153 () (Node (Node Leaf 7212 7219 () Leaf) 7222
       7223 () (Node Leaf 7288 7293 () Leaf))) 7376 7378 () (Node (Node (Node Leaf 7380 7392
       () Leaf) 7394 7400 () (Node Leaf 7405 7405 () Leaf)) 7412 7412 () (Node (Node Leaf
       7416 7417 () Leaf) 7468 7530 () (Node Leaf 7544 7544 () Leaf)))))"

definition case_ignorable_ranges_4 :: "unit ranges" where
  "case_ignorable_ranges_4 =
     Node (Node (Node (Node (Node (Node Leaf 8125 8125 () Leaf) 8127 8129 () (Node Leaf 8141
       8143 () Leaf)) 8157 8159 () (Node (Node Leaf 8173 8175 () Leaf) 8189 8190 () (Node
       Leaf 8203 8207 () Leaf))) 8216 8217 () (Node (Node (Node Leaf 8228 8228 () Leaf) 8231
       8231 () (Node Leaf 8234 8238 () Leaf)) 8288 8292 () (Node (Node Leaf 8294 8303 ()
       Leaf) 8305 8305 () (Node Leaf 8319 8319 () Leaf)))) 8336 8348 () (Node (Node (Node
       (Node Leaf 8400 8432 () Leaf) 11388 11389 () (Node Leaf 11503 11505 () Leaf)) 11631
       11631 () (Node (Node Leaf 11647 11647 () Leaf) 11744 11775 () (Node Leaf 11823 11823
       () Leaf))) 12293 12293 () (Node (Node (Node Leaf 12330 12333 () Leaf) 12337 12341 ()
       (Node Leaf 12347 12347 () Leaf)) 12441 12446 () (Node (Node Leaf 12540 12542 () Leaf)
       40981 40981 () (Node Leaf 42232 42237 () Leaf))))) 42508 42508 () (Node (Node (Node
       (Node (Node Leaf 42607 42610 () Leaf) 42612 42621 () (Node Leaf 42623 42623 () Leaf))
       42652 42655 () (Node (Node Leaf 42736 42737 () Leaf) 42752 42785 () (Node Leaf 42864
       42864 () Leaf))) 42888 42890 () (Node (Node (Node Leaf 42994 42996 () Leaf) 43000
       43001 () (Node Leaf 43010 43010 () Leaf)) 43014 43014 () (Node (Node Leaf 43019 43019
       () Leaf) 43045 43046 () (Node Leaf 43052 43052 () Leaf)))) 43204 43205 () (Node (Node
       (Node (Node Leaf 43232 43249 () Leaf) 43263 43263 () (Node Leaf 43302 43309 () Leaf))
       43335 43345 () (Node (Node Leaf 43392 43394 () Leaf) 43443 43443 () (Node Leaf 43446
       43449 () Leaf))) 43452 43453 () (Node (Node (Node Leaf 43471 43471 () Leaf) 43493
       43494 () (Node Leaf 43561 43566 () Leaf)) 43569 43570 () (Node (Node Leaf 43573 43574
       () Leaf) 43587 43587 () (Node Leaf 43596 43596 () Leaf)))))"

definition case_ignorable_ranges_5 :: "unit ranges" where
  "case_ignorable_ranges_5 =
     Node (Node (Node (Node (Node (Node Leaf 43644 43644 () Leaf) 43696 43696 () (Node Leaf
       43698 43700 () Leaf)) 43703 43704 () (Node (Node Leaf 43710 43711 () Leaf) 43713
       43713 () (Node Leaf 43741 43741 () Leaf))) 43756 43757 () (Node (Node (Node Leaf
       43763 43764 () Leaf) 43766 43766 () (Node Leaf 43867 43871 () Leaf)) 43881 43883 ()
       (Node (Node Leaf 44005 44005 () Leaf) 44008 44008 () (Node Leaf 44013 44013 ()
       Leaf)))) 64286 64286 () (Node (Node (Node (Node Leaf 64434 64450 () Leaf) 65024 65039
       () (Node Leaf 65043 65043 () Leaf)) 65056 65071 () (Node (Node Leaf 65106 65106 ()
       Leaf) 65109 65109 () (Node Leaf 65279 65279 () Leaf))) 65287 65287 () (Node (Node
       (Node Leaf 65294 65294 () Leaf) 65306 65306 () (Node Leaf 65342 65342 () Leaf)) 65344
       65344 () (Node (Node Leaf 65392 65392 () Leaf) 65438 65439 () (Node Leaf 65507 65507
       () Leaf))))) 65529 65531 () (Node (Node (Node (Node (Node Leaf 66045 66045 () Leaf)
       66272 66272 () (Node Leaf 66422 66426 () Leaf)) 67456 67461 () (Node (Node Leaf 67463
       67504 () Leaf) 67506 67514 () (Node Leaf 68097 68099 () Leaf))) 68101 68102 () (Node
       (Node (Node Leaf 68108 68111 () Leaf) 68152 68154 () (Node Leaf 68159 68159 () Leaf))
       68325 68326 () (Node (Node Leaf 68900 68903 () Leaf) 69291 69292 () (Node Leaf 69446
       69456 () Leaf)))) 69506 69509 () (Node (Node (Node (Node Leaf 69633 69633 () Leaf)
       69688 69702 () (Node Leaf 69744 69744 () Leaf)) 69747 69748 () (Node (Node Leaf 69759
       69761 () Leaf) 69811 69814 () (Node Leaf 69817 69818 () Leaf))) 69821 69821 () (Node
       (Node (Node Leaf 69826 69826 () Leaf) 69837 69837 () (Node Leaf 69888 69890 () Leaf))
       69927 69931 () (Node (Node Leaf 69933 69940 () Leaf) 70003 70003 () (Node Leaf 70016
       70017 () Leaf)))))"

definition case_ignorable_ranges_6 :: "unit ranges" where
  "case_ignorable_ranges_6 =
     Node (Node (Node (Node (Node (Node Leaf 70089 70092 () Leaf) 70095 70095 () (Node Leaf
       70191 70193 () Leaf)) 70196 70196 () (Node (Node Leaf 70198 70199 () Leaf) 70206
       70206 () (Node Leaf 70367 70367 () Leaf))) 70371 70378 () (Node (Node (Node Leaf
       70400 70401 () Leaf) 70459 70460 () (Node Leaf 70464 70464 () Leaf)) 70502 70508 ()
       (Node (Node Leaf 70512 70516 () Leaf) 70712 70719 () (Node Leaf 70722 70724 ()
       Leaf)))) 70726 70726 () (Node (Node (Node (Node Leaf 70750 70750 () Leaf) 70835 70840
       () (Node Leaf 70842 70842 () Leaf)) 70847 70848 () (Node (Node Leaf 70850 70851 ()
       Leaf) 71090 71093 () (Node Leaf 71100 71101 () Leaf))) 71103 71104 () (Node (Node
       (Node Leaf 71132 71133 () Leaf) 71219 71226 () (Node Leaf 71229 71229 () Leaf)) 71231
       71232 () (Node (Node Leaf 71339 71339 () Leaf) 71341 71341 () (Node Leaf 71344 71349
       () Leaf))))) 71351 71351 () (Node (Node (Node (Node (Node Leaf 71453 71455 () Leaf)
       71458 71461 () (Node Leaf 71463 71467 () Leaf)) 71727 71735 () (Node (Node Leaf 71737
       71738 () Leaf) 71995 71996 () (Node Leaf 71998 71998 () Leaf))) 72003 72003 () (Node
       (Node (Node Leaf 72148 72151 () Leaf) 72154 72155 () (Node Leaf 72160 72160 () Leaf))
       72193 72202 () (Node (Node Leaf 72243 72248 () Leaf) 72251 72254 () (Node Leaf 72263
       72263 () Leaf)))) 72273 72278 () (Node (Node (Node (Node Leaf 72281 72283 () Leaf)
       72330 72342 () (Node Leaf 72344 72345 () Leaf)) 72752 72758 () (Node (Node Leaf 72760
       72765 () Leaf) 72767 72767 () (Node Leaf 72850 72871 () Leaf))) 72874 72880 () (Node
       (Node (Node Leaf 72882 72883 () Leaf) 72885 72886 () (Node Leaf 73009 73014 () Leaf))
       73018 73018 () (Node (Node Leaf 73020 73021 () Leaf) 73023 73029 () (Node Leaf 73031
       73031 () Leaf)))))"

definition case_ignorable_ranges_7 :: "unit ranges" where
  "case_ignorable_ranges_7 =
     Node (Node (Node (Node (Node (Node Leaf 73109 73109 () Leaf) 73111 73111 () Leaf) 73459
       73460 () (Node (Node Leaf 78896 78904 () Leaf) 92912 92916 () Leaf)) 92976 92982 ()
       (Node (Node (Node Leaf 92992 92995 () Leaf) 94031 94031 () Leaf) 94095 94111 () (Node
       Leaf 94176 94177 () Leaf))) 94179 94180 () (Node (Node (Node (Node Leaf 110576 110579
       () Leaf) 110581 110587 () Leaf) 110589 110590 () (Node (Node Leaf 113821 113822 ()
       Leaf) 113824 113827 () Leaf)) 118528 118573 () (Node (Node (Node Leaf 118576 118598
       () Leaf) 119143 119145 () Leaf) 119155 119170 () (Node Leaf 119173 119179 () Leaf))))
       119210 119213 () (Node (Node (Node (Node (Node Leaf 119362 119364 () Leaf) 121344
       121398 () Leaf) 121403 121452 () (Node (Node Leaf 121461 121461 () Leaf) 121476
       121476 () Leaf)) 121499 121503 () (Node (Node (Node Leaf 121505 121519 () Leaf)
       122880 122886 () Leaf) 122888 122904 () (Node Leaf 122907 122913 () Leaf))) 122915
       122916 () (Node (Node (Node (Node Leaf 122918 122922 () Leaf) 123184 123197 () Leaf)
       123566 123566 () (Node (Node Leaf 123628 123631 () Leaf) 125136 125142 () Leaf))
       125252 125259 () (Node (Node (Node Leaf 127995 127999 () Leaf) 917505 917505 () Leaf)
       917536 917631 () (Node Leaf 917760 917999 () Leaf))))"

text \<open>The case-ignorable code points.\<close>

definition case_ignorable_ranges :: "unit ranges" where
  "case_ignorable_ranges =
     Node (Node (Node case_ignorable_ranges_1 2635 2637 () case_ignorable_ranges_2) 4157
       4158 () (Node case_ignorable_ranges_3 7579 7679 () case_ignorable_ranges_4)) 43632
       43632 () (Node (Node case_ignorable_ranges_5 70070 70078 () case_ignorable_ranges_6)
       73104 73105 () case_ignorable_ranges_7)"

definition lower_deltas_1 :: "int ranges" where
  "lower_deltas_1 =
     Node (Node (Node (Node (Node (Node Leaf 65 90 32 Leaf) 192 214 32 (Node Leaf 216 222 32
       Leaf)) 256 256 1 (Node (Node Leaf 258 258 1 Leaf) 260 260 1 (Node Leaf 262 262 1
       Leaf))) 264 264 1 (Node (Node (Node Leaf 266 266 1 Leaf) 268 268 1 (Node Leaf 270 270
       1 Leaf)) 272 272 1 (Node (Node Leaf 274 274 1 Leaf) 276 276 1 (Node Leaf 278 278 1
       Leaf)))) 280 280 1 (Node (Node (Node (Node Leaf 282 282 1 Leaf) 284 284 1 (Node Leaf
       286 286 1 Leaf)) 288 288 1 (Node (Node Leaf 290 290 1 Leaf) 292 292 1 (Node Leaf 294
       294 1 Leaf))) 296 296 1 (Node (Node (Node Leaf 298 298 1 Leaf) 300 300 1 (Node Leaf
       302 302 1 Leaf)) 306 306 1 (Node (Node Leaf 308 308 1 Leaf) 310 310 1 (Node Leaf 313
       313 1 Leaf))))) 315 315 1 (Node (Node (Node (Node (Node Leaf 317 317 1 Leaf) 319 319
       1 (Node Leaf 321 321 1 Leaf)) 323 323 1 (Node (Node Leaf 325 325 1 Leaf) 327 327 1
       (Node Leaf 330 330 1 Leaf))) 332 332 1 (Node (Node (Node Leaf 334 334 1 Leaf) 336 336
       1 (Node Leaf 338 338 1 Leaf)) 340 340 1 (Node (Node Leaf 342 342 1 Leaf) 344 344 1
       (Node Leaf 346 346 1 Leaf)))) 348 348 1 (Node (Node (Node (Node Leaf 350 350 1 Leaf)
       352 352 1 (Node Leaf 354 354 1 Leaf)) 356 356 1 (Node (Node Leaf 358 358 1 Leaf) 360
       360 1 (Node Leaf 362 362 1 Leaf))) 364 364 1 (Node (Node (Node Leaf 366 366 1 Leaf)
       368 368 1 (Node Leaf 370 370 1 Leaf)) 372 372 1 (Node (Node Leaf 374 374 1 Leaf) 376
       376 (- 121) (Node Leaf 377 377 1 Leaf)))))"

definition lower_deltas_2 :: "int ranges" where
  "lower_deltas_2 =
     Node (Node (Node (Node (Node (Node Leaf 381 381 1 Leaf) 385 385 210 (Node Leaf 386 386
       1 Leaf)) 388 388 1 (Node (Node Leaf 390 390 206 Leaf) 391 391 1 (Node Leaf 393 394
       205 Leaf))) 395 395 1 (Node (Node (Node Leaf 398 398 79 Leaf) 399 399 202 (Node Leaf
       400 400 203 Leaf)) 401 401 1 (Node (Node Leaf 403 403 205 Leaf) 404 404 207 (Node
       Leaf 406 406 211 Leaf)))) 407 407 209 (Node (Node (Node (Node Leaf 408 408 1 Leaf)
       412 412 211 (Node Leaf 413 413 213 Leaf)) 415 415 214 (Node (Node Leaf 416 416 1
       Leaf) 418 418 1 (Node Leaf 420 420 1 Leaf))) 422 422 218 (Node (Node (Node Leaf 423
       423 1 Leaf) 425 425 218 (Node Leaf 428 428 1 Leaf)) 430 430 218 (Node (Node Leaf 431
       431 1 Leaf) 433 434 217 (Node Leaf 435 435 1 Leaf))))) 437 437 1 (Node (Node (Node
       (Node (Node Leaf 439 439 219 Leaf) 440 440 1 (Node Leaf 444 444 1 Leaf)) 452 452 2
       (Node (Node Leaf 453 453 1 Leaf) 455 455 2 (Node Leaf 456 456 1 Leaf))) 458 458 2
       (Node (Node (Node Leaf 459 459 1 Leaf) 461 461 1 (Node Leaf 463 463 1 Leaf)) 465 465
       1 (Node (Node Leaf 467 467 1 Leaf) 469 469 1 (Node Leaf 471 471 1 Leaf)))) 473 473 1
       (Node (Node (Node (Node Leaf 475 475 1 Leaf) 478 478 1 (Node Leaf 480 480 1 Leaf))
       482 482 1 (Node (Node Leaf 484 484 1 Leaf) 486 486 1 (Node Leaf 488 488 1 Leaf))) 490
       490 1 (Node (Node (Node Leaf 492 492 1 Leaf) 494 494 1 (Node Leaf 497 497 2 Leaf))
       498 498 1 (Node (Node Leaf 500 500 1 Leaf) 502 502 (- 97) (Node Leaf 503 503 (- 56)
       Leaf)))))"

definition lower_deltas_3 :: "int ranges" where
  "lower_deltas_3 =
     Node (Node (Node (Node (Node (Node Leaf 506 506 1 Leaf) 508 508 1 (Node Leaf 510 510 1
       Leaf)) 512 512 1 (Node (Node Leaf 514 514 1 Leaf) 516 516 1 (Node Leaf 518 518 1
       Leaf))) 520 520 1 (Node (Node (Node Leaf 522 522 1 Leaf) 524 524 1 (Node Leaf 526 526
       1 Leaf)) 528 528 1 (Node (Node Leaf 530 530 1 Leaf) 532 532 1 (Node Leaf 534 534 1
       Leaf)))) 536 536 1 (Node (Node (Node (Node Leaf 538 538 1 Leaf) 540 540 1 (Node Leaf
       542 542 1 Leaf)) 544 544 (- 130) (Node (Node Leaf 546 546 1 Leaf) 548 548 1 (Node
       Leaf 550 550 1 Leaf))) 552 552 1 (Node (Node (Node Leaf 554 554 1 Leaf) 556 556 1
       (Node Leaf 558 558 1 Leaf)) 560 560 1 (Node (Node Leaf 562 562 1 Leaf) 570 570 10795
       (Node Leaf 571 571 1 Leaf))))) 573 573 (- 163) (Node (Node (Node (Node (Node Leaf 574
       574 10792 Leaf) 577 577 1 (Node Leaf 579 579 (- 195) Leaf)) 580 580 69 (Node (Node
       Leaf 581 581 71 Leaf) 582 582 1 (Node Leaf 584 584 1 Leaf))) 586 586 1 (Node (Node
       (Node Leaf 588 588 1 Leaf) 590 590 1 (Node Leaf 880 880 1 Leaf)) 882 882 1 (Node
       (Node Leaf 886 886 1 Leaf) 895 895 116 (Node Leaf 902 902 38 Leaf)))) 904 906 37
       (Node (Node (Node (Node Leaf 908 908 64 Leaf) 910 911 63 (Node Leaf 913 929 32 Leaf))
       931 939 32 (Node (Node Leaf 975 975 8 Leaf) 984 984 1 (Node Leaf 986 986 1 Leaf)))
       988 988 1 (Node (Node (Node Leaf 990 990 1 Leaf) 992 992 1 (Node Leaf 994 994 1
       Leaf)) 996 996 1 (Node (Node Leaf 998 998 1 Leaf) 1000 1000 1 (Node Leaf 1002 1002 1
       Leaf)))))"

definition lower_deltas_4 :: "int ranges" where
  "lower_deltas_4 =
     Node (Node (Node (Node (Node (Node Leaf 1006 1006 1 Leaf) 1012 1012 (- 60) (Node Leaf
       1015 1015 1 Leaf)) 1017 1017 (- 7) (Node (Node Leaf 1018 1018 1 Leaf) 1021 1023 (-
       130) (Node Leaf 1024 1039 80 Leaf))) 1040 1071 32 (Node (Node (Node Leaf 1120 1120 1
       Leaf) 1122 1122 1 (Node Leaf 1124 1124 1 Leaf)) 1126 1126 1 (Node (Node Leaf 1128
       1128 1 Leaf) 1130 1130 1 (Node Leaf 1132 1132 1 Leaf)))) 1134 1134 1 (Node (Node
       (Node (Node Leaf 1136 1136 1 Leaf) 1138 1138 1 (Node Leaf 1140 1140 1 Leaf)) 1142
       1142 1 (Node (Node Leaf 1144 1144 1 Leaf) 1146 1146 1 (Node Leaf 1148 1148 1 Leaf)))
       1150 1150 1 (Node (Node (Node Leaf 1152 1152 1 Leaf) 1162 1162 1 (Node Leaf 1164 1164
       1 Leaf)) 1166 1166 1 (Node (Node Leaf 1168 1168 1 Leaf) 1170 1170 1 (Node Leaf 1172
       1172 1 Leaf))))) 1174 1174 1 (Node (Node (Node (Node (Node Leaf 1176 1176 1 Leaf)
       1178 1178 1 (Node Leaf 1180 1180 1 Leaf)) 1182 1182 1 (Node (Node Leaf 1184 1184 1
       Leaf) 1186 1186 1 (Node Leaf 1188 1188 1 Leaf))) 1190 1190 1 (Node (Node (Node Leaf
       1192 1192 1 Leaf) 1194 1194 1 (Node Leaf 1196 1196 1 Leaf)) 1198 1198 1 (Node (Node
       Leaf 1200 1200 1 Leaf) 1202 1202 1 (Node Leaf 1204 1204 1 Leaf)))) 1206 1206 1 (Node
       (Node (Node (Node Leaf 1208 1208 1 Leaf) 1210 1210 1 (Node Leaf 1212 1212 1 Leaf))
       1214 1214 1 (Node (Node Leaf 1216 1216 15 Leaf) 1217 1217 1 (Node Leaf 1219 1219 1
       Leaf))) 1221 1221 1 (Node (Node (Node Leaf 1223 1223 1 Leaf) 1225 1225 1 (Node Leaf
       1227 1227 1 Leaf)) 1229 1229 1 (Node (Node Leaf 1232 1232 1 Leaf) 1234 1234 1 (Node
       Leaf 1236 1236 1 Leaf)))))"

definition lower_deltas_5 :: "int ranges" where
  "lower_deltas_5 =
     Node (Node (Node (Node (Node (Node Leaf 1240 1240 1 Leaf) 1242 1242 1 (Node Leaf 1244
       1244 1 Leaf)) 1246 1246 1 (Node (Node Leaf 1248 1248 1 Leaf) 1250 1250 1 (Node Leaf
       1252 1252 1 Leaf))) 1254 1254 1 (Node (Node (Node Leaf 1256 1256 1 Leaf) 1258 1258 1
       (Node Leaf 1260 1260 1 Leaf)) 1262 1262 1 (Node (Node Leaf 1264 1264 1 Leaf) 1266
       1266 1 (Node Leaf 1268 1268 1 Leaf)))) 1270 1270 1 (Node (Node (Node (Node Leaf 1272
       1272 1 Leaf) 1274 1274 1 (Node Leaf 1276 1276 1 Leaf)) 1278 1278 1 (Node (Node Leaf
       1280 1280 1 Leaf) 1282 1282 1 (Node Leaf 1284 1284 1 Leaf))) 1286 1286 1 (Node (Node
       (Node Leaf 1288 1288 1 Leaf) 1290 1290 1 (Node Leaf 1292 1292 1 Leaf)) 1294 1294 1
       (Node (Node Leaf 1296 1296 1 Leaf) 1298 1298 1 (Node Leaf 1300 1300 1 Leaf))))) 1302
       1302 1 (Node (Node (Node (Node (Node Leaf 1304 1304 1 Leaf) 1306 1306 1 (Node Leaf
       1308 1308 1 Leaf)) 1310 1310 1 (Node (Node Leaf 1312 1312 1 Leaf) 1314 1314 1 (Node
       Leaf 1316 1316 1 Leaf))) 1318 1318 1 (Node (Node (Node Leaf 1320 1320 1 Leaf) 1322
       1322 1 (Node Leaf 1324 1324 1 Leaf)) 1326 1326 1 (Node (Node Leaf 1329 1366 48 Leaf)
       4256 4293 7264 (Node Leaf 4295 4295 7264 Leaf)))) 4301 4301 7264 (Node (Node (Node
       (Node Leaf 5024 5103 38864 Leaf) 5104 5109 8 (Node Leaf 7312 7354 (- 3008) Leaf))
       7357 7359 (- 3008) (Node (Node Leaf 7680 7680 1 Leaf) 7682 7682 1 (Node Leaf 7684
       7684 1 Leaf))) 7686 7686 1 (Node (Node (Node Leaf 7688 7688 1 Leaf) 7690 7690 1 (Node
       Leaf 7692 7692 1 Leaf)) 7694 7694 1 (Node (Node Leaf 7696 7696 1 Leaf) 7698 7698 1
       (Node Leaf 7700 7700 1 Leaf)))))"

definition lower_deltas_6 :: "int ranges" where
  "lower_deltas_6 =
     Node (Node (Node (Node (Node (Node Leaf 7704 7704 1 Leaf) 7706 7706 1 (Node Leaf 7708
       7708 1 Leaf)) 7710 7710 1 (Node (Node Leaf 7712 7712 1 Leaf) 7714 7714 1 (Node Leaf
       7716 7716 1 Leaf))) 7718 7718 1 (Node (Node (Node Leaf 7720 7720 1 Leaf) 7722 7722 1
       (Node Leaf 7724 7724 1 Leaf)) 7726 7726 1 (Node (Node Leaf 7728 7728 1 Leaf) 7730
       7730 1 (Node Leaf 7732 7732 1 Leaf)))) 7734 7734 1 (Node (Node (Node (Node Leaf 7736
       7736 1 Leaf) 7738 7738 1 (Node Leaf 7740 7740 1 Leaf)) 7742 7742 1 (Node (Node Leaf
       7744 7744 1 Leaf) 7746 7746 1 (Node Leaf 7748 7748 1 Leaf))) 7750 7750 1 (Node (Node
       (Node Leaf 7752 7752 1 Leaf) 7754 7754 1 (Node Leaf 7756 7756 1 Leaf)) 7758 7758 1
       (Node (Node Leaf 7760 7760 1 Leaf) 7762 7762 1 (Node Leaf 7764 7764 1 Leaf))))) 7766
       7766 1 (Node (Node (Node (Node (Node Leaf 7768 7768 1 Leaf) 7770 7770 1 (Node Leaf
       7772 7772 1 Leaf)) 7774 7774 1 (Node (Node Leaf 7776 7776 1 Leaf) 7778 7778 1 (Node
       Leaf 7780 7780 1 Leaf))) 7782 7782 1 (Node (Node (Node Leaf 7784 7784 1 Leaf) 7786
       7786 1 (Node Leaf 7788 7788 1 Leaf)) 7790 7790 1 (Node (Node Leaf 7792 7792 1 Leaf)
       7794 7794 1 (Node Leaf 7796 7796 1 Leaf)))) 7798 7798 1 (Node (Node (Node (Node Leaf
       7800 7800 1 Leaf) 7802 7802 1 (Node Leaf 7804 7804 1 Leaf)) 7806 7806 1 (Node (Node
       Leaf 7808 7808 1 Leaf) 7810 7810 1 (Node Leaf 7812 7812 1 Leaf))) 7814 7814 1 (Node
       (Node (Node Leaf 7816 7816 1 Leaf) 7818 7818 1 (Node Leaf 7820 7820 1 Leaf)) 7822
       7822 1 (Node (Node Leaf 7824 7824 1 Leaf) 7826 7826 1 (Node Leaf 7828 7828 1
       Leaf)))))"

definition lower_deltas_7 :: "int ranges" where
  "lower_deltas_7 =
     Node (Node (Node (Node (Node (Node Leaf 7840 7840 1 Leaf) 7842 7842 1 (Node Leaf 7844
       7844 1 Leaf)) 7846 7846 1 (Node (Node Leaf 7848 7848 1 Leaf) 7850 7850 1 (Node Leaf
       7852 7852 1 Leaf))) 7854 7854 1 (Node (Node (Node Leaf 7856 7856 1 Leaf) 7858 7858 1
       (Node Leaf 7860 7860 1 Leaf)) 7862 7862 1 (Node (Node Leaf 7864 7864 1 Leaf) 7866
       7866 1 (Node Leaf 7868 7868 1 Leaf)))) 7870 7870 1 (Node (Node (Node (Node Leaf 7872
       7872 1 Leaf) 7874 7874 1 (Node Leaf 7876 7876 1 Leaf)) 7878 7878 1 (Node (Node Leaf
       7880 7880 1 Leaf) 7882 7882 1 (Node Leaf 7884 7884 1 Leaf))) 7886 7886 1 (Node (Node
       (Node Leaf 7888 7888 1 Leaf) 7890 7890 1 (Node Leaf 7892 7892 1 Leaf)) 7894 7894 1
       (Node (Node Leaf 7896 7896 1 Leaf) 7898 7898 1 (Node Leaf 7900 7900 1 Leaf))))) 7902
       7902 1 (Node (Node (Node (Node (Node Leaf 7904 7904 1 Leaf) 7906 7906 1 (Node Leaf
       7908 7908 1 Leaf)) 7910 7910 1 (Node (Node Leaf 7912 7912 1 Leaf) 7914 7914 1 (Node
       Leaf 7916 7916 1 Leaf))) 7918 7918 1 (Node (Node (Node Leaf 7920 7920 1 Leaf) 7922
       7922 1 (Node Leaf 7924 7924 1 Leaf)) 7926 7926 1 (Node (Node Leaf 7928 7928 1 Leaf)
       7930 7930 1 (Node Leaf 7932 7932 1 Leaf)))) 7934 7934 1 (Node (Node (Node (Node Leaf
       7944 7951 (- 8) Leaf) 7960 7965 (- 8) (Node Leaf 7976 7983 (- 8) Leaf)) 7992 7999 (-
       8) (Node (Node Leaf 8008 8013 (- 8) Leaf) 8025 8025 (- 8) (Node Leaf 8027 8027 (- 8)
       Leaf))) 8029 8029 (- 8) (Node (Node (Node Leaf 8031 8031 (- 8) Leaf) 8040 8047 (- 8)
       (Node Leaf 8072 8079 (- 8) Leaf)) 8088 8095 (- 8) (Node (Node Leaf 8104 8111 (- 8)
       Leaf) 8120 8121 (- 8) (Node Leaf 8122 8123 (- 74) Leaf)))))"

definition lower_deltas_8 :: "int ranges" where
  "lower_deltas_8 =
     Node (Node (Node (Node (Node (Node Leaf 8136 8139 (- 86) Leaf) 8140 8140 (- 9) (Node
       Leaf 8152 8153 (- 8) Leaf)) 8154 8155 (- 100) (Node (Node Leaf 8168 8169 (- 8) Leaf)
       8170 8171 (- 112) (Node Leaf 8172 8172 (- 7) Leaf))) 8184 8185 (- 128) (Node (Node
       (Node Leaf 8186 8187 (- 126) Leaf) 8188 8188 (- 9) (Node Leaf 8486 8486 (- 7517)
       Leaf)) 8490 8490 (- 8383) (Node (Node Leaf 8491 8491 (- 8262) Leaf) 8498 8498 28
       (Node Leaf 8544 8559 16 Leaf)))) 8579 8579 1 (Node (Node (Node (Node Leaf 9398 9423
       26 Leaf) 11264 11311 48 (Node Leaf 11360 11360 1 Leaf)) 11362 11362 (- 10743) (Node
       (Node Leaf 11363 11363 (- 3814) Leaf) 11364 11364 (- 10727) (Node Leaf 11367 11367 1
       Leaf))) 11369 11369 1 (Node (Node (Node Leaf 11371 11371 1 Leaf) 11373 11373 (-
       10780) (Node Leaf 11374 11374 (- 10749) Leaf)) 11375 11375 (- 10783) (Node (Node Leaf
       11376 11376 (- 10782) Leaf) 11378 11378 1 (Node Leaf 11381 11381 1 Leaf))))) 11390
       11391 (- 10815) (Node (Node (Node (Node (Node Leaf 11392 11392 1 Leaf) 11394 11394 1
       (Node Leaf 11396 11396 1 Leaf)) 11398 11398 1 (Node (Node Leaf 11400 11400 1 Leaf)
       11402 11402 1 (Node Leaf 11404 11404 1 Leaf))) 11406 11406 1 (Node (Node (Node Leaf
       11408 11408 1 Leaf) 11410 11410 1 (Node Leaf 11412 11412 1 Leaf)) 11414 11414 1 (Node
       (Node Leaf 11416 11416 1 Leaf) 11418 11418 1 (Node Leaf 11420 11420 1 Leaf)))) 11422
       11422 1 (Node (Node (Node (Node Leaf 11424 11424 1 Leaf) 11426 11426 1 (Node Leaf
       11428 11428 1 Leaf)) 11430 11430 1 (Node (Node Leaf 11432 11432 1 Leaf) 11434 11434 1
       (Node Leaf 11436 11436 1 Leaf))) 11438 11438 1 (Node (Node (Node Leaf 11440 11440 1
       Leaf) 11442 11442 1 (Node Leaf 11444 11444 1 Leaf)) 11446 11446 1 (Node (Node Leaf
       11448 11448 1 Leaf) 11450 11450 1 (Node Leaf 11452 11452 1 Leaf)))))"

definition lower_deltas_9 :: "int ranges" where
  "lower_deltas_9 =
     Node (Node (Node (Node (Node (Node Leaf 11456 11456 1 Leaf) 11458 11458 1 (Node Leaf
       11460 11460 1 Leaf)) 11462 11462 1 (Node (Node Leaf 11464 11464 1 Leaf) 11466 11466 1
       (Node Leaf 11468 11468 1 Leaf))) 11470 11470 1 (Node (Node (Node Leaf 11472 11472 1
       Leaf) 11474 11474 1 (Node Leaf 11476 11476 1 Leaf)) 11478 11478 1 (Node (Node Leaf
       11480 11480 1 Leaf) 11482 11482 1 (Node Leaf 11484 11484 1 Leaf)))) 11486 11486 1
       (Node (Node (Node (Node Leaf 11488 11488 1 Leaf) 11490 11490 1 (Node Leaf 11499 11499
       1 Leaf)) 11501 11501 1 (Node (Node Leaf 11506 11506 1 Leaf) 42560 42560 1 (Node Leaf
       42562 42562 1 Leaf))) 42564 42564 1 (Node (Node (Node Leaf 42566 42566 1 Leaf) 42568
       42568 1 (Node Leaf 42570 42570 1 Leaf)) 42572 42572 1 (Node (Node Leaf 42574 42574 1
       Leaf) 42576 42576 1 (Node Leaf 42578 42578 1 Leaf))))) 42580 42580 1 (Node (Node
       (Node (Node (Node Leaf 42582 42582 1 Leaf) 42584 42584 1 (Node Leaf 42586 42586 1
       Leaf)) 42588 42588 1 (Node (Node Leaf 42590 42590 1 Leaf) 42592 42592 1 (Node Leaf
       42594 42594 1 Leaf))) 42596 42596 1 (Node (Node (Node Leaf 42598 42598 1 Leaf) 42600
       42600 1 (Node Leaf 42602 42602 1 Leaf)) 42604 42604 1 (Node (Node Leaf 42624 42624 1
       Leaf) 42626 42626 1 (Node Leaf 42628 42628 1 Leaf)))) 42630 42630 1 (Node (Node (Node
       (Node Leaf 42632 42632 1 Leaf) 42634 42634 1 (Node Leaf 42636 42636 1 Leaf)) 42638
       42638 1 (Node (Node Leaf 42640 42640 1 Leaf) 42642 42642 1 (Node Leaf 42644 42644 1
       Leaf))) 42646 42646 1 (Node (Node (Node Leaf 42648 42648 1 Leaf) 42650 42650 1 (Node
       Leaf 42786 42786 1 Leaf)) 42788 42788 1 (Node (Node Leaf 42790 42790 1 Leaf) 42792
       42792 1 (Node Leaf 42794 42794 1 Leaf)))))"

definition lower_deltas_10 :: "int ranges" where
  "lower_deltas_10 =
     Node (Node (Node (Node (Node (Node Leaf 42798 42798 1 Leaf) 42802 42802 1 (Node Leaf
       42804 42804 1 Leaf)) 42806 42806 1 (Node (Node Leaf 42808 42808 1 Leaf) 42810 42810 1
       (Node Leaf 42812 42812 1 Leaf))) 42814 42814 1 (Node (Node (Node Leaf 42816 42816 1
       Leaf) 42818 42818 1 (Node Leaf 42820 42820 1 Leaf)) 42822 42822 1 (Node (Node Leaf
       42824 42824 1 Leaf) 42826 42826 1 (Node Leaf 42828 42828 1 Leaf)))) 42830 42830 1
       (Node (Node (Node (Node Leaf 42832 42832 1 Leaf) 42834 42834 1 (Node Leaf 42836 42836
       1 Leaf)) 42838 42838 1 (Node (Node Leaf 42840 42840 1 Leaf) 42842 42842 1 (Node Leaf
       42844 42844 1 Leaf))) 42846 42846 1 (Node (Node (Node Leaf 42848 42848 1 Leaf) 42850
       42850 1 (Node Leaf 42852 42852 1 Leaf)) 42854 42854 1 (Node (Node Leaf 42856 42856 1
       Leaf) 42858 42858 1 (Node Leaf 42860 42860 1 Leaf))))) 42862 42862 1 (Node (Node
       (Node (Node (Node Leaf 42873 42873 1 Leaf) 42875 42875 1 (Node Leaf 42877 42877 (-
       35332) Leaf)) 42878 42878 1 (Node (Node Leaf 42880 42880 1 Leaf) 42882 42882 1 (Node
       Leaf 42884 42884 1 Leaf))) 42886 42886 1 (Node (Node (Node Leaf 42891 42891 1 Leaf)
       42893 42893 (- 42280) (Node Leaf 42896 42896 1 Leaf)) 42898 42898 1 (Node (Node Leaf
       42902 42902 1 Leaf) 42904 42904 1 (Node Leaf 42906 42906 1 Leaf)))) 42908 42908 1
       (Node (Node (Node (Node Leaf 42910 42910 1 Leaf) 42912 42912 1 (Node Leaf 42914 42914
       1 Leaf)) 42916 42916 1 (Node (Node Leaf 42918 42918 1 Leaf) 42920 42920 1 (Node Leaf
       42922 42922 (- 42308) Leaf))) 42923 42923 (- 42319) (Node (Node (Node Leaf 42924
       42924 (- 42315) Leaf) 42925 42925 (- 42305) (Node Leaf 42926 42926 (- 42308) Leaf))
       42928 42928 (- 42258) (Node (Node Leaf 42929 42929 (- 42282) Leaf) 42930 42930 (-
       42261) (Node Leaf 42931 42931 928 Leaf)))))"

definition lower_deltas_11 :: "int ranges" where
  "lower_deltas_11 =
     Node (Node (Node (Node (Node Leaf 42934 42934 1 Leaf) 42936 42936 1 (Node Leaf 42938
       42938 1 Leaf)) 42940 42940 1 (Node (Node Leaf 42942 42942 1 Leaf) 42944 42944 1
       Leaf)) 42946 42946 1 (Node (Node (Node Leaf 42948 42948 (- 48) Leaf) 42949 42949 (-
       42307) (Node Leaf 42950 42950 (- 35384) Leaf)) 42951 42951 1 (Node (Node Leaf 42953
       42953 1 Leaf) 42960 42960 1 Leaf))) 42966 42966 1 (Node (Node (Node (Node Leaf 42968
       42968 1 Leaf) 42997 42997 1 (Node Leaf 65313 65338 32 Leaf)) 66560 66599 40 (Node
       (Node Leaf 66736 66771 40 Leaf) 66928 66938 39 Leaf)) 66940 66954 39 (Node (Node
       (Node Leaf 66956 66962 39 Leaf) 66964 66965 39 (Node Leaf 68736 68786 64 Leaf)) 71840
       71871 32 (Node (Node Leaf 93760 93791 32 Leaf) 125184 125217 34 Leaf)))"

text \<open>The simple lower-case mappings: each code point of a range is mapped to itself plus
  the number of the range.\<close>

definition lower_deltas :: "int ranges" where
  "lower_deltas =
     Node (Node (Node (Node lower_deltas_1 379 379 1 lower_deltas_2) 504 504 1
       lower_deltas_3) 1004 1004 1 (Node (Node lower_deltas_4 1238 1238 1 lower_deltas_5)
       7702 7702 1 lower_deltas_6)) 7838 7838 (- 7615) (Node (Node (Node lower_deltas_7 8124
       8124 (- 9) lower_deltas_8) 11454 11454 1 lower_deltas_9) 42796 42796 1 (Node
       lower_deltas_10 42932 42932 1 lower_deltas_11))"

subsection \<open>Character classes and case\<close>

text \<open>\<^verbatim>\<open>c.isalnum()\<close> and \<^verbatim>\<open>c.isupper()\<close> for a character \<open>c\<close>.\<close>

definition isalnum :: "int \<Rightarrow> bool" where
  "isalnum c = (lookup alnum_ranges c \<noteq> None)"

definition isupper :: "int \<Rightarrow> bool" where
  "isupper c = (lookup upper_ranges c \<noteq> None)"

text \<open>\<^verbatim>\<open>c.isspace()\<close>: the characters on which \<^verbatim>\<open>str.split\<close> and \<^verbatim>\<open>str.strip\<close>
  cut.\<close>

definition isspace :: "int \<Rightarrow> bool" where
  "isspace c =
     ((9 \<le> c \<and> c \<le> 13) \<or> (28 \<le> c \<and> c \<le> 32) \<or> c = 133 \<or> c = 160 \<or> c = 5760
      \<or> (8192 \<le> c \<and> c \<le> 8202) \<or> c = 8232 \<or> c = 8233 \<or> c = 8239 \<or> c = 8287
      \<or> c = 12288)"

text \<open>The properties \<open>Cased\<close> and \<open>Case_Ignorable\<close>, which decide the lower case of the
  capital sigma.\<close>

definition cased :: "int \<Rightarrow> bool" where
  "cased c = (lookup cased_ranges c \<noteq> None)"

definition case_ignorable :: "int \<Rightarrow> bool" where
  "case_ignorable c = (lookup case_ignorable_ranges c \<noteq> None)"

text \<open>The full lower-case mapping of one character, without its context: one character,
  but for U+0130, which gives two.\<close>

definition to_lower_full :: "int \<Rightarrow> str" where
  "to_lower_full c =
     (if c = 304 then [105, 775]
      else case lookup lower_deltas c of None \<Rightarrow> [c] | Some d \<Rightarrow> [c + d])"

text \<open>The capital sigma U+03A3 becomes the final sigma U+03C2 when a cased character
  precedes it and none follows it, case-ignorable characters being skipped on both sides;
  otherwise it becomes U+03C3. \<open>before\<close> holds the characters on the left, the nearest
  first.\<close>

definition handle_capital_sigma :: "str \<Rightarrow> str \<Rightarrow> int" where
  "handle_capital_sigma before after =
     (let b = dropWhile case_ignorable before;
          a = dropWhile case_ignorable after;
          final_sigma = (b \<noteq> [] \<and> cased (hd b)) \<and> (a = [] \<or> \<not> cased (hd a))
      in if final_sigma then 962 else 963)"

fun lower_chars :: "str \<Rightarrow> str \<Rightarrow> str" where
  "lower_chars before [] = []"
| "lower_chars before (c # after) =
     (if c = 931 then [handle_capital_sigma before after] else to_lower_full c)
       @ lower_chars (c # before) after"

text \<open>\<^verbatim>\<open>s.lower()\<close>\<close>

definition str_lower :: "str \<Rightarrow> str" where
  "str_lower s = lower_chars [] s"

text \<open>\<^verbatim>\<open>s.replace(old, new)\<close>: the occurrences of \<open>old\<close> are replaced from left to
  right, without overlap; an empty \<open>old\<close> matches before every character and at the end.\<close>

function str_replace :: "str \<Rightarrow> str \<Rightarrow> str \<Rightarrow> str" where
  "str_replace s old new =
     (if old = [] then new @ concat (map (\<lambda>c. c # new) s)
      else if s = [] then []
      else if prefix old s then new @ str_replace (drop (length old) s) old new
      else hd s # str_replace (tl s) old new)"
  by pat_completeness auto
termination
  by (relation "measure (\<lambda>(s, old, new). length s)") (auto simp: neq_Nil_conv)

declare str_replace.simps [simp del]

text \<open>\<^verbatim>\<open>s.startswith(p)\<close> is \<^const>\<open>prefix\<close>; \<^verbatim>\<open>s.endswith(p)\<close>:\<close>

definition endswith :: "str \<Rightarrow> str \<Rightarrow> bool" where
  "endswith s p = suffix p s"

text \<open>\<^verbatim>\<open>str(n)\<close> for a non-negative integer.\<close>

definition digit_char :: "nat \<Rightarrow> int" where
  "digit_char d = 48 + int d"

fun str_nat :: "nat \<Rightarrow> str" where
  "str_nat n = (if n < 10 then [digit_char n] else str_nat (n div 10) @ [digit_char (n mod 10)])"

declare str_nat.simps [simp del]

text \<open>\<^verbatim>\<open>s.zfill(w)\<close> on a string of digits: zeros on the left up to width \<open>w\<close>.\<close>

definition zfill :: "nat \<Rightarrow> str \<Rightarrow> str" where
  "zfill w s = replicate (w - length s) (ord CHR ''0'') @ s"

subsection \<open>\<^verbatim>\<open>os.path\<close> (POSIX)\<close>

text \<open>One step of \<^verbatim>\<open>posixpath.join\<close>: a component that starts with the separator
  replaces the path built so far; otherwise it is appended, after a separator unless the
  path is empty or ends with one.\<close>

definition join_step :: "str \<Rightarrow> str \<Rightarrow> str" where
  "join_step path b =
     (if prefix (lit ''/'') b then b
      else if path = [] \<or> endswith path (lit ''/'') then path @ b
      else path @ lit ''/'' @ b)"

definition os_path_join :: "str \<Rightarrow> str list \<Rightarrow> str" where
  "os_path_join a p = foldl join_step a p"

subsection \<open>Dates\<close>

text \<open>A \<^verbatim>\<open>datetime\<close> as \<^verbatim>\<open>strptime\<close> builds it from \<^verbatim>\<open>'%Y-%m-%d %H:%M'\<close>:
  seconds and microseconds are zero.\<close>

record datetime =
  year :: nat
  month :: nat
  day :: nat
  hour :: nat
  minute :: nat

text \<open>\<^verbatim>\<open>datetime.strftime(date, '%Y/%m/%d/')\<close>. The formatting is that of the C library:
  with glibc, \<^verbatim>\<open>%Y\<close> is the year in decimal without padding (\<^verbatim>\<open>999\<close> for the year
  999), \<^verbatim>\<open>%m\<close> and \<^verbatim>\<open>%d\<close> are the month and the day on two digits.\<close>

definition strftime_Ymd :: "datetime \<Rightarrow> str" where
  "strftime_Ymd d =
     str_nat (year d) @ lit ''/'' @ zfill 2 (str_nat (month d)) @ lit ''/''
       @ zfill 2 (str_nat (day d)) @ lit ''/''"

text \<open>The order of \<^verbatim>\<open>datetime\<close> values: lexicographic on the fields.\<close>

definition date_key :: "datetime \<Rightarrow> nat \<times> nat \<times> nat \<times> nat \<times> nat" where
  "date_key d = (year d, month d, day d, hour d, minute d)"

subsection \<open>Slugs and paths\<close>

text \<open>\<^verbatim>\<open>generate_post_file_name\<close>:
  \<^verbatim>\<open>''.join(char for char in title.lower() if (char.isalnum() or char == ' ')).replace(' ', '-')\<close>\<close>

definition generate_post_file_name :: "str \<Rightarrow> str" where
  "generate_post_file_name title =
     str_replace (filter (\<lambda>char. isalnum char \<or> char = ord CHR '' '') (str_lower title))
       (lit '' '') (lit ''-'')"

text \<open>\<^verbatim>\<open>generate_post_file_path\<close>\<close>

definition generate_post_file_path :: "str \<Rightarrow> datetime \<Rightarrow> str" where
  "generate_post_file_path title date =
     os_path_join (strftime_Ymd date) [generate_post_file_name title]"

subsection \<open>More string functions\<close>

text \<open>\<^verbatim>\<open>s.find(sub)\<close>: the index of the first occurrence, \<open>None\<close> for Python's \<open>-1\<close>.\<close>

fun str_find :: "str \<Rightarrow> str \<Rightarrow> nat option" where
  "str_find [] sub = (if sub = [] then Some 0 else None)"
| "str_find (c # cs) sub =
     (if prefix sub (c # cs) then Some 0 else map_option Suc (str_find cs sub))"

text \<open>\<^verbatim>\<open>s.partition(sep)\<close>: the part before the first occurrence of \<open>sep\<close>, \<open>sep\<close>
  itself and the part after it; the whole string and two empty strings when \<open>sep\<close> does
  not occur; \<^verbatim>\<open>ValueError\<close> on an empty separator.\<close>

definition str_partition :: "str \<Rightarrow> str \<Rightarrow> py_error + (str \<times> str \<times> str)" where
  "str_partition s sep =
     (if sep = [] then Inl ValueError
      else case str_find s sep of
             None \<Rightarrow> Inr (s, [], [])
           | Some i \<Rightarrow> Inr (take i s, sep, drop (i + length sep) s))"

text \<open>\<^verbatim>\<open>s.split()\<close>: the maximal runs of non-whitespace characters.\<close>

function str_split :: "str \<Rightarrow> str list" where
  "str_split s =
     (let t = dropWhile isspace s
      in if t = [] then []
         else takeWhile (\<lambda>c. \<not> isspace c) t # str_split (dropWhile (\<lambda>c. \<not> isspace c) t))"
  by pat_completeness auto
termination
proof (relation "measure length")
  show "wf (measure length)" by simp
next
  fix s t :: str
  assume t: "t = dropWhile isspace s" and ne: "t \<noteq> []"
  from ne obtain c cs where c: "t = c # cs" by (cases t) auto
  from t c have "dropWhile isspace s = c # cs" by simp
  then have "\<not> isspace c" by (simp add: dropWhile_eq_Cons_conv)
  then have "dropWhile (\<lambda>c. \<not> isspace c) t = dropWhile (\<lambda>c. \<not> isspace c) cs"
    using c by simp
  then have "length (dropWhile (\<lambda>c. \<not> isspace c) t) \<le> length cs"
    by (simp add: length_dropWhile_le)
  also have "length cs < length t" using c by simp
  also have "length t \<le> length s" using t by (simp add: length_dropWhile_le)
  finally show "(dropWhile (\<lambda>c. \<not> isspace c) t, s) \<in> measure length" by simp
qed

declare str_split.simps [simp del]

text \<open>\<^verbatim>\<open>s.strip()\<close>\<close>

definition str_strip :: "str \<Rightarrow> str" where
  "str_strip s = rev (dropWhile isspace (rev (dropWhile isspace s)))"

text \<open>\<^verbatim>\<open>s.rstrip('/')\<close>\<close>

definition rstrip_sep :: "str \<Rightarrow> str" where
  "rstrip_sep s = rev (dropWhile (\<lambda>c. c = ord CHR ''/'') (rev s))"

text \<open>\<^verbatim>\<open>s.rfind(c)\<close> for a single character: the last index of \<open>c\<close>, or \<open>-1\<close>.\<close>

definition rfind :: "str \<Rightarrow> int \<Rightarrow> int" where
  "rfind s c =
     (if c \<in> set s then int (length s) - 1 - int (length (takeWhile (\<lambda>x. x \<noteq> c) (rev s)))
      else - 1)"

text \<open>\<^verbatim>\<open>os.path.splitext\<close>: the extension starts at the last dot of the last path
  component, unless that component has only dots before it.\<close>

definition splitext :: "str \<Rightarrow> str \<times> str" where
  "splitext p =
     (let sepIndex = rfind p (ord CHR ''/'');
          dotIndex = rfind p (ord CHR ''.'')
      in if dotIndex > sepIndex
            \<and> list_ex (\<lambda>c. c \<noteq> ord CHR ''.'')
                 (take (nat (dotIndex - (sepIndex + 1))) (drop (nat (sepIndex + 1)) p))
         then (take (nat dotIndex) p, drop (nat dotIndex) p)
         else (p, []))"

text \<open>\<^verbatim>\<open>os.path.dirname\<close>\<close>

definition dirname :: "str \<Rightarrow> str" where
  "dirname p =
     (let i = nat (rfind p (ord CHR ''/'') + 1);
          head = take i p
      in if head \<noteq> [] \<and> head \<noteq> replicate (length head) (ord CHR ''/'') then rstrip_sep head
         else head)"

subsection \<open>Posts\<close>

text \<open>A post is a dictionary with these keys. \<open>post_previous\<close> is a reference to another
  post of \<^verbatim>\<open>all_posts\<close>, held as its position in that list; the key is absent until
  the post is linked.\<close>

record post =
  body :: str
  title :: str
  teaser :: str
  categories :: "str list"
  date :: datetime
  relative_path :: str
  relative_url :: str
  canonical_url :: str
  post_previous :: "nat option"

text \<open>\<^verbatim>\<open>Meta[key][0]\<close>: \<^verbatim>\<open>KeyError\<close> on a missing key, \<^verbatim>\<open>IndexError\<close> on an empty
  list of values.\<close>

definition meta_first :: "(str \<rightharpoonup> str list) \<Rightarrow> str \<Rightarrow> py_error + str" where
  "meta_first Meta key =
     (case Meta key of
        None \<Rightarrow> Inl (KeyError key)
      | Some [] \<Rightarrow> Inl IndexError
      | Some (v # _) \<Rightarrow> Inr v)"

text \<open>The text of a file opened with \<^verbatim>\<open>encoding='ascii'\<close>, from its bytes: a byte above
  127 is a \<^verbatim>\<open>UnicodeDecodeError\<close>, and the line ends \<^verbatim>\<open>\r\n\<close> and \<^verbatim>\<open>\r\<close> are read as
  \<^verbatim>\<open>\n\<close>.\<close>

fun universal_newlines :: "str \<Rightarrow> str" where
  "universal_newlines [] = []"
| "universal_newlines [c] = [if c = 13 then 10 else c]"
| "universal_newlines (c # d # ds) =
     (if c = 13 \<and> d = 10 then 10 # universal_newlines ds
      else if c = 13 then 10 # universal_newlines (d # ds)
      else c # universal_newlines (d # ds))"

definition read_ascii :: "int list \<Rightarrow> py_error + str" where
  "read_ascii raw =
     (if list_all (\<lambda>b. b < 128) raw then Inr (universal_newlines raw)
      else Inl UnicodeDecodeError)"

text \<open>The body of the loop of \<^verbatim>\<open>get_all_posts\<close> for one Markdown file. The Markdown
  engine (\<open>convert\<close>: the text to the HTML and the metadata) and \<^verbatim>\<open>datetime.strptime\<close>
  with the format \<^verbatim>\<open>'%Y-%m-%d %H:%M'\<close> (\<open>None\<close> for its \<^verbatim>\<open>ValueError\<close>) are parameters.
  The statements are evaluated in the order of the source.\<close>

definition load_post ::
  "(str \<Rightarrow> str \<times> (str \<rightharpoonup> str list)) \<Rightarrow> (str \<Rightarrow> datetime option)
     \<Rightarrow> str \<Rightarrow> str \<Rightarrow> str option \<Rightarrow> str \<Rightarrow> py_error + post" where
  "load_post convert strptime blog_prefix canonical blog_root post_file_buffer =
     (case convert post_file_buffer of (generated_html, Meta) \<Rightarrow>
      case meta_first Meta (lit ''title'') of Inl e \<Rightarrow> Inl e | Inr the_title \<Rightarrow>
      case str_partition generated_html (lit ''<!--more-->'') of Inl e \<Rightarrow> Inl e
      | Inr (the_teaser, _, _) \<Rightarrow>
      case meta_first Meta (lit ''categories'') of Inl e \<Rightarrow> Inl e | Inr cats \<Rightarrow>
      case meta_first Meta (lit ''date'') of Inl e \<Rightarrow> Inl e | Inr date_string \<Rightarrow>
      case strptime (str_strip date_string) of None \<Rightarrow> Inl ValueError | Some the_date \<Rightarrow>
        let path0 = generate_post_file_path the_title the_date;
            path1 = (if blog_prefix \<noteq> [] then os_path_join blog_prefix [path0] else path0);
            the_url = (case blog_root of
                         None \<Rightarrow> os_path_join (lit ''/'') [path1]
                       | Some root \<Rightarrow>
                           if root \<noteq> [] then os_path_join (lit ''/'') [root, path1]
                           else os_path_join (lit ''/'') [path1])
        in Inr \<lparr>body = generated_html, title = the_title, teaser = the_teaser,
                categories = str_split cats, date = the_date, relative_path = path1,
                relative_url = the_url, canonical_url = canonical @ the_url,
                post_previous = None\<rparr>)"

text \<open>\<^verbatim>\<open>get_all_posts\<close>. The content directory is the result of \<^verbatim>\<open>os.listdir\<close>: an
  error, or the entries in their order, each a file name with the result of opening and
  reading the file, an error or its bytes. The first error ends the run.\<close>

fun get_all_posts_loop ::
  "(str \<Rightarrow> str \<times> (str \<rightharpoonup> str list)) \<Rightarrow> (str \<Rightarrow> datetime option)
     \<Rightarrow> str \<Rightarrow> str \<Rightarrow> str option \<Rightarrow> (str \<times> (py_error + int list)) list \<Rightarrow> post list
     \<Rightarrow> py_error + post list" where
  "get_all_posts_loop convert strptime blog_prefix canonical blog_root [] all_posts =
     Inr all_posts"
| "get_all_posts_loop convert strptime blog_prefix canonical blog_root
       ((post_file_name, file) # input_files) all_posts =
     (if snd (splitext post_file_name) \<noteq> lit ''.md''
      then get_all_posts_loop convert strptime blog_prefix canonical blog_root input_files
             all_posts
      else case file of
             Inl e \<Rightarrow> Inl e
           | Inr raw \<Rightarrow>
               (case read_ascii raw of
                  Inl e \<Rightarrow> Inl e
                | Inr post_file_buffer \<Rightarrow>
                    (case load_post convert strptime blog_prefix canonical blog_root
                            post_file_buffer of
                       Inl e \<Rightarrow> Inl e
                     | Inr p \<Rightarrow>
                         get_all_posts_loop convert strptime blog_prefix canonical blog_root
                           input_files (all_posts @ [p]))))"

definition get_all_posts ::
  "(str \<Rightarrow> str \<times> (str \<rightharpoonup> str list)) \<Rightarrow> (str \<Rightarrow> datetime option)
     \<Rightarrow> py_error + (str \<times> (py_error + int list)) list \<Rightarrow> str \<Rightarrow> str \<Rightarrow> str option
     \<Rightarrow> py_error + post list" where
  "get_all_posts convert strptime content_dir blog_prefix canonical blog_root =
     (case content_dir of
        Inl e \<Rightarrow> Inl e
      | Inr input_files \<Rightarrow>
          get_all_posts_loop convert strptime blog_prefix canonical blog_root input_files [])"

subsection \<open>Assembly: order, categories\<close>

text \<open>\<^verbatim>\<open>xs.sort(key=key, reverse=reverse)\<close>. The sort of Python is stable; with
  \<^verbatim>\<open>reverse=True\<close> the list is reversed, sorted and reversed again, which keeps the
  elements with equal keys in their original order.\<close>

definition list_sort :: "('a \<Rightarrow> 'k::linorder) \<Rightarrow> bool \<Rightarrow> 'a list \<Rightarrow> 'a list" where
  "list_sort key reverse xs =
     (if reverse then rev (sort_key key (rev xs)) else sort_key key xs)"

text \<open>\<^verbatim>\<open>all_posts.sort(key=lambda i: i['date'], reverse=True)\<close>\<close>

definition sort_posts :: "post list \<Rightarrow> post list" where
  "sort_posts all_posts = list_sort (\<lambda>i. date_key (date i)) True all_posts"

text \<open>\<^verbatim>\<open>categories[category].append(post)\<close> on a \<^verbatim>\<open>defaultdict(list)\<close>: a missing key
  starts from the empty list.\<close>

definition append_post :: "(str \<rightharpoonup> post list) \<Rightarrow> str \<Rightarrow> post \<Rightarrow> (str \<rightharpoonup> post list)" where
  "append_post index category p =
     index(category \<mapsto> (case index category of None \<Rightarrow> [] | Some bucket \<Rightarrow> bucket) @ [p])"

text \<open>The two nested loops of \<^verbatim>\<open>generate_all_files\<close> that fill \<^verbatim>\<open>categories\<close>.\<close>

definition build_categories :: "post list \<Rightarrow> (str \<rightharpoonup> post list)" where
  "build_categories all_posts =
     foldl (\<lambda>index p. foldl (\<lambda>index' category. append_post index' category p) index
                        (categories p))
       Map.empty all_posts"

subsection \<open>Templates\<close>

text \<open>\<^verbatim>\<open>next_page\<close> is a page number or Python's \<^verbatim>\<open>None\<close>.\<close>

datatype page_link = NoPage | Page nat

text \<open>The site configuration and the variables given to a template are one dictionary:
  \<^verbatim>\<open>copy(site_config)\<close> with page keys added. A page key that has not been set is
  \<open>None\<close>.\<close>

record site_config =
  content_dir :: str
  output_dir :: str
  blog_dir :: str
  blog_prefix :: str
  blog_root :: "str option"
  url :: str
  template_dir :: str
  current_posts :: "post list option"
  next_page :: "page_link option"
  post_var :: "post option"

text \<open>A template is its \<^verbatim>\<open>render\<close> method, which gives the text or raises an error. The
  template environment is its \<^verbatim>\<open>get_template\<close> method, which gives the template of a
  name or raises an error.\<close>

type_synonym template = "site_config \<Rightarrow> py_error + str"

subsection \<open>The output tree and the operating system\<close>

text \<open>The output tree: the directories that exist, and the files opened for writing, in
  the order of the calls of \<^verbatim>\<open>open\<close>, each with its path and the text it holds when it is
  closed.\<close>

record tree =
  dirs :: "str set"
  writes :: "(str \<times> str) list"

text \<open>The answers of the operating system, which may depend on the tree: the error with
  which it refuses to create a directory or to open a file for writing, if it does, and the
  error with which a write fails, with the text that reached the file.\<close>

record opsys =
  mkdir_error :: "tree \<Rightarrow> str \<Rightarrow> py_error option"
  open_error :: "tree \<Rightarrow> str \<Rightarrow> py_error option"
  write_error :: "tree \<Rightarrow> str \<Rightarrow> str \<Rightarrow> (py_error \<times> str) option"

text \<open>\<^verbatim>\<open>os.path.exists\<close>: false on the empty path, true on the root, on a directory of
  the tree, with or without separators at its end, and on a file of the tree.\<close>

definition path_exists :: "tree \<Rightarrow> str \<Rightarrow> bool" where
  "path_exists w p =
     (p \<noteq> [] \<and> (rstrip_sep p = [] \<or> rstrip_sep p \<in> dirs w \<or> p \<in> fst ` set (writes w)))"

text \<open>The directory \<open>p\<close>, without separators at its end, after its ancestors.\<close>

definition dir_chain :: "str \<Rightarrow> str list" where
  "dir_chain p =
     (let q = rstrip_sep p
      in filter (\<lambda>d. d \<noteq> [])
           (map (\<lambda>i. rstrip_sep (take i q))
              (filter (\<lambda>i. i = length q \<or> q ! i = ord CHR ''/'') [0..<Suc (length q)])))"

text \<open>\<^verbatim>\<open>os.mkdir\<close>\<close>

definition mkdir :: "opsys \<Rightarrow> str \<Rightarrow> tree \<Rightarrow> (py_error + unit) \<times> tree" where
  "mkdir os d w =
     (case mkdir_error os w d of
        Some e \<Rightarrow> (Inl e, w)
      | None \<Rightarrow> (Inr (), w\<lparr>dirs := insert d (dirs w)\<rparr>))"

text \<open>\<^verbatim>\<open>os.makedirs\<close>, for a path without \<^verbatim>\<open>.\<close> and \<^verbatim>\<open>..\<close> components. The ancestors
  below the nearest one that exists are created from the top, then the directory itself;
  a \<^verbatim>\<open>FileExistsError\<close> on an ancestor is passed over.\<close>

fun mkdirs :: "opsys \<Rightarrow> str list \<Rightarrow> tree \<Rightarrow> (py_error + unit) \<times> tree" where
  "mkdirs os [] w = (Inr (), w)"
| "mkdirs os [d] w = mkdir os d w"
| "mkdirs os (d # d' # ds) w =
     (case mkdir os d w of
        (Inl (FileExistsError m), w') \<Rightarrow> mkdirs os (d' # ds) w'
      | (Inl e, w') \<Rightarrow> (Inl e, w')
      | (Inr u, w') \<Rightarrow> mkdirs os (d' # ds) w')"

definition makedirs :: "opsys \<Rightarrow> str \<Rightarrow> tree \<Rightarrow> (py_error + unit) \<times> tree" where
  "makedirs os name w =
     (let chain = dir_chain name
      in if chain = [] then mkdir os name w
         else mkdirs os
                (rev (takeWhile (\<lambda>d. \<not> path_exists w d) (rev (butlast chain))) @ [last chain])
                w)"

text \<open>\<^verbatim>\<open>create_path_to_file\<close>\<close>

definition create_path_to_file :: "opsys \<Rightarrow> str \<Rightarrow> tree \<Rightarrow> (py_error + unit) \<times> tree" where
  "create_path_to_file os path w =
     (let path' = (if snd (splitext path) = [] then path @ lit ''/'' else dirname path)
      in if \<not> path_exists w path' then makedirs os path' w else (Inr (), w))"

text \<open>The statement
  \<^verbatim>\<open>with open(path, 'w') as output: output.write(template.render(template_variables))\<close>.
  The file is opened, which empties it, before the template is rendered; with
  \<^verbatim>\<open>encoding='ascii'\<close> a text with a character above 127 is a \<^verbatim>\<open>UnicodeEncodeError\<close>.\<close>

definition write_rendered ::
  "opsys \<Rightarrow> bool \<Rightarrow> str \<Rightarrow> template \<Rightarrow> site_config \<Rightarrow> tree \<Rightarrow> (py_error + unit) \<times> tree" where
  "write_rendered os ascii path template template_variables w =
     (case open_error os w path of
        Some e \<Rightarrow> (Inl e, w)
      | None \<Rightarrow>
          (case template template_variables of
             Inl e \<Rightarrow> (Inl e, w\<lparr>writes := writes w @ [(path, [])]\<rparr>)
           | Inr text \<Rightarrow>
               if ascii \<and> \<not> list_all (\<lambda>c. c < 128) text
               then (Inl UnicodeEncodeError, w\<lparr>writes := writes w @ [(path, [])]\<rparr>)
               else (case write_error os w path text of
                       Some (e, written) \<Rightarrow>
                         (Inl e, w\<lparr>writes := writes w @ [(path, written)]\<rparr>)
                     | None \<Rightarrow> (Inr (), w\<lparr>writes := writes w @ [(path, text)]\<rparr>))))"

text \<open>\<^verbatim>\<open>generate_static_page\<close>\<close>

definition generate_static_page ::
  "opsys \<Rightarrow> site_config \<Rightarrow> str \<Rightarrow> template \<Rightarrow> str \<Rightarrow> tree \<Rightarrow> (py_error + unit) \<times> tree" where
  "generate_static_page os template_variables out_dir template filename w =
     (case create_path_to_file os out_dir w of
        (Inl e, w1) \<Rightarrow> (Inl e, w1)
      | (Inr u, w1) \<Rightarrow>
          write_rendered os True (os_path_join out_dir [filename]) template
            template_variables w1)"

subsection \<open>Pagination\<close>

text \<open>\<^verbatim>\<open>range(start, stop, step)\<close> for a positive step.\<close>

function py_range :: "nat \<Rightarrow> nat \<Rightarrow> nat \<Rightarrow> nat list" where
  "py_range start stop step =
     (if step = 0 \<or> stop \<le> start then [] else start # py_range (start + step) stop step)"
  by pat_completeness auto
termination
  by (relation "measure (\<lambda>(start, stop, step). stop - start)") auto

declare py_range.simps [simp del]

text \<open>\<^verbatim>\<open>xs[i:j]\<close> for \<open>0 \<le> i \<le> j\<close>.\<close>

definition py_slice :: "'a list \<Rightarrow> nat \<Rightarrow> nat \<Rightarrow> 'a list" where
  "py_slice xs i j = take (j - i) (drop i xs)"

text \<open>The body of the loop of \<^verbatim>\<open>generate_pagination_pages\<close>, over the enumerated pages.
  The dictionary of template variables is updated in place and kept from one page to the
  next. An error ends the loop.\<close>

fun pagination_loop ::
  "opsys \<Rightarrow> site_config \<Rightarrow> template \<Rightarrow> nat \<Rightarrow> (nat \<times> post list) list \<Rightarrow> site_config \<Rightarrow> tree
     \<Rightarrow> (py_error + site_config) \<times> tree" where
  "pagination_loop os site template num_posts [] template_variables w =
     (Inr template_variables, w)"
| "pagination_loop os site template num_posts ((index, page) # rest) template_variables w =
     (let current_page = index + 1;
          tv1 = template_variables\<lparr>current_posts := Some page\<rparr>;
          tv2 = tv1\<lparr>next_page := Some (Page (current_page + 1))\<rparr>;
          tv3 = (if int (current_page * 5) \<ge> int num_posts - 5
                 then tv2\<lparr>next_page := Some NoPage\<rparr> else tv2);
          out_dir = os_path_join (blog_dir site) [lit ''page'', str_nat current_page]
      in case generate_static_page os tv3 out_dir template (lit ''index.html'') w of
           (Inl e, w') \<Rightarrow> (Inl e, w')
         | (Inr u, w') \<Rightarrow> pagination_loop os site template num_posts rest tv3 w')"

text \<open>\<^verbatim>\<open>generate_pagination_pages\<close>\<close>

definition generate_pagination_pages ::
  "opsys \<Rightarrow> site_config \<Rightarrow> post list \<Rightarrow> template \<Rightarrow> tree
     \<Rightarrow> (py_error + site_config) \<times> tree" where
  "generate_pagination_pages os site all_posts template w =
     (let template_variables = site;
          num_posts = length all_posts
      in pagination_loop os site template num_posts
           (enumerate 0 (map (\<lambda>index. py_slice all_posts index (index + 5))
                           (py_range 5 num_posts 5)))
           template_variables w)"

subsection \<open>Post pages\<close>

text \<open>\<^verbatim>\<open>generate_post\<close>: the result is the error raised or the updated dictionary of
  template variables, with the output tree as the call leaves it.\<close>

definition generate_post ::
  "opsys \<Rightarrow> post \<Rightarrow> site_config \<Rightarrow> (str \<Rightarrow> py_error + template) \<Rightarrow> tree
     \<Rightarrow> (py_error + site_config) \<times> tree" where
  "generate_post os p template_variables template_environment w =
     (let output_path =
            os_path_join (output_dir template_variables)
              [relative_path p, lit ''index.html'']
      in if body p = []
         then (Inl (EnvironmentError
                      (lit ''No content for post ['' @ relative_path p @ lit ''] found.'')),
               w)
         else
           let tv = template_variables\<lparr>post_var := Some p\<rparr>
           in case template_environment (lit ''post_index.html'') of
                Inl e \<Rightarrow> (Inl e, w)
              | Inr template \<Rightarrow>
                  (case create_path_to_file os output_path w of
                     (Inl e, w1) \<Rightarrow> (Inl e, w1)
                   | (Inr u, w1) \<Rightarrow>
                       (case write_rendered os False output_path template tv w1 of
                          (Inl e, w2) \<Rightarrow> (Inl e, w2)
                        | (Inr u', w2) \<Rightarrow> (Inr tv, w2))))"

text \<open>\<^verbatim>\<open>xs[i]\<close> for \<open>i \<ge> 0\<close>, as a reference: the position of the element, or
  \<^verbatim>\<open>IndexError\<close>.\<close>

definition item_ref :: "'a list \<Rightarrow> nat \<Rightarrow> py_error + nat" where
  "item_ref xs i = (if i < length xs then Inr i else Inl IndexError)"

text \<open>The \<^verbatim>\<open>try\<close> statement of the last loop of \<^verbatim>\<open>generate_all_files\<close>: the value given
  to \<^verbatim>\<open>post['post_previous']\<close>.\<close>

definition previous_ref :: "post list \<Rightarrow> nat \<Rightarrow> py_error + nat" where
  "previous_ref all_posts index =
     (case item_ref all_posts (index + 1) of
        Inr r \<Rightarrow> Inr r
      | Inl IndexError \<Rightarrow> item_ref all_posts 0
      | Inl e \<Rightarrow> Inl e)"

text \<open>The last loop of \<^verbatim>\<open>generate_all_files\<close>, over the indices of \<^verbatim>\<open>all_posts\<close>: each
  post is linked, then its page is generated. \<^verbatim>\<open>generate_post\<close> receives
  \<^verbatim>\<open>site_config\<close> itself and updates it. An error ends the loop.\<close>

fun link_and_generate ::
  "opsys \<Rightarrow> (str \<Rightarrow> py_error + template) \<Rightarrow> nat list \<Rightarrow> post list \<Rightarrow> site_config \<Rightarrow> tree
     \<Rightarrow> (py_error + post list \<times> site_config) \<times> tree" where
  "link_and_generate os template_environment [] all_posts site w =
     (Inr (all_posts, site), w)"
| "link_and_generate os template_environment (index # rest) all_posts site w =
     (case previous_ref all_posts index of
        Inl e \<Rightarrow> (Inl e, w)
      | Inr r \<Rightarrow>
          let all_posts' = all_posts[index := (all_posts ! index)\<lparr>post_previous := Some r\<rparr>]
          in case generate_post os (all_posts' ! index) site template_environment w of
               (Inl e, w') \<Rightarrow> (Inl e, w')
             | (Inr site', w') \<Rightarrow>
                 link_and_generate os template_environment rest all_posts' site' w')"

definition generate_post_pages ::
  "opsys \<Rightarrow> (str \<Rightarrow> py_error + template) \<Rightarrow> post list \<Rightarrow> site_config \<Rightarrow> tree
     \<Rightarrow> (py_error + post list \<times> site_config) \<times> tree" where
  "generate_post_pages os template_environment all_posts site w =
     link_and_generate os template_environment [0..<length all_posts] all_posts site w"

subsection \<open>Example data\<close>

text \<open>Concrete posts, a Markdown engine, a date parser, templates and operating systems on
  which the properties below are evaluated.\<close>

definition example_date :: "nat \<Rightarrow> nat \<Rightarrow> nat \<Rightarrow> datetime" where
  "example_date y m d = \<lparr>year = y, month = m, day = d, hour = 9, minute = 30\<rparr>"

definition example_post :: "str \<Rightarrow> str list \<Rightarrow> datetime \<Rightarrow> post" where
  "example_post t cs d =
     \<lparr>body = lit ''<p>'' @ t @ lit ''</p>'', title = t, teaser = lit ''<p>'' @ t @ lit ''</p>'',
      categories = cs, date = d, relative_path = generate_post_file_path t d,
      relative_url = lit ''/'' @ generate_post_file_path t d,
      canonical_url = lit ''http://example.org/'' @ generate_post_file_path t d,
      post_previous = None\<rparr>"

text \<open>A post whose title, and so whose slug, has 260 characters.\<close>

definition example_long_post :: post where
  "example_long_post =
     \<lparr>body = lit ''<p>a</p>'', title = replicate 260 97, teaser = lit ''<p>a</p>'',
      categories = [], date = example_date 2024 1 1,
      relative_path = lit ''2024/01/01/'' @ replicate 260 97,
      relative_url = lit ''/2024/01/01/'' @ replicate 260 97,
      canonical_url = lit ''http://example.org/2024/01/01/'' @ replicate 260 97,
      post_previous = None\<rparr>"

definition example_meta :: "str \<Rightarrow> str \<rightharpoonup> str list" where
  "example_meta cats =
     [lit ''title'' \<mapsto> [lit ''My Post''], lit ''date'' \<mapsto> [lit '' 2024-03-07 09:30''],
      lit ''categories'' \<mapsto> [cats]]"

definition example_convert :: "(str \<rightharpoonup> str list) \<Rightarrow> str \<Rightarrow> str \<times> (str \<rightharpoonup> str list)" where
  "example_convert Meta buf = (lit ''<p>intro</p><!--more--><p>rest</p>'', Meta)"

definition example_strptime :: "str \<Rightarrow> datetime option" where
  "example_strptime s =
     (if s = lit ''2024-03-07 09:30'' then Some (example_date 2024 3 7) else None)"

definition example_site :: site_config where
  "example_site =
     \<lparr>content_dir = lit ''content'', output_dir = lit ''out'', blog_dir = lit ''out/blog'',
      blog_prefix = lit ''blog'', blog_root = None, url = lit ''http://example.org'',
      template_dir = lit ''templates'', current_posts = None, next_page = None,
      post_var = None\<rparr>"

definition example_tree :: tree where
  "example_tree = \<lparr>dirs = {lit ''out''}, writes = []\<rparr>"

text \<open>An operating system that refuses nothing, and one that refuses to create a
  directory whose name is longer than 255 characters, as Linux does.\<close>

definition example_os :: opsys where
  "example_os =
     \<lparr>mkdir_error = (\<lambda>w d. None), open_error = (\<lambda>w p. None),
      write_error = (\<lambda>w p t. None)\<rparr>"

definition example_os_name_max :: opsys where
  "example_os_name_max =
     \<lparr>mkdir_error =
        (\<lambda>w d. if 255 < length (drop (nat (rfind d (ord CHR ''/'') + 1)) d)
               then Some (EnvironmentError
                            (lit ''[Errno 36] File name too long: '' @ [39] @ d @ [39]))
               else None),
      open_error = (\<lambda>w p. None), write_error = (\<lambda>w p t. None)\<rparr>"

text \<open>A template that prints the titles of the current posts and the next page, and an
  environment that has it under every name.\<close>

definition example_template :: template where
  "example_template tv =
     Inr (concat (map (\<lambda>p. title p @ lit '' '')
                    (case current_posts tv of None \<Rightarrow> [] | Some ps \<Rightarrow> ps))
          @ (case next_page tv of
               Some (Page n) \<Rightarrow> lit ''next='' @ str_nat n
             | _ \<Rightarrow> lit ''next=None''))"

definition example_environment :: "str \<Rightarrow> py_error + template" where
  "example_environment name = Inr example_template"


section \<open>Properties\<close>

subsection \<open>Characters\<close>

lemma ord_consts:
  "ord CHR '' '' = 32" "ord CHR ''-'' = 45" "ord CHR ''/'' = 47" "ord CHR ''0'' = 48"
  "ord CHR ''.'' = 46"
  by (simp_all add: ord_def)

lemma lit_consts:
  "lit '' '' = [32]" "lit ''-'' = [45]" "lit ''/'' = [47]"
  by (simp_all add: lit_def ord_def)

lemma lookup_entries:
  "lookup t c = Some v \<Longrightarrow> \<exists>lo hi. (lo, hi, v) \<in> set (entries t) \<and> lo \<le> c \<and> c \<le> hi"
proof (induction t)
  case Leaf
  then show ?case by simp
next
  case (Node l lo hi w r)
  show ?case
  proof (cases "c < lo")
    case True
    with Node show ?thesis by auto
  next
    case False
    show ?thesis
    proof (cases "hi < c")
      case True
      with False Node show ?thesis by auto
    next
      case h: False
      with False Node.prems have "w = v" by simp
      with False h show ?thesis by (intro exI[of _ lo] exI[of _ hi]) simp
    qed
  qed
qed

text \<open>No lower-case mapping gives a character that has a lower-case mapping itself, the
  capital sigma or the space.\<close>

lemma lower_targets:
  "list_all (\<lambda>(lo, hi, d).
      list_all (\<lambda>c. lookup lower_deltas (c + d) = None \<and> c + d \<noteq> 304 \<and> c + d \<noteq> 931
                    \<and> c + d \<noteq> 32) [lo..hi])
     (entries lower_deltas)"
  by code_simp

lemma lower_delta_target:
  assumes "lookup lower_deltas c = Some d"
  shows "lookup lower_deltas (c + d) = None \<and> c + d \<noteq> 304 \<and> c + d \<noteq> 931 \<and> c + d \<noteq> 32"
proof -
  from lookup_entries[OF assms] obtain lo hi where
    e: "(lo, hi, d) \<in> set (entries lower_deltas)" and b: "lo \<le> c" "c \<le> hi" by blast
  from lower_targets e have
    "\<forall>c \<in> set [lo..hi]. lookup lower_deltas (c + d) = None \<and> c + d \<noteq> 304 \<and> c + d \<noteq> 931
                    \<and> c + d \<noteq> 32"
    unfolding list_all_iff by blast
  moreover have "c \<in> set [lo..hi]" using b by simp
  ultimately show ?thesis by blast
qed

lemma lower_consts:
  "to_lower_full 105 = [105]" "to_lower_full 775 = [775]" "to_lower_full 962 = [962]"
  "to_lower_full 963 = [963]" "to_lower_full 32 = [32]" "to_lower_full 45 = [45]"
  "lookup lower_deltas 931 = Some 32" "lookup lower_deltas 32 = None"
  by code_simp+

lemma alnum_consts: "\<not> isalnum 32" "\<not> isalnum 45" "\<not> isalnum 47"
  by code_simp+

lemma to_lower_full_fixed:
  assumes "d \<in> set (to_lower_full c)"
  shows "to_lower_full d = [d] \<and> d \<noteq> 931 \<and> (d = 32 \<longrightarrow> c = 32)"
proof (cases "c = 304")
  case True
  with assms have "d = 105 \<or> d = 775" by (simp add: to_lower_full_def)
  then show ?thesis using lower_consts True by auto
next
  case False
  show ?thesis
  proof (cases "lookup lower_deltas c")
    case None
    with False assms have d: "d = c" by (simp add: to_lower_full_def)
    have "to_lower_full c = [c]" using None False by (simp add: to_lower_full_def)
    moreover have "c \<noteq> 931" using None lower_consts(7) by auto
    ultimately show ?thesis using d by simp
  next
    case (Some e)
    with False assms have d: "d = c + e" by (simp add: to_lower_full_def)
    from lower_delta_target[OF Some] d
    have "lookup lower_deltas d = None" "d \<noteq> 304" "d \<noteq> 931" "d \<noteq> 32" by simp_all
    then show ?thesis by (simp add: to_lower_full_def)
  qed
qed

lemma lower_chars_set:
  "d \<in> set (lower_chars b s) \<Longrightarrow>
     (\<exists>c \<in> set s. c \<noteq> 931 \<and> d \<in> set (to_lower_full c))
     \<or> ((d = 962 \<or> d = 963) \<and> 931 \<in> set s)"
proof (induction s arbitrary: b)
  case Nil
  then show ?case by simp
next
  case (Cons a s)
  from Cons.prems have
    "d \<in> set (if a = 931 then [handle_capital_sigma b s] else to_lower_full a)
     \<or> d \<in> set (lower_chars (a # b) s)" by simp
  then show ?case
  proof
    assume h: "d \<in> set (if a = 931 then [handle_capital_sigma b s] else to_lower_full a)"
    show ?thesis
    proof (cases "a = 931")
      case True
      with h have "d = handle_capital_sigma b s" by simp
      then have "d = 962 \<or> d = 963" by (simp add: handle_capital_sigma_def Let_def)
      with True show ?thesis by simp
    next
      case False
      with h show ?thesis by auto
    qed
  next
    assume "d \<in> set (lower_chars (a # b) s)"
    from Cons.IH[OF this] show ?thesis by auto
  qed
qed

lemma str_lower_fixed:
  assumes "d \<in> set (str_lower t)"
  shows "to_lower_full d = [d] \<and> d \<noteq> 931"
proof -
  from assms lower_chars_set[of d "[]" t]
  consider c where "c \<in> set t" "d \<in> set (to_lower_full c)" | "d = 962" | "d = 963"
    unfolding str_lower_def by blast
  then show ?thesis
  proof cases
    case 1
    then show ?thesis using to_lower_full_fixed by blast
  next
    case 2
    then show ?thesis using lower_consts by simp
  next
    case 3
    then show ?thesis using lower_consts by simp
  qed
qed

lemma lower_chars_space: "32 \<in> set s \<Longrightarrow> 32 \<in> set (lower_chars b s)"
proof (induction s arbitrary: b)
  case Nil
  then show ?case by simp
next
  case (Cons a s)
  show ?case
  proof (cases "a = 32")
    case True
    then show ?thesis by (simp add: lower_consts)
  next
    case False
    with Cons.prems have "32 \<in> set s" by simp
    from Cons.IH[OF this] show ?thesis by simp
  qed
qed

lemma str_lower_space: "32 \<in> set (str_lower t) \<longleftrightarrow> 32 \<in> set t"
proof
  assume "32 \<in> set (str_lower t)"
  with lower_chars_set[of 32 "[]" t]
  obtain c where c: "c \<in> set t" "32 \<in> set (to_lower_full c)"
    unfolding str_lower_def by auto
  from to_lower_full_fixed[OF c(2)] have "c = 32" by simp
  with c show "32 \<in> set t" by simp
next
  assume "32 \<in> set t"
  then show "32 \<in> set (str_lower t)" unfolding str_lower_def by (rule lower_chars_space)
qed

lemma lower_chars_id:
  "\<forall>c \<in> set s. to_lower_full c = [c] \<and> c \<noteq> 931 \<Longrightarrow> lower_chars b s = s"
  by (induction s arbitrary: b) simp_all

lemma str_lower_single: "str_lower [c] = [c] \<longleftrightarrow> to_lower_full c = [c] \<and> c \<noteq> 931"
proof (cases "c = 931")
  case True
  then show ?thesis by (simp add: str_lower_def handle_capital_sigma_def Let_def)
next
  case False
  then show ?thesis by (simp add: str_lower_def)
qed

subsection \<open>Slugs\<close>

lemma str_replace_space:
  "str_replace s (lit '' '') (lit ''-'') = map (\<lambda>c. if c = 32 then 45 else c) s"
proof (induction s)
  case Nil
  show ?case by (subst str_replace.simps) (simp add: lit_consts)
next
  case (Cons c s)
  show ?case
  proof (cases "c = 32")
    case True
    have "str_replace (c # s) (lit '' '') (lit ''-'') = [45] @ str_replace s (lit '' '') (lit ''-'')"
      by (subst str_replace.simps) (simp add: True lit_consts)
    with Cons True show ?thesis by simp
  next
    case False
    have "str_replace (c # s) (lit '' '') (lit ''-'') = c # str_replace s (lit '' '') (lit ''-'')"
      by (subst str_replace.simps) (use False in \<open>simp add: lit_consts\<close>)
    with Cons False show ?thesis by simp
  qed
qed

lemma slug_chars:
  "generate_post_file_name t =
     map (\<lambda>c. if c = 32 then 45 else c)
       (filter (\<lambda>c. isalnum c \<or> c = 32) (str_lower t))"
  by (simp add: generate_post_file_name_def str_replace_space ord_consts)

lemma slug_char_class:
  assumes "c \<in> set (generate_post_file_name t)"
  shows "(isalnum c \<or> c = 45) \<and> c \<noteq> 32 \<and> to_lower_full c = [c] \<and> c \<noteq> 931"
proof -
  from assms obtain d where d: "d \<in> set (str_lower t)" "isalnum d \<or> d = 32"
    and c: "c = (if d = 32 then 45 else d)"
    by (auto simp: slug_chars)
  show ?thesis
  proof (cases "d = 32")
    case True
    with c show ?thesis by (simp add: lower_consts)
  next
    case False
    with d c have "isalnum c" "c = d" by simp_all
    moreover from str_lower_fixed[OF d(1)] have "to_lower_full d = [d] \<and> d \<noteq> 931" .
    ultimately show ?thesis using False by simp
  qed
qed

lemma slug_twice:
  "generate_post_file_name (generate_post_file_name t) =
     filter (\<lambda>c. c \<noteq> 45) (generate_post_file_name t)"
proof -
  let ?s = "generate_post_file_name t"
  have f: "\<forall>c \<in> set ?s. to_lower_full c = [c] \<and> c \<noteq> 931" using slug_char_class by blast
  then have l: "str_lower ?s = ?s" unfolding str_lower_def by (rule lower_chars_id)
  have k: "\<forall>c \<in> set ?s. (isalnum c \<or> c = 32) \<longleftrightarrow> c \<noteq> 45"
    using slug_char_class alnum_consts by blast
  have n: "\<forall>c \<in> set (filter (\<lambda>c. c \<noteq> 45) ?s). c \<noteq> 32" using slug_char_class by auto
  have "generate_post_file_name ?s
      = map (\<lambda>c. if c = 32 then 45 else c) (filter (\<lambda>c. isalnum c \<or> c = 32) ?s)"
    by (simp add: slug_chars[of ?s] l)
  also have "filter (\<lambda>c. isalnum c \<or> c = 32) ?s = filter (\<lambda>c. c \<noteq> 45) ?s"
    using k by (intro filter_cong) auto
  also have "map (\<lambda>c. if c = 32 then 45 else c) (filter (\<lambda>c. c \<noteq> 45) ?s)
      = map (\<lambda>c. c) (filter (\<lambda>c. c \<noteq> 45) ?s)"
    using n by (intro map_cong) auto
  finally show ?thesis by simp
qed

lemma hyphen_in_slug:
  "45 \<in> set (generate_post_file_name t) \<longleftrightarrow> 32 \<in> set t"
proof
  assume "45 \<in> set (generate_post_file_name t)"
  then obtain d where d: "d \<in> set (str_lower t)" "isalnum d \<or> d = 32"
    and c: "45 = (if d = 32 then 45 else d)"
    by (auto simp: slug_chars)
  have "d = 32"
  proof (rule ccontr)
    assume "d \<noteq> 32"
    with c d have "isalnum 45" by simp
    then show False by (simp add: alnum_consts)
  qed
  with d show "32 \<in> set t" by (simp add: str_lower_space)
next
  assume "32 \<in> set t"
  then have "32 \<in> set (filter (\<lambda>c. isalnum c \<or> c = 32) (str_lower t))"
    by (simp add: str_lower_space)
  then show "45 \<in> set (generate_post_file_name t)"
    by (force simp: slug_chars)
qed

lemma ascii_classes:
  "list_all (\<lambda>c. to_lower_full c = [if 65 \<le> c \<and> c \<le> 90 then c + 32 else c]
               \<and> (isalnum c \<longleftrightarrow> 48 \<le> c \<and> c \<le> 57 \<or> 65 \<le> c \<and> c \<le> 90 \<or> 97 \<le> c \<and> c \<le> 122)
               \<and> (isupper c \<longleftrightarrow> 65 \<le> c \<and> c \<le> 90)) [0..127]"
  by code_simp

lemma ascii_char:
  assumes "0 \<le> c" "c < 128"
  shows "to_lower_full c = [if 65 \<le> c \<and> c \<le> 90 then c + 32 else c]"
    and "isalnum c \<longleftrightarrow> 48 \<le> c \<and> c \<le> 57 \<or> 65 \<le> c \<and> c \<le> 90 \<or> 97 \<le> c \<and> c \<le> 122"
    and "isupper c \<longleftrightarrow> 65 \<le> c \<and> c \<le> 90"
proof -
  have "c \<in> set [0..127]" using assms by simp
  with ascii_classes have
    "to_lower_full c = [if 65 \<le> c \<and> c \<le> 90 then c + 32 else c]
               \<and> (isalnum c \<longleftrightarrow> 48 \<le> c \<and> c \<le> 57 \<or> 65 \<le> c \<and> c \<le> 90 \<or> 97 \<le> c \<and> c \<le> 122)
               \<and> (isupper c \<longleftrightarrow> 65 \<le> c \<and> c \<le> 90)"
    unfolding list_all_iff by blast
  then show "to_lower_full c = [if 65 \<le> c \<and> c \<le> 90 then c + 32 else c]"
    and "isalnum c \<longleftrightarrow> 48 \<le> c \<and> c \<le> 57 \<or> 65 \<le> c \<and> c \<le> 90 \<or> 97 \<le> c \<and> c \<le> 122"
    and "isupper c \<longleftrightarrow> 65 \<le> c \<and> c \<le> 90"
    by blast+
qed

lemma ascii_slug:
  assumes a: "\<forall>c \<in> set t. 0 \<le> c \<and> c < 128" and c: "c \<in> set (generate_post_file_name t)"
  shows "(97 \<le> c \<and> c \<le> 122 \<or> 48 \<le> c \<and> c \<le> 57 \<or> c = 45) \<and> \<not> isupper c"
proof -
  from c obtain d where d: "d \<in> set (str_lower t)" "isalnum d \<or> d = 32"
    and cd: "c = (if d = 32 then 45 else d)"
    by (auto simp: slug_chars)
  have n: "931 \<notin> set t" using a by auto
  from d(1) lower_chars_set[of d "[]" t] n obtain x where
    x: "x \<in> set t" "d \<in> set (to_lower_full x)"
    unfolding str_lower_def by blast
  from a x have xb: "0 \<le> x" "x < 128" by auto
  from x(2) ascii_char(1)[OF xb] have dx: "d = (if 65 \<le> x \<and> x \<le> 90 then x + 32 else x)"
    by simp
  then have db: "0 \<le> d" "d < 128" "\<not> (65 \<le> d \<and> d \<le> 90)" using xb by (auto split: if_splits)
  have cb: "0 \<le> c" "c < 128" "\<not> (65 \<le> c \<and> c \<le> 90)" using cd db by (auto split: if_splits)
  have "97 \<le> c \<and> c \<le> 122 \<or> 48 \<le> c \<and> c \<le> 57 \<or> c = 45"
  proof (cases "d = 32")
    case True
    with cd show ?thesis by simp
  next
    case False
    with d cd have "isalnum c" by simp
    with ascii_char(2)[OF cb(1,2)] cb(3) show ?thesis by auto
  qed
  moreover have "\<not> isupper c" using ascii_char(3)[OF cb(1,2)] cb(3) by simp
  ultimately show ?thesis by simp
qed

text \<open>
  Claim C10, as stated: every character of a slug is a lower-case alphanumeric character
  or a hyphen, and none is an upper-case letter. It fails: an upper-case letter that has no
  lower-case mapping, such as U+03D2, is alphanumeric and is kept as it is.
\<close>

theorem generate_post_file_name_upper_case:
  "generate_post_file_name [978] = [978] \<and> isupper 978"
  by code_simp

text \<open>
  Claim C10, amended. Every character of a slug is alphanumeric or a hyphen, is not a
  space and is left unchanged by \<^verbatim>\<open>str.lower\<close>. When the title is ASCII, every character
  of the slug is a lower-case ASCII letter, a digit or a hyphen, and none is upper-case.
\<close>

theorem generate_post_file_name_alphabet:
  "(\<forall>c \<in> set (generate_post_file_name t).
      (isalnum c \<or> c = ord CHR ''-'') \<and> c \<noteq> ord CHR '' '' \<and> str_lower [c] = [c])
   \<and> ((\<forall>c \<in> set t. 0 \<le> c \<and> c < 128) \<longrightarrow>
        (\<forall>c \<in> set (generate_post_file_name t).
           (ord CHR ''a'' \<le> c \<and> c \<le> ord CHR ''z'' \<or> ord CHR ''0'' \<le> c \<and> c \<le> ord CHR ''9''
            \<or> c = ord CHR ''-'')
           \<and> \<not> isupper c))"
proof (intro conjI impI ballI)
  fix c assume c: "c \<in> set (generate_post_file_name t)"
  from slug_char_class[OF c]
  show "isalnum c \<or> c = ord CHR ''-''" and "c \<noteq> ord CHR '' ''" and "str_lower [c] = [c]"
    by (simp_all add: ord_consts str_lower_single)
next
  fix c assume "\<forall>c \<in> set t. 0 \<le> c \<and> c < 128" and "c \<in> set (generate_post_file_name t)"
  from ascii_slug[OF this]
  show "ord CHR ''a'' \<le> c \<and> c \<le> ord CHR ''z'' \<or> ord CHR ''0'' \<le> c \<and> c \<le> ord CHR ''9''
            \<or> c = ord CHR ''-''" and "\<not> isupper c"
    by (simp_all add: ord_def)
qed

theorem generate_post_file_name_alphabet_witness:
  "generate_post_file_name (lit ''Hello, World!'') = lit ''hello-world''
   \<and> ord CHR ''w'' \<in> set (generate_post_file_name (lit ''Hello, World!''))
   \<and> (isalnum (ord CHR ''w'') \<or> ord CHR ''w'' = ord CHR ''-'')
   \<and> ord CHR ''w'' \<noteq> ord CHR '' '' \<and> str_lower [ord CHR ''w''] = [ord CHR ''w'']
   \<and> (ord CHR ''a'' \<le> ord CHR ''w'' \<and> ord CHR ''w'' \<le> ord CHR ''z''
        \<or> ord CHR ''0'' \<le> ord CHR ''w'' \<and> ord CHR ''w'' \<le> ord CHR ''9''
        \<or> ord CHR ''w'' = ord CHR ''-'')
   \<and> \<not> isupper (ord CHR ''w'')"
proof -
  let ?t = "lit ''Hello, World!''"
  have e: "generate_post_file_name ?t = lit ''hello-world''" by code_simp
  have m: "ord CHR ''w'' \<in> set (generate_post_file_name ?t)"
    unfolding e by (simp add: lit_def)
  have a: "\<forall>c \<in> set ?t. 0 \<le> c \<and> c < 128" by (simp add: lit_def ord_def)
  note f = generate_post_file_name_alphabet[of ?t]
  from f m have 1: "(isalnum (ord CHR ''w'') \<or> ord CHR ''w'' = ord CHR ''-'')
    \<and> ord CHR ''w'' \<noteq> ord CHR '' '' \<and> str_lower [ord CHR ''w''] = [ord CHR ''w'']"
    by blast
  from f a m have 2: "(ord CHR ''a'' \<le> ord CHR ''w'' \<and> ord CHR ''w'' \<le> ord CHR ''z''
        \<or> ord CHR ''0'' \<le> ord CHR ''w'' \<and> ord CHR ''w'' \<le> ord CHR ''9''
        \<or> ord CHR ''w'' = ord CHR ''-'')
   \<and> \<not> isupper (ord CHR ''w'')"
    by blast
  from e m 1 2 show ?thesis by blast
qed

text \<open>
  Claim C3, as stated: the slug of a slug is the slug. It fails: the second application
  drops the hyphens that the first one wrote for the spaces.
\<close>

theorem generate_post_file_name_not_idempotent:
  "generate_post_file_name (generate_post_file_name (lit ''My Post''))
     \<noteq> generate_post_file_name (lit ''My Post'')"
  by code_simp

text \<open>
  Claim C3, amended. The slug of a slug is the slug without its hyphens; it is the slug
  itself exactly when the title has no space.
\<close>

theorem generate_post_file_name_idempotent_iff:
  "generate_post_file_name (generate_post_file_name t)
     = filter (\<lambda>c. c \<noteq> ord CHR ''-'') (generate_post_file_name t)
   \<and> (generate_post_file_name (generate_post_file_name t) = generate_post_file_name t
        \<longleftrightarrow> ord CHR '' '' \<notin> set t)"
  by (auto simp add: slug_twice filter_id_conv hyphen_in_slug[symmetric] ord_consts)

theorem generate_post_file_name_idempotent_iff_witness:
  "ord CHR '' '' \<notin> set (lit ''Hello,World!'')
   \<and> generate_post_file_name (generate_post_file_name (lit ''Hello,World!''))
       = generate_post_file_name (lit ''Hello,World!'')
   \<and> generate_post_file_name (lit ''Hello,World!'') = lit ''helloworld''"
proof -
  have n: "ord CHR '' '' \<notin> set (lit ''Hello,World!'')" by (simp add: lit_def ord_def)
  have e: "generate_post_file_name (lit ''Hello,World!'') = lit ''helloworld''" by code_simp
  from generate_post_file_name_idempotent_iff[of "lit ''Hello,World!''"] n
  have "generate_post_file_name (generate_post_file_name (lit ''Hello,World!''))
          = generate_post_file_name (lit ''Hello,World!'')"
    by blast
  with n e show ?thesis by blast
qed

subsection \<open>Paths\<close>














subsection \<open>The order of the posts\<close>

lemma date_key_inj: "date_key a = date_key b \<longleftrightarrow> a = (b :: datetime)"
  by (cases a, cases b) (auto simp: date_key_def)

lemma list_sort_reverse_sorted:
  "sorted_wrt (\<lambda>x y. key x \<ge> key y) (list_sort key True xs)"
proof -
  have "sorted (map key (sort_key key (rev xs)))" by (rule sorted_sort_key)
  then have "sorted_wrt (\<lambda>x y. key x \<le> key y) (sort_key key (rev xs))"
    by (simp add: sorted_map)
  then show ?thesis
    by (simp add: list_sort_def sorted_wrt_rev)
qed

lemma list_sort_reverse_stable:
  "filter (\<lambda>y. key y = k) (list_sort key True xs) = filter (\<lambda>y. key y = k) xs"
proof -
  have "filter (\<lambda>y. key y = k) (rev (sort_key key (rev xs)))
          = rev (filter (\<lambda>y. key y = k) (sort_key key (rev xs)))"
    by (simp add: rev_filter)
  also have "\<dots> = rev (filter (\<lambda>y. key y = k) (rev xs))"
    by (simp only: sort_key_stable)
  also have "\<dots> = filter (\<lambda>y. key y = k) xs"
    by (simp add: rev_filter)
  finally show ?thesis by (simp add: list_sort_def)
qed

lemma list_sort_mset: "mset (list_sort key r xs) = mset xs"
  by (simp add: list_sort_def)

text \<open>
  Claim C5. Sorting the posts orders them by non-increasing date, keeps every post, and
  keeps the posts of one date in their order of the input.
\<close>

theorem sort_posts_stable_descending:
  "sorted_wrt (\<lambda>p q. date_key (date p) \<ge> date_key (date q)) (sort_posts all_posts)
   \<and> mset (sort_posts all_posts) = mset all_posts
   \<and> (\<forall>d. filter (\<lambda>p. date p = d) (sort_posts all_posts) = filter (\<lambda>p. date p = d) all_posts)"
proof (intro conjI allI)
  show "sorted_wrt (\<lambda>p q. date_key (date p) \<ge> date_key (date q)) (sort_posts all_posts)"
    unfolding sort_posts_def by (rule list_sort_reverse_sorted)
  show "mset (sort_posts all_posts) = mset all_posts"
    by (simp add: sort_posts_def list_sort_mset)
  fix d
  have "filter (\<lambda>p. date_key (date p) = date_key d) (sort_posts all_posts)
          = filter (\<lambda>p. date_key (date p) = date_key d) all_posts"
    unfolding sort_posts_def by (rule list_sort_reverse_stable)
  then show "filter (\<lambda>p. date p = d) (sort_posts all_posts) = filter (\<lambda>p. date p = d) all_posts"
    by (simp add: date_key_inj)
qed

theorem sort_posts_stable_descending_witness:
  "filter (\<lambda>p. date p = example_date 2024 1 1)
     (sort_posts [example_post (lit ''C'') [] (example_date 2023 12 31),
                  example_post (lit ''A'') [] (example_date 2024 1 1),
                  example_post (lit ''B'') [] (example_date 2024 1 1)])
     = [example_post (lit ''A'') [] (example_date 2024 1 1), example_post (lit ''B'') [] (example_date 2024 1 1)]
   \<and> map title
        (sort_posts [example_post (lit ''C'') [] (example_date 2023 12 31),
                     example_post (lit ''A'') [] (example_date 2024 1 1),
                     example_post (lit ''B'') [] (example_date 2024 1 1)])
     = [(lit ''A''), (lit ''B''), (lit ''C'')]"
proof -
  let ?xs = "[example_post (lit ''C'') [] (example_date 2023 12 31),
              example_post (lit ''A'') [] (example_date 2024 1 1),
              example_post (lit ''B'') [] (example_date 2024 1 1)]"
  from sort_posts_stable_descending[of ?xs]
  have "filter (\<lambda>p. date p = example_date 2024 1 1) (sort_posts ?xs)
          = filter (\<lambda>p. date p = example_date 2024 1 1) ?xs"
    by blast
  also have "\<dots> = [example_post (lit ''A'') [] (example_date 2024 1 1),
                     example_post (lit ''B'') [] (example_date 2024 1 1)]"
    by (simp add: example_post_def example_date_def lit_def ord_def)
  finally have a: "filter (\<lambda>p. date p = example_date 2024 1 1) (sort_posts ?xs)
          = [example_post (lit ''A'') [] (example_date 2024 1 1),
             example_post (lit ''B'') [] (example_date 2024 1 1)]" .
  have b: "map title (sort_posts ?xs) = [(lit ''A''), (lit ''B''), (lit ''C'')]" by code_simp
  from a b show ?thesis by blast
qed


subsection \<open>The category index\<close>

lemma append_post_lookup:
  "append_post index a p c =
     (if a = c then Some ((case index c of None \<Rightarrow> [] | Some b \<Rightarrow> b) @ [p]) else index c)"
  by (simp add: append_post_def)

lemma inner_fold_lookup:
  "foldl (\<lambda>index' category. append_post index' category p) index cs c =
     (if count_list cs c = 0 then index c
      else Some ((case index c of None \<Rightarrow> [] | Some b \<Rightarrow> b) @ replicate (count_list cs c) p))"
proof (induction cs arbitrary: index)
  case Nil
  then show ?case by simp
next
  case (Cons a cs)
  have "foldl (\<lambda>index' category. append_post index' category p) index (a # cs) c
          = foldl (\<lambda>index' category. append_post index' category p) (append_post index a p) cs c"
    by simp
  also have "\<dots> = (if count_list cs c = 0 then append_post index a p c
      else Some ((case append_post index a p c of None \<Rightarrow> [] | Some b \<Rightarrow> b)
                   @ replicate (count_list cs c) p))"
    by (rule Cons.IH)
  also have "\<dots> = (if count_list (a # cs) c = 0 then index c
      else Some ((case index c of None \<Rightarrow> [] | Some b \<Rightarrow> b)
                   @ replicate (count_list (a # cs) c) p))"
    by (simp add: append_post_lookup replicate_app_Cons_same)
  finally show ?case .
qed

lemma outer_fold_lookup:
  "foldl (\<lambda>index p. foldl (\<lambda>index' category. append_post index' category p) index (categories p))
      index0 ps c =
     (if concat (map (\<lambda>p. replicate (count_list (categories p) c) p) ps) = [] then index0 c
      else Some ((case index0 c of None \<Rightarrow> [] | Some b \<Rightarrow> b)
                   @ concat (map (\<lambda>p. replicate (count_list (categories p) c) p) ps)))"
proof (induction ps arbitrary: index0)
  case Nil
  then show ?case by simp
next
  case (Cons p ps)
  define F where "F = (\<lambda>index (p::post).
     foldl (\<lambda>index' category. append_post index' category p) index (categories p))"
  define B where "B = concat (map (\<lambda>p. replicate (count_list (categories p) c) p) ps)"
  have Fc: "F index0 p c = (if count_list (categories p) c = 0 then index0 c
      else Some ((case index0 c of None \<Rightarrow> [] | Some b \<Rightarrow> b)
                   @ replicate (count_list (categories p) c) p))"
    unfolding F_def by (rule inner_fold_lookup)
  have "foldl F index0 (p # ps) c = foldl F (F index0 p) ps c" by simp
  also have "\<dots> = (if B = [] then F index0 p c
      else Some ((case F index0 p c of None \<Rightarrow> [] | Some b \<Rightarrow> b) @ B))"
    unfolding F_def B_def by (rule Cons.IH)
  also have "\<dots> = (if replicate (count_list (categories p) c) p @ B = [] then index0 c
      else Some ((case index0 c of None \<Rightarrow> [] | Some b \<Rightarrow> b)
                   @ replicate (count_list (categories p) c) p @ B))"
    by (simp add: Fc)
  finally show ?case unfolding F_def B_def by simp
qed

lemma build_categories_lookup:
  "build_categories all_posts c =
     (if concat (map (\<lambda>p. replicate (count_list (categories p) c) p) all_posts) = [] then None
      else Some (concat (map (\<lambda>p. replicate (count_list (categories p) c) p) all_posts)))"
  unfolding build_categories_def by (simp only: outer_fold_lookup) simp

lemma count_list_distinct:
  "distinct xs \<Longrightarrow> count_list xs c = (if c \<in> set xs then 1 else 0)"
  by (induction xs) auto

lemma bucket_distinct:
  assumes "\<forall>p \<in> set ps. distinct (categories p)"
  shows "concat (map (\<lambda>p. replicate (count_list (categories p) c) p) ps)
           = filter (\<lambda>p. c \<in> set (categories p)) ps"
  using assms
proof (induction ps)
  case Nil
  then show ?case by simp
next
  case (Cons p ps)
  then have d: "distinct (categories p)" by simp
  have "count_list (categories p) c = (if c \<in> set (categories p) then 1 else 0)"
    using d by (rule count_list_distinct)
  with Cons show ?case by simp
qed

lemma bucket_set:
  "set (concat (map (\<lambda>p. replicate (count_list (categories p) c) p) ps))
     = {p \<in> set ps. c \<in> set (categories p)}"
  by (induction ps) (auto simp: count_list_0_iff)

text \<open>
  Claim C6. The index maps a category to the posts that declare it, one entry for each
  declaration, in the order of the list of posts; a category that no post declares has no
  bucket, and a post without categories is in no bucket. The list of posts itself is not
  changed: the index is computed from it.
\<close>

theorem build_categories_buckets:
  "build_categories all_posts c =
     (if \<exists>p \<in> set all_posts. c \<in> set (categories p)
      then Some (concat (map (\<lambda>p. replicate (count_list (categories p) c) p) all_posts))
      else None)
   \<and> ((\<forall>p \<in> set all_posts. distinct (categories p)) \<longrightarrow>
        concat (map (\<lambda>p. replicate (count_list (categories p) c) p) all_posts)
          = filter (\<lambda>p. c \<in> set (categories p)) all_posts)
   \<and> (\<forall>(p::post) bucket. categories p = [] \<and> build_categories all_posts c = Some bucket
         \<longrightarrow> p \<notin> set bucket)"
proof (intro conjI impI allI)
  have e: "concat (map (\<lambda>p. replicate (count_list (categories p) c) p) all_posts) = []
        \<longleftrightarrow> \<not> (\<exists>p \<in> set all_posts. c \<in> set (categories p))"
    using bucket_set[of c all_posts] by (metis (mono_tags, lifting) Collect_empty_eq set_empty)
  show "build_categories all_posts c =
     (if \<exists>p \<in> set all_posts. c \<in> set (categories p)
      then Some (concat (map (\<lambda>p. replicate (count_list (categories p) c) p) all_posts))
      else None)"
    using e by (simp add: build_categories_lookup)
next
  assume "\<forall>p \<in> set all_posts. distinct (categories p)"
  then show "concat (map (\<lambda>p. replicate (count_list (categories p) c) p) all_posts)
          = filter (\<lambda>p. c \<in> set (categories p)) all_posts"
    by (rule bucket_distinct)
next
  fix p :: post and bucket
  assume a: "categories p = [] \<and> build_categories all_posts c = Some bucket"
  then have "bucket = concat (map (\<lambda>p. replicate (count_list (categories p) c) p) all_posts)"
    by (simp add: build_categories_lookup split: if_splits)
  then have "set bucket = {p \<in> set all_posts. c \<in> set (categories p)}"
    by (simp only: bucket_set)
  with a show "p \<notin> set bucket" by auto
qed

theorem build_categories_buckets_witness:
  "build_categories [example_post (lit ''P1'') [(lit ''a'')] (example_date 2024 1 2),
                     example_post (lit ''P2'') [(lit ''a''), (lit ''b'')] (example_date 2024 1 1),
                     example_post (lit ''P3'') [] (example_date 2023 1 1)] (lit ''a'')
     = Some [example_post (lit ''P1'') [(lit ''a'')] (example_date 2024 1 2),
             example_post (lit ''P2'') [(lit ''a''), (lit ''b'')] (example_date 2024 1 1)]
   \<and> build_categories [example_post (lit ''P1'') [(lit ''a'')] (example_date 2024 1 2),
                     example_post (lit ''P2'') [(lit ''a''), (lit ''b'')] (example_date 2024 1 1),
                     example_post (lit ''P3'') [] (example_date 2023 1 1)] (lit ''c'') = None"
proof -
  let ?ps = "[example_post (lit ''P1'') [(lit ''a'')] (example_date 2024 1 2),
              example_post (lit ''P2'') [(lit ''a''), (lit ''b'')] (example_date 2024 1 1),
              example_post (lit ''P3'') [] (example_date 2023 1 1)]"
  have a: "build_categories ?ps (lit ''a'') =
     (if \<exists>p \<in> set ?ps. (lit ''a'') \<in> set (categories p)
      then Some (concat (map (\<lambda>p. replicate (count_list (categories p) (lit ''a'')) p) ?ps))
      else None)"
    using build_categories_buckets[of ?ps "(lit ''a'')"] by blast
  have c: "build_categories ?ps (lit ''c'') =
     (if \<exists>p \<in> set ?ps. (lit ''c'') \<in> set (categories p)
      then Some (concat (map (\<lambda>p. replicate (count_list (categories p) (lit ''c'')) p) ?ps))
      else None)"
    using build_categories_buckets[of ?ps "(lit ''c'')"] by blast
  have "build_categories ?ps (lit ''a'') = Some [example_post (lit ''P1'') [(lit ''a'')] (example_date 2024 1 2),
             example_post (lit ''P2'') [(lit ''a''), (lit ''b'')] (example_date 2024 1 1)]"
    unfolding a by (simp add: example_post_def lit_def ord_def)
  moreover have "build_categories ?ps (lit ''c'') = None"
    unfolding c by (simp add: example_post_def lit_def ord_def)
  ultimately show ?thesis by blast
qed

subsection \<open>The loader\<close>

lemma str_find_Some:
  assumes "str_find s sub = Some i"
  shows "s = take i s @ sub @ drop (i + length sub) s
         \<and> (\<forall>a b. s = a @ sub @ b \<longrightarrow> i \<le> length a)"
  using assms
proof (induction s arbitrary: i)
  case Nil
  then show ?case by (simp split: if_splits)
next
  case (Cons c cs)
  show ?case
  proof (cases "prefix sub (c # cs)")
    case True
    with Cons.prems have i: "i = 0" by simp
    from True obtain r where "c # cs = sub @ r" by (auto simp: prefix_def)
    then show ?thesis using i by (metis add_0 append_Nil append_eq_conv_conj le0 take_0)
  next
    case False
    with Cons.prems obtain j where j: "str_find cs sub = Some j" and i: "i = Suc j"
      by auto
    from Cons.IH[OF j] have eq: "cs = take j cs @ sub @ drop (j + length sub) cs"
      and least: "\<forall>a b. cs = a @ sub @ b \<longrightarrow> j \<le> length a" by auto
    have "c # cs = take i (c # cs) @ sub @ drop (i + length sub) (c # cs)"
      using eq i by simp
    moreover have "\<forall>a b. c # cs = a @ sub @ b \<longrightarrow> i \<le> length a"
    proof (intro allI impI)
      fix a b assume ab: "c # cs = a @ sub @ b"
      show "i \<le> length a"
      proof (cases a)
        case Nil
        with ab have "prefix sub (c # cs)" by (simp add: prefix_def)
        with False show ?thesis by simp
      next
        case (Cons x a')
        with ab have "cs = a' @ sub @ b" by simp
        with least have "j \<le> length a'" by blast
        with Cons i show ?thesis by simp
      qed
    qed
    ultimately show ?thesis by blast
  qed
qed

lemma str_find_None:
  assumes "str_find s sub = None"
  shows "\<not> (\<exists>a b. s = a @ sub @ b)"
  using assms
proof (induction s)
  case Nil
  then show ?case by (simp split: if_splits)
next
  case (Cons c cs)
  from Cons.prems have np: "\<not> prefix sub (c # cs)" and n: "str_find cs sub = None"
    by (auto split: if_splits)
  from Cons.IH[OF n] have ih: "\<not> (\<exists>a b. cs = a @ sub @ b)" .
  show ?case
  proof
    assume "\<exists>a b. c # cs = a @ sub @ b"
    then obtain a b where ab: "c # cs = a @ sub @ b" by blast
    show False
    proof (cases a)
      case Nil
      with ab have "prefix sub (c # cs)" by (simp add: prefix_def)
      with np show False by simp
    next
      case (Cons x a')
      with ab have "cs = a' @ sub @ b" by simp
      with ih show False by blast
    qed
  qed
qed

lemma str_partition_spec:
  assumes "sep \<noteq> []"
  shows "\<exists>t m r. str_partition s sep = Inr (t, m, r)
     \<and> ((\<exists>a b. s = a @ sep @ b) \<longrightarrow>
          s = t @ sep @ r \<and> m = sep \<and> (\<forall>a b. s = a @ sep @ b \<longrightarrow> length t \<le> length a))
     \<and> (\<not> (\<exists>a b. s = a @ sep @ b) \<longrightarrow> t = s \<and> m = [] \<and> r = [])"
proof (cases "str_find s sep")
  case None
  then show ?thesis
    using assms str_find_None[OF None] by (simp add: str_partition_def)
next
  case (Some i)
  from str_find_Some[OF Some]
  have eq: "s = take i s @ sep @ drop (i + length sep) s"
    and least: "\<forall>a b. s = a @ sep @ b \<longrightarrow> i \<le> length a" by auto
  have il: "i \<le> length s"
  proof -
    have "i \<le> length (take i s)"
      using least[rule_format, of "take i s" "drop (i + length sep) s"] eq by simp
    then show ?thesis by simp
  qed
  have p: "str_partition s sep = Inr (take i s, sep, drop (i + length sep) s)"
    using assms Some by (simp add: str_partition_def)
  have ex: "\<exists>a b. s = a @ sep @ b" using eq by blast
  have l: "\<forall>a b. s = a @ sep @ b \<longrightarrow> length (take i s) \<le> length a"
    using least il by simp
  show ?thesis
  proof (intro exI conjI impI)
    show "str_partition s sep = Inr (take i s, sep, drop (i + length sep) s)" by (rule p)
    show "s = take i s @ sep @ drop (i + length sep) s" by (rule eq)
    show "sep = sep" ..
    show "\<forall>a b. s = a @ sep @ b \<longrightarrow> length (take i s) \<le> length a" by (rule l)
    show "take i s = s" if "\<not> (\<exists>a b. s = a @ sep @ b)" using that ex by blast
    show "sep = []" if "\<not> (\<exists>a b. s = a @ sep @ b)" using that ex by blast
    show "drop (i + length sep) s = []" if "\<not> (\<exists>a b. s = a @ sep @ b)"
      using that ex by blast
  qed
qed

lemma load_post_fields:
  assumes "convert buf = (html, Meta)"
    and "load_post convert strptime bp can br buf = Inr p"
  shows "body p = html \<and> (\<exists>m r. str_partition html (lit ''<!--more-->'') = Inr (teaser p, m, r))"
proof -
  from assms obtain tt where 1: "meta_first Meta (lit ''title'') = Inr tt"
    by (auto simp: load_post_def split: sum.splits)
  from assms 1 obtain te m r where 2: "str_partition html (lit ''<!--more-->'') = Inr (te, m, r)"
    by (auto simp: load_post_def split: sum.splits)
  from assms 1 2 obtain cats where 3: "meta_first Meta (lit ''categories'') = Inr cats"
    by (auto simp: load_post_def split: sum.splits)
  from assms 1 2 3 obtain ds where 4: "meta_first Meta (lit ''date'') = Inr ds"
    by (auto simp: load_post_def split: sum.splits)
  from assms 1 2 3 4 obtain dt where 5: "strptime (str_strip ds) = Some dt"
    by (auto simp: load_post_def split: option.splits)
  from assms 1 2 3 4 5 have "body p = html" "teaser p = te"
    by (auto simp: load_post_def Let_def)
  with 2 show ?thesis by simp
qed

lemma more_partition:
  "\<exists>t m r. str_partition html (lit ''<!--more-->'') = Inr (t, m, r)
     \<and> ((\<exists>a b. html = a @ (lit ''<!--more-->'') @ b) \<longrightarrow>
          html = t @ (lit ''<!--more-->'') @ r
          \<and> (\<forall>a b. html = a @ (lit ''<!--more-->'') @ b \<longrightarrow> length t \<le> length a))
     \<and> (\<not> (\<exists>a b. html = a @ (lit ''<!--more-->'') @ b) \<longrightarrow> t = html)"
proof -
  have ne: "(lit ''<!--more-->'') \<noteq> []" by (simp add: lit_def)
  from str_partition_spec[OF ne, of html] show ?thesis by blast
qed

text \<open>
  Claim C7. The teaser of a post is the part of the rendered body before the first
  occurrence of the marker, and the whole body when the marker does not occur; the body
  of the post is the rendered body.
\<close>

theorem load_post_teaser:
  "\<exists>t m r. str_partition html (lit ''<!--more-->'') = Inr (t, m, r)
     \<and> ((\<exists>a b. html = a @ (lit ''<!--more-->'') @ b) \<longrightarrow>
          html = t @ (lit ''<!--more-->'') @ r
          \<and> (\<forall>a b. html = a @ (lit ''<!--more-->'') @ b \<longrightarrow> length t \<le> length a))
     \<and> (\<not> (\<exists>a b. html = a @ (lit ''<!--more-->'') @ b) \<longrightarrow> t = html)
     \<and> (\<forall>convert strptime bp can br buf Meta p.
           convert buf = (html, Meta) \<and> load_post convert strptime bp can br buf = Inr p
             \<longrightarrow> teaser p = t \<and> body p = html)"
proof -
  from more_partition[of html] obtain t m r where
    p: "str_partition html (lit ''<!--more-->'') = Inr (t, m, r)"
    and a: "(\<exists>a b. html = a @ (lit ''<!--more-->'') @ b) \<longrightarrow>
          html = t @ (lit ''<!--more-->'') @ r
          \<and> (\<forall>a b. html = a @ (lit ''<!--more-->'') @ b \<longrightarrow> length t \<le> length a)"
    and b: "\<not> (\<exists>a b. html = a @ (lit ''<!--more-->'') @ b) \<longrightarrow> t = html"
    by blast
  have c: "\<forall>convert strptime bp can br buf Meta q.
     convert buf = (html, Meta) \<and> load_post convert strptime bp can br buf = Inr q
       \<longrightarrow> teaser q = t \<and> body q = html"
  proof (intro allI impI)
    fix convert strptime bp can br buf Meta q
    assume h: "convert buf = (html, Meta) \<and> load_post convert strptime bp can br buf = Inr q"
    then have "body q = html \<and> (\<exists>m r. str_partition html (lit ''<!--more-->'') = Inr (teaser q, m, r))"
      using load_post_fields[of convert buf html Meta strptime bp can br q] by simp
    with p show "teaser q = t \<and> body q = html" by auto
  qed
  show ?thesis
    apply (rule exI[of _ t], rule exI[of _ m], rule exI[of _ r])
    using p a b c by (intro conjI) assumption+
qed

theorem load_post_teaser_witness:
  "str_partition (lit ''<p>intro</p><!--more--><p>rest</p>'') (lit ''<!--more-->'')
     = Inr ((lit ''<p>intro</p>''), (lit ''<!--more-->''), (lit ''<p>rest</p>''))
   \<and> (\<exists>p. load_post (example_convert (example_meta (lit ''a b''))) example_strptime (lit ''blog'')
            (lit ''http://example.org'') None (lit ''x'') = Inr p
          \<and> teaser p = (lit ''<p>intro</p>'')
          \<and> body p = (lit ''<p>intro</p><!--more--><p>rest</p>''))"
proof -
  let ?html = "(lit ''<p>intro</p><!--more--><p>rest</p>'')"
  let ?load = "load_post (example_convert (example_meta (lit ''a b''))) example_strptime (lit ''blog'')
            (lit ''http://example.org'') None (lit ''x'')"
  have e: "str_partition ?html (lit ''<!--more-->'')
     = Inr ((lit ''<p>intro</p>''), (lit ''<!--more-->''), (lit ''<p>rest</p>''))"
    by code_simp
  have c: "example_convert (example_meta (lit ''a b'')) (lit ''x'') = (?html, example_meta (lit ''a b''))"
    by (simp add: example_convert_def)
  have "\<not> isl ?load" by code_simp
  then obtain p where p: "?load = Inr p" by (cases ?load) auto
  from load_post_teaser[of ?html] obtain t m r where
    1: "str_partition ?html (lit ''<!--more-->'') = Inr (t, m, r)"
    and 2: "\<forall>convert strptime bp can br buf Meta p.
           convert buf = (?html, Meta) \<and> load_post convert strptime bp can br buf = Inr p
             \<longrightarrow> teaser p = t \<and> body p = ?html"
    by blast
  from 1 e have t: "t = (lit ''<p>intro</p>'')" by simp
  from 2 c p have "teaser p = t \<and> body p = ?html" by blast
  with t p e show ?thesis by blast
qed

lemma str_split_blank: "list_all isspace v \<Longrightarrow> str_split v = []"
  by (subst str_split.simps) (simp add: list_all_iff)

lemma str_split_empty: "str_split v = [] \<longleftrightarrow> list_all isspace v"
proof
  assume e: "str_split v = []"
  have "dropWhile isspace v = []"
  proof (rule ccontr)
    assume "dropWhile isspace v \<noteq> []"
    then have "str_split v \<noteq> []" by (subst str_split.simps) (simp add: Let_def)
    with e show False by simp
  qed
  then show "list_all isspace v" by (simp add: dropWhile_eq_Nil_conv list_all_iff)
next
  assume "list_all isspace v"
  then show "str_split v = []" by (rule str_split_blank)
qed

lemma load_post_no_categories:
  assumes c: "convert buf = (html, Meta)" and t: "Meta (lit ''title'') = Some (tt # ts)"
    and n: "Meta (lit ''categories'') = None"
  shows "load_post convert strptime bp can br buf = Inl (KeyError (lit ''categories''))"
proof -
  from more_partition[of html] obtain te m r where
    p: "str_partition html (lit ''<!--more-->'') = Inr (te, m, r)" by blast
  have 1: "meta_first Meta (lit ''title'') = Inr tt" using t by (simp add: meta_first_def)
  have 2: "meta_first Meta (lit ''categories'') = Inl (KeyError (lit ''categories''))"
    using n by (simp add: meta_first_def)
  show ?thesis
    unfolding load_post_def by (simp only: c 1 2 p prod.case sum.case)
qed

lemma load_post_blank_categories:
  assumes c: "convert buf = (html, Meta)" and t: "Meta (lit ''title'') = Some (tt # ts)"
    and v: "Meta (lit ''categories'') = Some (v # vs)" "list_all isspace v"
    and d: "Meta (lit ''date'') = Some (ds # dss)" "strptime (str_strip ds) = Some dt"
  shows "\<exists>p. load_post convert strptime bp can br buf = Inr p \<and> categories p = []"
proof -
  from more_partition[of html] obtain te m r where
    p: "str_partition html (lit ''<!--more-->'') = Inr (te, m, r)" by blast
  have 1: "meta_first Meta (lit ''title'') = Inr tt" using t by (simp add: meta_first_def)
  have 2: "meta_first Meta (lit ''categories'') = Inr v" using v by (simp add: meta_first_def)
  have 3: "meta_first Meta (lit ''date'') = Inr ds" using d by (simp add: meta_first_def)
  have 4: "str_split v = []" using v by (simp add: str_split_blank)
  show ?thesis
    unfolding load_post_def
    by (simp only: c 1 2 3 4 p d prod.case sum.case option.case Let_def) simp
qed

lemma load_post_missing_categories:
  assumes c: "convert buf = (html, Meta)" and n: "Meta (lit ''categories'') = None"
  shows "isl (load_post convert strptime bp can br buf)"
proof -
  from more_partition[of html] obtain te m r where
    p: "str_partition html (lit ''<!--more-->'') = Inr (te, m, r)" by blast
  have 2: "meta_first Meta (lit ''categories'') = Inl (KeyError (lit ''categories''))"
    using n by (simp add: meta_first_def)
  show ?thesis
  proof (cases "meta_first Meta (lit ''title'')")
    case (Inl e)
    show ?thesis unfolding load_post_def by (simp only: c Inl 2 p prod.case sum.case sum.disc)
  next
    case (Inr tt)
    show ?thesis unfolding load_post_def by (simp only: c Inr 2 p prod.case sum.case sum.disc)
  qed
qed

lemma meta_first_Inr:
  "meta_first Meta key = Inr v \<Longrightarrow> \<exists>vs. Meta key = Some (v # vs)"
  by (auto simp: meta_first_def split: option.splits list.splits)

lemma load_post_categories_of:
  assumes "convert buf = (html, Meta)"
    and "load_post convert strptime bp can br buf = Inr p"
  shows "\<exists>v vs. Meta (lit ''categories'') = Some (v # vs) \<and> categories p = str_split v"
proof -
  from assms obtain tt where 1: "meta_first Meta (lit ''title'') = Inr tt"
    by (auto simp: load_post_def split: sum.splits)
  from assms 1 obtain te m r where
    2: "str_partition html (lit ''<!--more-->'') = Inr (te, m, r)"
    by (auto simp: load_post_def split: sum.splits)
  from assms 1 2 obtain cats where 3: "meta_first Meta (lit ''categories'') = Inr cats"
    by (auto simp: load_post_def split: sum.splits)
  from assms 1 2 3 obtain ds where 4: "meta_first Meta (lit ''date'') = Inr ds"
    by (auto simp: load_post_def split: sum.splits)
  from assms 1 2 3 4 obtain dt where 5: "strptime (str_strip ds) = Some dt"
    by (auto simp: load_post_def split: option.splits)
  from assms 1 2 3 4 5 have "categories p = str_split cats"
    by (auto simp: load_post_def Let_def)
  with meta_first_Inr[OF 3] show ?thesis by blast
qed

lemma get_all_posts_first_error:
  assumes "snd (splitext fname) = lit ''.md''" and "read_ascii raw = Inr buf"
    and "load_post convert strptime bp can br buf = Inl e"
  shows "get_all_posts convert strptime (Inr ((fname, Inr raw) # input_files)) bp can br
           = Inl e"
  by (simp add: get_all_posts_def assms)

text \<open>
  Claim C2, as stated: a post whose metadata has no \<^verbatim>\<open>categories\<close> key is loaded with an
  empty list of categories. It fails: \<^verbatim>\<open>Meta['categories'][0]\<close> raises \<^verbatim>\<open>KeyError\<close>, which
  nothing catches, and \<^verbatim>\<open>get_all_posts\<close> returns no post.
\<close>

theorem get_all_posts_missing_categories:
  "((example_meta (lit ''a b''))(lit ''categories'' := None)) (lit ''categories'') = None
   \<and> get_all_posts (example_convert ((example_meta (lit ''a b''))(lit ''categories'' := None)))
         example_strptime (Inr [(lit ''post.md'', Inr (lit ''x''))]) (lit ''blog'')
         (lit ''http://example.org'') None
       = Inl (KeyError (lit ''categories''))"
  by code_simp

text \<open>
  Claim C2, amended. A post whose metadata has no \<^verbatim>\<open>categories\<close> key is not loaded: the
  loader fails, with \<^verbatim>\<open>KeyError('categories')\<close> when the title is present, and so does
  \<^verbatim>\<open>get_all_posts\<close> on a directory whose first entry is that Markdown file. A post that
  is loaded has the key, and its categories are the words of the first value of the key:
  the list is empty exactly when that value is blank. A file with a blank value, a title
  and a date that parses is loaded, with an empty list of categories.
\<close>

theorem load_post_categories:
  assumes "convert buf = (html, Meta)"
  shows "(Meta (lit ''categories'') = None \<longrightarrow>
            isl (load_post convert strptime bp can br buf)
            \<and> (\<forall>tt ts. Meta (lit ''title'') = Some (tt # ts) \<longrightarrow>
                 load_post convert strptime bp can br buf = Inl (KeyError (lit ''categories''))
                 \<and> (\<forall>fname raw input_files.
                       snd (splitext fname) = lit ''.md'' \<and> read_ascii raw = Inr buf \<longrightarrow>
                       get_all_posts convert strptime (Inr ((fname, Inr raw) # input_files))
                           bp can br
                         = Inl (KeyError (lit ''categories'')))))
       \<and> (\<forall>p. load_post convert strptime bp can br buf = Inr p \<longrightarrow>
             (\<exists>v vs. Meta (lit ''categories'') = Some (v # vs)
                \<and> categories p = str_split v
                \<and> (categories p = [] \<longleftrightarrow> list_all isspace v)))
       \<and> (\<forall>tt ts v vs ds dss dt.
             Meta (lit ''title'') = Some (tt # ts) \<and> Meta (lit ''categories'') = Some (v # vs)
             \<and> list_all isspace v \<and> Meta (lit ''date'') = Some (ds # dss)
             \<and> strptime (str_strip ds) = Some dt \<longrightarrow>
             (\<exists>p. load_post convert strptime bp can br buf = Inr p \<and> categories p = []))"
proof (intro conjI impI allI)
  assume "Meta (lit ''categories'') = None"
  with assms show "isl (load_post convert strptime bp can br buf)"
    by (rule load_post_missing_categories)
next
  fix tt ts
  assume "Meta (lit ''categories'') = None" "Meta (lit ''title'') = Some (tt # ts)"
  with assms
  show "load_post convert strptime bp can br buf = Inl (KeyError (lit ''categories''))"
    using load_post_no_categories by blast
next
  fix tt ts fname raw input_files
  assume n: "Meta (lit ''categories'') = None" "Meta (lit ''title'') = Some (tt # ts)"
    and f: "snd (splitext fname) = lit ''.md'' \<and> read_ascii raw = Inr buf"
  from assms n
  have "load_post convert strptime bp can br buf = Inl (KeyError (lit ''categories''))"
    using load_post_no_categories by blast
  with f show "get_all_posts convert strptime (Inr ((fname, Inr raw) # input_files)) bp can br
                         = Inl (KeyError (lit ''categories''))"
    using get_all_posts_first_error by blast
next
  fix p
  assume "load_post convert strptime bp can br buf = Inr p"
  from load_post_categories_of[OF assms this] obtain v vs where
    v: "Meta (lit ''categories'') = Some (v # vs)" "categories p = str_split v" by blast
  then have "categories p = [] \<longleftrightarrow> list_all isspace v" by (simp add: str_split_empty)
  with v show "\<exists>v vs. Meta (lit ''categories'') = Some (v # vs)
                \<and> categories p = str_split v
                \<and> (categories p = [] \<longleftrightarrow> list_all isspace v)"
    by blast
next
  fix tt ts v vs ds dss dt
  assume "Meta (lit ''title'') = Some (tt # ts) \<and> Meta (lit ''categories'') = Some (v # vs)
             \<and> list_all isspace v \<and> Meta (lit ''date'') = Some (ds # dss)
             \<and> strptime (str_strip ds) = Some dt"
  with assms show "\<exists>p. load_post convert strptime bp can br buf = Inr p \<and> categories p = []"
    using load_post_blank_categories[of convert buf html Meta tt ts v vs ds dss strptime dt bp can br]
    by blast
qed

theorem load_post_categories_witness:
  "load_post (example_convert ((example_meta (lit ''a b''))(lit ''categories'' := None)))
       example_strptime (lit ''blog'') (lit ''http://example.org'') None (lit ''x'')
     = Inl (KeyError (lit ''categories''))
   \<and> get_all_posts (example_convert ((example_meta (lit ''a b''))(lit ''categories'' := None)))
       example_strptime
       (Inr [(lit ''post.md'', Inr (lit ''x'')), (lit ''notes.txt'', Inr (lit ''y''))])
       (lit ''blog'') (lit ''http://example.org'') None
     = Inl (KeyError (lit ''categories''))
   \<and> (\<exists>p. load_post (example_convert (example_meta (lit '' ''))) example_strptime (lit ''blog'')
            (lit ''http://example.org'') None (lit ''x'') = Inr p \<and> categories p = [])
   \<and> (\<exists>p. load_post (example_convert (example_meta (lit ''a b''))) example_strptime
            (lit ''blog'') (lit ''http://example.org'') None (lit ''x'') = Inr p
          \<and> categories p = [lit ''a'', lit ''b''])"
proof -
  let ?M = "(example_meta (lit ''a b''))(lit ''categories'' := None)"
  let ?N = "example_meta (lit '' '')"
  let ?K = "example_meta (lit ''a b'')"
  let ?html = "lit ''<p>intro</p><!--more--><p>rest</p>''"
  let ?blog = "lit ''blog''"
  let ?url = "lit ''http://example.org''"
  let ?x = "lit ''x''"
  have c1: "example_convert ?M ?x = (?html, ?M)" by (simp add: example_convert_def)
  have c2: "example_convert ?N ?x = (?html, ?N)" by (simp add: example_convert_def)
  have c3: "example_convert ?K ?x = (?html, ?K)" by (simp add: example_convert_def)
  have n: "?M (lit ''categories'') = None" by simp
  have t1: "?M (lit ''title'') = Some [lit ''My Post'']" by code_simp
  have f: "snd (splitext (lit ''post.md'')) = lit ''.md'' \<and> read_ascii ?x = Inr ?x"
    by code_simp
  have m2: "?N (lit ''title'') = Some [lit ''My Post'']
     \<and> ?N (lit ''categories'') = Some [lit '' '']
     \<and> list_all isspace (lit '' '')
     \<and> ?N (lit ''date'') = Some [lit '' 2024-03-07 09:30'']
     \<and> example_strptime (str_strip (lit '' 2024-03-07 09:30'')) = Some (example_date 2024 3 7)"
    by code_simp
  note a = load_post_categories[of "example_convert ?M" ?x ?html ?M example_strptime
      ?blog ?url None, OF c1]
  note b = load_post_categories[of "example_convert ?N" ?x ?html ?N example_strptime
      ?blog ?url None, OF c2]
  note c = load_post_categories[of "example_convert ?K" ?x ?html ?K example_strptime
      ?blog ?url None, OF c3]
  from a n t1 have 1: "load_post (example_convert ?M) example_strptime ?blog ?url None ?x
       = Inl (KeyError (lit ''categories''))" by blast
  from a n t1 f have 2: "get_all_posts (example_convert ?M) example_strptime
       (Inr [(lit ''post.md'', Inr ?x), (lit ''notes.txt'', Inr (lit ''y''))]) ?blog ?url None
       = Inl (KeyError (lit ''categories''))" by blast
  from b m2 have 3: "\<exists>p. load_post (example_convert ?N) example_strptime ?blog ?url None ?x
       = Inr p \<and> categories p = []" by blast
  have "\<not> isl (load_post (example_convert ?K) example_strptime ?blog ?url None ?x)"
    by code_simp
  then obtain p where p: "load_post (example_convert ?K) example_strptime ?blog ?url None ?x
       = Inr p"
    by (cases "load_post (example_convert ?K) example_strptime ?blog ?url None ?x") auto
  from c p obtain v vs where v: "?K (lit ''categories'') = Some (v # vs)"
    "categories p = str_split v" by blast
  have "?K (lit ''categories'') = Some [lit ''a b'']" by code_simp
  with v have "v = lit ''a b''" by simp
  moreover have "str_split (lit ''a b'') = [lit ''a'', lit ''b'']" by code_simp
  ultimately have "categories p = [lit ''a'', lit ''b'']" using v by simp
  with p have 4: "\<exists>p. load_post (example_convert ?K) example_strptime ?blog ?url None ?x
       = Inr p \<and> categories p = [lit ''a'', lit ''b'']" by blast
  from 1 2 3 4 show ?thesis by (intro conjI)
qed


subsection \<open>Post pages\<close>

lemma writes_mkdir: "writes (snd (mkdir os d w)) = writes w"
  by (simp add: mkdir_def split: option.splits)

lemma writes_mkdirs: "writes (snd (mkdirs os ds w)) = writes w"
proof (induction os ds w rule: mkdirs.induct)
  case (1 os w)
  show ?case by simp
next
  case (2 os d w)
  show ?case by (simp add: writes_mkdir)
next
  case (3 os d d' ds w)
  obtain r w' where m: "mkdir os d w = (r, w')" by (cases "mkdir os d w")
  then have w': "writes w' = writes w" using writes_mkdir[of os d w] by simp
  show ?case
  proof (cases r)
    case (Inr u)
    with 3(2)[OF m[symmetric] Inr] m w' show ?thesis by simp
  next
    case (Inl e)
    show ?thesis
    proof (cases "\<exists>m. e = FileExistsError m")
      case True
      then obtain x where x: "e = FileExistsError x" by blast
      with 3(1)[OF m[symmetric] Inl x] m Inl w' show ?thesis by simp
    next
      case False
      with m Inl w' show ?thesis by (cases e) simp_all
    qed
  qed
qed

lemma writes_create_path_to_file: "writes (snd (create_path_to_file os path w)) = writes w"
  by (simp add: create_path_to_file_def makedirs_def Let_def writes_mkdir writes_mkdirs)

lemma generate_post_empty:
  "body p = [] \<Longrightarrow>
     generate_post os p tv env w
       = (Inl (EnvironmentError
                 (lit ''No content for post ['' @ relative_path p @ lit ''] found.'')), w)"
  by (simp add: generate_post_def)

lemma generate_post_nonempty:
  "body p \<noteq> [] \<Longrightarrow>
     generate_post os p tv env w
       = (case env (lit ''post_index.html'') of
            Inl e \<Rightarrow> (Inl e, w)
          | Inr template \<Rightarrow>
              (case create_path_to_file os
                      (os_path_join (output_dir tv) [relative_path p, lit ''index.html'']) w of
                 (Inl e, w1) \<Rightarrow> (Inl e, w1)
               | (Inr u, w1) \<Rightarrow>
                   (case write_rendered os False
                           (os_path_join (output_dir tv) [relative_path p, lit ''index.html''])
                           template (tv\<lparr>post_var := Some p\<rparr>) w1 of
                      (Inl e, w2) \<Rightarrow> (Inl e, w2)
                    | (Inr u', w2) \<Rightarrow> (Inr (tv\<lparr>post_var := Some p\<rparr>), w2))))"
  by (simp add: generate_post_def Let_def)

text \<open>
  Claim C9, as stated: the page of a post fails to render, with an error that names the
  relative path of the post, if and only if the body of the post is empty. It fails: a
  post with a body also fails when a step of the rendering does, here the creation of a
  directory whose name is too long, with an error of the same class that names the path.
\<close>

theorem generate_post_name_too_long:
  "body example_long_post \<noteq> []
   \<and> relative_path example_long_post
       = generate_post_file_path (title example_long_post) (date example_long_post)
   \<and> fst (generate_post example_os_name_max example_long_post example_site
             example_environment example_tree)
       = Inl (EnvironmentError
                (lit ''[Errno 36] File name too long: '' @ [39] @ lit ''out/''
                   @ relative_path example_long_post @ [39]))"
  by code_simp

text \<open>
  Claim C9, amended. When the body of the post is empty, \<^verbatim>\<open>generate_post\<close> raises the
  \<^verbatim>\<open>EnvironmentError\<close> whose message holds the relative path of the post, and leaves the
  output tree as it was: no directory is created and no file is opened. When the body is
  not empty, it fails exactly when a step fails, with the error of that step: the lookup of
  the template and the creation of the directories, before which no file is opened, the
  opening of the file, the rendering, which leaves the file empty, and the writing;
  otherwise the rendered text is written to the file of the post.
\<close>

theorem generate_post_empty_body:
  "(body p = [] \<longrightarrow>
      generate_post os p tv env w
        = (Inl (EnvironmentError
                  (lit ''No content for post ['' @ relative_path p @ lit ''] found.'')), w))
   \<and> (body p \<noteq> [] \<longrightarrow>
        (env (lit ''post_index.html'') = Inl e \<longrightarrow> generate_post os p tv env w = (Inl e, w))
        \<and> (env (lit ''post_index.html'') = Inr template \<longrightarrow>
             writes (snd (create_path_to_file os
                (os_path_join (output_dir tv) [relative_path p, lit ''index.html'']) w))
               = writes w
             \<and> (create_path_to_file os
                  (os_path_join (output_dir tv) [relative_path p, lit ''index.html'']) w
                  = (Inl e, w1) \<longrightarrow>
                generate_post os p tv env w = (Inl e, w1))
             \<and> (create_path_to_file os
                  (os_path_join (output_dir tv) [relative_path p, lit ''index.html'']) w
                  = (Inr u, w1) \<longrightarrow>
                (open_error os w1
                    (os_path_join (output_dir tv) [relative_path p, lit ''index.html''])
                    = Some e \<longrightarrow>
                  generate_post os p tv env w = (Inl e, w1))
                \<and> (open_error os w1
                    (os_path_join (output_dir tv) [relative_path p, lit ''index.html''])
                    = None \<longrightarrow>
                   (template (tv\<lparr>post_var := Some p\<rparr>) = Inl e \<longrightarrow>
                      generate_post os p tv env w
                        = (Inl e, w1\<lparr>writes := writes w1 @
                             [(os_path_join (output_dir tv)
                                 [relative_path p, lit ''index.html''], [])]\<rparr>))
                   \<and> (template (tv\<lparr>post_var := Some p\<rparr>) = Inr text \<longrightarrow>
                        (write_error os w1
                           (os_path_join (output_dir tv) [relative_path p, lit ''index.html''])
                           text = Some (e, written) \<longrightarrow>
                         generate_post os p tv env w
                           = (Inl e, w1\<lparr>writes := writes w1 @
                                [(os_path_join (output_dir tv)
                                    [relative_path p, lit ''index.html''], written)]\<rparr>))
                        \<and> (write_error os w1
                           (os_path_join (output_dir tv) [relative_path p, lit ''index.html''])
                           text = None \<longrightarrow>
                         generate_post os p tv env w
                           = (Inr (tv\<lparr>post_var := Some p\<rparr>),
                              w1\<lparr>writes := writes w1 @
                                [(os_path_join (output_dir tv)
                                    [relative_path p, lit ''index.html''], text)]\<rparr>)))))))"
proof (cases "body p = []")
  case True
  then show ?thesis by (simp add: generate_post_empty)
next
  case False
  note g = generate_post_nonempty[OF False, of os tv env w]
  show ?thesis
  proof (intro conjI impI)
    assume "body p = []"
    with False show "generate_post os p tv env w
        = (Inl (EnvironmentError
                  (lit ''No content for post ['' @ relative_path p @ lit ''] found.'')), w)"
      by simp
  next
    assume "env (lit ''post_index.html'') = Inl e"
    then show "generate_post os p tv env w = (Inl e, w)" by (simp add: g)
  next
    show "writes (snd (create_path_to_file os
                (os_path_join (output_dir tv) [relative_path p, lit ''index.html'']) w))
               = writes w"
      by (rule writes_create_path_to_file)
  next
    assume "env (lit ''post_index.html'') = Inr template"
      and "create_path_to_file os
                  (os_path_join (output_dir tv) [relative_path p, lit ''index.html'']) w
                  = (Inl e, w1)"
    then show "generate_post os p tv env w = (Inl e, w1)" by (simp add: g)
  next
    assume "env (lit ''post_index.html'') = Inr template"
      and "create_path_to_file os
                  (os_path_join (output_dir tv) [relative_path p, lit ''index.html'']) w
                  = (Inr u, w1)"
      and "open_error os w1
                    (os_path_join (output_dir tv) [relative_path p, lit ''index.html''])
                    = Some e"
    then show "generate_post os p tv env w = (Inl e, w1)"
      by (simp add: g write_rendered_def)
  next
    assume "env (lit ''post_index.html'') = Inr template"
      and "create_path_to_file os
                  (os_path_join (output_dir tv) [relative_path p, lit ''index.html'']) w
                  = (Inr u, w1)"
      and "open_error os w1
                    (os_path_join (output_dir tv) [relative_path p, lit ''index.html''])
                    = None"
      and "template (tv\<lparr>post_var := Some p\<rparr>) = Inl e"
    then show "generate_post os p tv env w
                        = (Inl e, w1\<lparr>writes := writes w1 @
                             [(os_path_join (output_dir tv)
                                 [relative_path p, lit ''index.html''], [])]\<rparr>)"
      by (simp add: g write_rendered_def)
  next
    assume "env (lit ''post_index.html'') = Inr template"
      and "create_path_to_file os
                  (os_path_join (output_dir tv) [relative_path p, lit ''index.html'']) w
                  = (Inr u, w1)"
      and "open_error os w1
                    (os_path_join (output_dir tv) [relative_path p, lit ''index.html''])
                    = None"
      and "template (tv\<lparr>post_var := Some p\<rparr>) = Inr text"
      and "write_error os w1
                           (os_path_join (output_dir tv) [relative_path p, lit ''index.html''])
                           text = Some (e, written)"
    then show "generate_post os p tv env w
                           = (Inl e, w1\<lparr>writes := writes w1 @
                                [(os_path_join (output_dir tv)
                                    [relative_path p, lit ''index.html''], written)]\<rparr>)"
      by (simp add: g write_rendered_def)
  next
    assume "env (lit ''post_index.html'') = Inr template"
      and "create_path_to_file os
                  (os_path_join (output_dir tv) [relative_path p, lit ''index.html'']) w
                  = (Inr u, w1)"
      and "open_error os w1
                    (os_path_join (output_dir tv) [relative_path p, lit ''index.html''])
                    = None"
      and "template (tv\<lparr>post_var := Some p\<rparr>) = Inr text"
      and "write_error os w1
                           (os_path_join (output_dir tv) [relative_path p, lit ''index.html''])
                           text = None"
    then show "generate_post os p tv env w
                           = (Inr (tv\<lparr>post_var := Some p\<rparr>),
                              w1\<lparr>writes := writes w1 @
                                [(os_path_join (output_dir tv)
                                    [relative_path p, lit ''index.html''], text)]\<rparr>)"
      by (simp add: g write_rendered_def)
  qed
qed

theorem generate_post_empty_body_witness:
  "generate_post example_os ((example_post (lit ''A'') [] (example_date 2024 1 1))\<lparr>body := []\<rparr>)
       example_site example_environment example_tree
     = (Inl (EnvironmentError (lit ''No content for post [2024/01/01/a] found.'')),
        example_tree)
   \<and> fst (generate_post example_os (example_post (lit ''A'') [] (example_date 2024 1 1))
            example_site example_environment example_tree)
       = Inr (example_site\<lparr>post_var := Some (example_post (lit ''A'') [] (example_date 2024 1 1))\<rparr>)
   \<and> writes (snd (generate_post example_os (example_post (lit ''A'') [] (example_date 2024 1 1))
            example_site example_environment example_tree))
       = [(lit ''out/2024/01/01/a/index.html'', lit ''next=None'')]"
proof -
  let ?p = "example_post (lit ''A'') [] (example_date 2024 1 1)"
  let ?q = "?p\<lparr>body := []\<rparr>"
  let ?path = "os_path_join (output_dir example_site) [relative_path ?p, lit ''index.html'']"
  let ?w1 = "snd (create_path_to_file example_os ?path example_tree)"
  let ?tv = "example_site\<lparr>post_var := Some ?p\<rparr>"
  let ?text = "lit ''next=None''"
  have q: "body ?q = []" by simp
  have rq: "lit ''No content for post ['' @ relative_path ?q @ lit ''] found.''
      = lit ''No content for post [2024/01/01/a] found.''" by code_simp
  have p: "body ?p \<noteq> []" by (simp add: example_post_def lit_def)
  have e: "example_environment (lit ''post_index.html'') = Inr example_template"
    by (simp add: example_environment_def)
  have "fst (create_path_to_file example_os ?path example_tree) = Inr ()" by code_simp
  then have c: "create_path_to_file example_os ?path example_tree = (Inr (), ?w1)"
    by (simp add: prod_eq_iff)
  have o: "open_error example_os ?w1 ?path = None" by (simp add: example_os_def)
  have t: "example_template ?tv = Inr ?text" by (simp add: example_template_def example_site_def)
  have r: "write_error example_os ?w1 ?path ?text = None" by (simp add: example_os_def)
  have pa: "?path = lit ''out/2024/01/01/a/index.html''" by code_simp
  note a = generate_post_empty_body[of ?q example_os example_site example_environment example_tree]
  note b = generate_post_empty_body[of ?p example_os example_site example_environment
      example_tree _ example_template ?w1 "()" ?text]
  from a q have 1: "generate_post example_os ?q example_site example_environment example_tree
     = (Inl (EnvironmentError
              (lit ''No content for post ['' @ relative_path ?q @ lit ''] found.'')),
        example_tree)"
    by blast
  from b p e have w: "writes ?w1 = writes example_tree" by blast
  from b p e c o t r have 2: "generate_post example_os ?p example_site example_environment
       example_tree = (Inr ?tv, ?w1\<lparr>writes := writes ?w1 @ [(?path, ?text)]\<rparr>)"
    by blast
  have 3: "writes (snd (generate_post example_os ?p example_site example_environment
       example_tree)) = [(lit ''out/2024/01/01/a/index.html'', ?text)]"
  proof -
    have s1: "writes (snd (generate_post example_os ?p example_site example_environment
       example_tree)) = writes ?w1 @ [(?path, ?text)]"
      unfolding 2 by simp
    have s2: "writes ?w1 = []" using w by (simp add: example_tree_def)
    have "writes (snd (generate_post example_os ?p example_site example_environment
       example_tree)) = [] @ [(?path, ?text)]"
      by (rule trans[OF s1]) (rule arg_cong[OF s2])
    then show ?thesis by (simp only: pa append_Nil)
  qed
  show ?thesis
    apply (intro conjI)
    subgoal using 1 by (simp only: rq)
    subgoal unfolding 2 by simp
    subgoal by (rule 3)
    done
qed

end
